theory Spec2Isabelle
  imports Complex_Main
begin

section \<open>The frame deferral engine of libs/hwui/FrameBuilder.cpp\<close>

text \<open>
  The embedding follows \<^verbatim>\<open>FrameBuilder.cpp\<close> function by function. The builder's
  mutable members become a record that every function takes and returns; a fatal abort
  and every undefined read of the C++ (a null pointer, an index past the end, the back
  of an empty vector) is a value of \<open>error\<close>. Floats are the reals they denote.

  Of the classes the file uses only \<^verbatim>\<open>FrameBuilder.cpp\<close> itself is among the sources.
  \<^verbatim>\<open>Matrix4\<close>, \<^verbatim>\<open>Snapshot\<close> and \<^verbatim>\<open>SkPath\<close> are type variables
  \<open>'m\<close>, \<open>'s\<close>, \<open>'p\<close>, and the functions on them (and the bakers of
  \<^verbatim>\<open>BakedOpState\<close>) are the fields of the record \<open>Ext\<close> that every function takes:
  the theorems hold for every implementation of these collaborators.
\<close>

subsection \<open>Errors\<close>

datatype error = Fatal string | NullDereference | OutOfRange | BadCast

definition andThen :: "error + 'a \<Rightarrow> ('a \<Rightarrow> error + 'b) \<Rightarrow> error + 'b" where
  "andThen r f = (case r of Inl e \<Rightarrow> Inl e | Inr v \<Rightarrow> f v)"

definition deref :: "'a option \<Rightarrow> error + 'a" where
  "deref p = (case p of None \<Rightarrow> Inl NullDereference | Some v \<Rightarrow> Inr v)"

definition elementAt :: "'a list \<Rightarrow> nat \<Rightarrow> error + 'a" where
  "elementAt xs i = (if i < length xs then Inr (xs ! i) else Inl OutOfRange)"

lemma andThen_cong [fundef_cong]:
  "r = r' \<Longrightarrow> (\<And>v. r' = Inr v \<Longrightarrow> f v = f' v) \<Longrightarrow> andThen r f = andThen r' f'"
  by (auto simp: andThen_def split: sum.splits)

lemma elementAt_mem: "elementAt xs i = Inr x \<Longrightarrow> x \<in> set xs"
  by (auto simp: elementAt_def split: if_splits)

subsection \<open>Geometry, paint and the recorded ops\<close>

record Rect =
  left :: real
  rtop :: real
  right :: real
  bottom :: real

type_synonym Vector3 = "real \<times> real \<times> real"

definition mkRect :: "real \<Rightarrow> real \<Rightarrow> real \<Rightarrow> real \<Rightarrow> Rect" where
  "mkRect l t r b = \<lparr>left = l, rtop = t, right = r, bottom = b\<rparr>"

text \<open>Modelled from the spec: \<^verbatim>\<open>Rect.h\<close> is not among the sources. A default rect is
  all zero, \<^verbatim>\<open>Rect(w, h)\<close> is \<open>(0, 0, w, h)\<close>, a rect is empty when it has no area,
  intersection takes the inner edges and rounding out moves every edge outwards to an
  integer.\<close>

definition emptyRect :: Rect where
  "emptyRect = mkRect 0 0 0 0"

definition rectWH :: "real \<Rightarrow> real \<Rightarrow> Rect" where
  "rectWH w h = mkRect 0 0 w h"

definition rectIsEmpty :: "Rect \<Rightarrow> bool" where
  "rectIsEmpty r \<longleftrightarrow> right r \<le> left r \<or> bottom r \<le> rtop r"

definition rectGetWidth :: "Rect \<Rightarrow> real" where
  "rectGetWidth r = right r - left r"

definition rectGetHeight :: "Rect \<Rightarrow> real" where
  "rectGetHeight r = bottom r - rtop r"

definition doIntersect :: "Rect \<Rightarrow> Rect \<Rightarrow> Rect" where
  "doIntersect r c = mkRect (max (left r) (left c)) (max (rtop r) (rtop c))
                            (min (right r) (right c)) (min (bottom r) (bottom c))"

definition roundOut :: "Rect \<Rightarrow> Rect" where
  "roundOut r = mkRect (of_int \<lfloor>left r\<rfloor>) (of_int \<lfloor>rtop r\<rfloor>)
                       (of_int \<lceil>right r\<rceil>) (of_int \<lceil>bottom r\<rceil>)"

text \<open>The conversion of a float to \<^verbatim>\<open>uint32_t\<close> truncates; outside the range of the
  target it is undefined in C++, and an error here.\<close>

definition toUInt32 :: "real \<Rightarrow> error + nat" where
  "toUInt32 v = (if -1 < v \<and> v < 2 ^ 32 then Inr (nat \<lfloor>v\<rfloor>) else Inl OutOfRange)"

datatype ClipMode = Rectangle | RectangleList | Region

record ClipBase =
  mode :: ClipMode
  rect :: Rect

datatype SkXfermodeMode =
  kClear_Mode | kSrc_Mode | kDst_Mode | kSrcOver_Mode | kDstOver_Mode | kSrcIn_Mode
  | kDstIn_Mode | kSrcOut_Mode | kDstOut_Mode | kSrcATop_Mode | kDstATop_Mode | kXor_Mode
  | kPlus_Mode | kModulate_Mode | kScreen_Mode | kOverlay_Mode | kDarken_Mode
  | kLighten_Mode

text \<open>What the builder reads of a paint: whether a path effect is set, the anti-alias
  flag, the colour (its alpha in the top byte) and the transfer mode.\<close>

record SkPaint =
  getPathEffect :: bool
  isAntiAlias :: bool
  getColor :: nat
  getXfermode :: SkXfermodeMode

definition SK_ColorBLACK :: nat where
  "SK_ColorBLACK = 0xFF000000"

definition defaultPaint :: SkPaint where
  "defaultPaint = \<lparr>getPathEffect = False, isAntiAlias = False, getColor = SK_ColorBLACK,
                    getXfermode = kSrcOver_Mode\<rparr>"

definition setAlpha :: "nat \<Rightarrow> SkPaint \<Rightarrow> SkPaint" where
  "setAlpha a p = p\<lparr>getColor := (a mod 256) * 2 ^ 24 + getColor p mod 2 ^ 24\<rparr>"

text \<open>Modelled from the spec: \<^verbatim>\<open>PaintUtils::getXfermodeDirect\<close>
  (\<^verbatim>\<open>utils/PaintUtils.h\<close> is not among the sources) is the transfer mode of the paint,
  src-over when there is no paint.\<close>

definition getXfermodeDirect :: "SkPaint option \<Rightarrow> SkXfermodeMode" where
  "getXfermodeDirect p = (case p of None \<Rightarrow> kSrcOver_Mode | Some q \<Rightarrow> getXfermode q)"

datatype SkColorType =
  kUnknown_SkColorType | kAlpha_8_SkColorType | kRGB_565_SkColorType
  | kARGB_4444_SkColorType | kRGBA_8888_SkColorType | kBGRA_8888_SkColorType
  | kIndex_8_SkColorType | kGray_8_SkColorType

record SkBitmap =
  colorType :: SkColorType
  getGenerationID :: nat

text \<open>\<open>opId\<close> carries what the builder reads of each concrete op besides the common
  fields. A \<open>RenderNodeOp\<close> is one object reachable both from the op list and from the
  child list of its display list, and the builder writes its \<^verbatim>\<open>skipInOrderDraw\<close>
  through the second: the op list holds the index of the child.\<close>

record 'm OffscreenBuffer =
  inverseTransformInWindow :: 'm

text \<open>The buffer a \<open>LayerOp\<close> draws from: the persistent layer of a node, or the
  buffer of the layer builder at an index of \<^verbatim>\<open>mLayerBuilders\<close>.\<close>

datatype 'm LayerHandle = NodeLayer "'m OffscreenBuffer" | BuilderLayer nat

datatype ('m, 'p) RecordedOpId =
  ArcOp | BeginLayerOp | BeginUnclippedLayerOp | BitmapOp SkBitmap | BitmapMeshOp
  | BitmapRectOp | CirclePropsOp real real real | EndLayerOp | EndUnclippedLayerOp
  | FunctorOp | LinesOp | OvalOp | PatchOp SkBitmap | PathOp | PointsOp | RectOp
  | RenderNodeOp nat | RoundRectOp real real
  | RoundRectPropsOp real real real real real real
  | SimpleRectsOp | TextOp | TextOnPathOp | TextureLayerOp
  | ShadowOp real 'p Rect Vector3
  | LayerOp "'m LayerHandle"
  | CopyToLayerOp nat | CopyFromLayerOp nat

record ('m, 'p) RecordedOp =
  opId :: "('m, 'p) RecordedOpId"
  unmappedBounds :: Rect
  localMatrix :: 'm
  localClip :: "ClipBase option"
  paint :: "SkPaint option"

subsection \<open>Baked state and batches\<close>

record 'm ResolvedRenderState =
  transform :: 'm
  clipState :: "ClipBase option"
  clippedBounds :: Rect

record ('m, 'p) BakedOpState =
  computedState :: "'m ResolvedRenderState"
  bakedAlpha :: real
  op :: "('m, 'p) RecordedOp"

datatype OpBatchType =
  Bitmap | MergedPatch | Patch | AlphaMaskTexture | Text | ColorText | Vertices
  | AlphaVertices | Shadow | Functor | TextureLayer | CopyToLayer | CopyFromLayer

datatype StrokeBehavior = StyleDefined | Forced

subsection \<open>Render nodes\<close>

record 'p Outline =
  getShouldClip :: bool
  outlineIsEmpty :: bool
  outlineWillClip :: bool
  outlineAlpha :: real
  outlinePath :: "'p option"

record 'p RevealClip =
  revealWillClip :: bool
  revealBounds :: Rect
  revealRadius :: real
  revealPath :: "'p option"

datatype LayerType = LayerNone | Software | RenderLayer

datatype ClippingFlag = CLIP_TO_BOUNDS | CLIP_TO_CLIP_BOUNDS

record ('m, 'p) RenderProperties =
  getAlpha :: real
  getOutline :: "'p Outline"
  getRevealClip :: "'p RevealClip"
  getScaleX :: real
  getScaleY :: real
  getLeft :: int
  getTop :: int
  getWidth :: int
  getHeight :: int
  getStaticMatrix :: "'m option"
  getAnimationMatrix :: "'m option"
  hasTransformMatrix :: bool
  isTransformTranslateOnly :: bool
  getTranslationX :: real
  getTranslationY :: real
  getTransformMatrix :: "'m option"
  effectiveLayerType :: LayerType
  getClippingFlags :: "ClippingFlag set"
  getHasOverlappingRendering :: bool
  getZ :: real
  getProjectBackwards :: bool

record Chunk =
  beginOpIndex :: nat
  endOpIndex :: nat
  beginChildIndex :: nat
  endChildIndex :: nat
  reorderChildren :: bool

text \<open>A node owns its properties, its display list if it has one, its layer if it has
  one, and the ops of the descendants projected onto it. A display list is its chunks,
  its ops, its children (the \<open>RenderNodeOp\<close> objects, each with its common fields, its
  node, its \<^verbatim>\<open>skipInOrderDraw\<close> as recorded and its transform from the compositing
  ancestor) and the index of the projection receiver.\<close>

datatype ('m, 'p) RenderNode =
  RenderNode
    (properties: "('m, 'p) RenderProperties")
    (getDisplayList: "('m, 'p) DisplayList option")
    (getLayer: "'m OffscreenBuffer option")
    (mProjectedNodes: "('m, 'p) RenderNodeOp list")
and ('m, 'p) DisplayList =
  DisplayList
    (getChunks: "Chunk list")
    (getOps: "('m, 'p) RecordedOp list")
    (getChildren: "('m, 'p) RenderNodeOp list")
    (projectionReceiveIndex: int)
and ('m, 'p) RenderNodeOp =
  MkRenderNodeOp
    (nodeOp: "('m, 'p) RecordedOp")
    (renderNode: "('m, 'p) RenderNode")
    (skipInOrderDraw: bool)
    (transformFromCompositingAncestor: 'm)

subsection \<open>The collaborators\<close>

datatype SaveFlag = kMatrix_SaveFlag | kClip_SaveFlag

text \<open>The functions of the classes whose code is not among the sources, as the builder
  calls them. A setter takes the snapshot (or matrix) it changes last and returns the
  changed one. The bakers return \<open>None\<close> for the null pointer of a quick reject.\<close>

record ('s, 'm, 'p) Ext =
  identity4 :: 'm
  multiply :: "'m \<Rightarrow> 'm \<Rightarrow> 'm"
  translate4 :: "real \<Rightarrow> real \<Rightarrow> 'm \<Rightarrow> 'm"
  loadInverse :: "'m \<Rightarrow> 'm"
  mapRect :: "'m \<Rightarrow> Rect \<Rightarrow> Rect"
  mapPoint3d :: "'m \<Rightarrow> Vector3 \<Rightarrow> Vector3"
  isSimple :: "'m \<Rightarrow> bool"
  positiveScale :: "'m \<Rightarrow> bool"
  isPureTranslate :: "'m \<Rightarrow> bool"
  isZero :: "real \<Rightarrow> bool"
  pathIsEmpty :: "'p \<Rightarrow> bool"
  pathIntersect :: "'p \<Rightarrow> 'p \<Rightarrow> 'p"
  pathAddRect :: "Rect \<Rightarrow> 'p"
  initializeSaveStack :: "nat \<Rightarrow> nat \<Rightarrow> Rect \<Rightarrow> Vector3 \<Rightarrow> 's"
  snapshotCopy :: "SaveFlag set \<Rightarrow> 's \<Rightarrow> 's"
  snapshotTransform :: "'s \<Rightarrow> 'm"
  getRenderTargetClip :: "'s \<Rightarrow> Rect"
  getRelativeLightCenter :: "'s \<Rightarrow> Vector3"
  getLocalClipBounds :: "'s \<Rightarrow> Rect"
  quickRejectConservative :: "'s \<Rightarrow> real \<Rightarrow> real \<Rightarrow> real \<Rightarrow> real \<Rightarrow> bool"
  translate :: "real \<Rightarrow> real \<Rightarrow> 's \<Rightarrow> 's"
  concatMatrix :: "'m \<Rightarrow> 's \<Rightarrow> 's"
  scaleAlpha :: "real \<Rightarrow> 's \<Rightarrow> 's"
  clipRect :: "Rect \<Rightarrow> 's \<Rightarrow> 's"
  setClippingRoundRect :: "Rect \<Rightarrow> real \<Rightarrow> 's \<Rightarrow> 's"
  setClippingOutline :: "'p Outline \<Rightarrow> 's \<Rightarrow> 's"
  setProjectionPathMask :: "'p option \<Rightarrow> 's \<Rightarrow> 's"
  applyClip :: "ClipBase option \<Rightarrow> 'm \<Rightarrow> 's \<Rightarrow> 's"
  initializeViewport :: "nat \<Rightarrow> nat \<Rightarrow> 's \<Rightarrow> 's"
  resetRoundRectClipState :: "'s \<Rightarrow> 's"
  setRelativeLightCenter :: "Vector3 \<Rightarrow> 's \<Rightarrow> 's"
  loadTranslate :: "real \<Rightarrow> real \<Rightarrow> real \<Rightarrow> 's \<Rightarrow> 's"
  setClip :: "Rect \<Rightarrow> 's \<Rightarrow> 's"
  tryConstruct :: "'s \<Rightarrow> ('m, 'p) RecordedOp \<Rightarrow> ('m, 'p) BakedOpState option"
  tryStrokeableOpConstruct ::
    "'s \<Rightarrow> ('m, 'p) RecordedOp \<Rightarrow> StrokeBehavior \<Rightarrow> ('m, 'p) BakedOpState option"
  tryShadowOpConstruct :: "'s \<Rightarrow> ('m, 'p) RecordedOp \<Rightarrow> ('m, 'p) BakedOpState option"
  nothingToDraw :: "('m, 'p) RenderNode \<Rightarrow> bool"
  computeOrdering :: "('m, 'p) RenderNode \<Rightarrow> ('m, 'p) RenderNode"
  getClippingRectForFlags ::
    "('m, 'p) RenderProperties \<Rightarrow> ClippingFlag set \<Rightarrow> Rect \<Rightarrow> Rect"
  viewportClipOf :: "nat \<Rightarrow> nat \<Rightarrow> Rect \<Rightarrow> ClipBase"

text \<open>Modelled from the spec: \<^verbatim>\<open>BakedOpState::directConstruct\<close> (\<^verbatim>\<open>BakedOpState.h\<close>
  is not among the sources) bypasses the bake: the state carries the given clip and the
  given rect as its bounds.\<close>

definition directConstruct ::
  "('s, 'm, 'p) Ext \<Rightarrow> ClipBase \<Rightarrow> Rect \<Rightarrow> ('m, 'p) RecordedOp \<Rightarrow> ('m, 'p) BakedOpState"
where
  "directConstruct ext clip dstRect recordedOp =
     \<lparr>computedState = \<lparr>transform = identity4 ext, clipState = Some clip,
                        clippedBounds = dstRect\<rparr>,
      bakedAlpha = 1, op = recordedOp\<rparr>"

subsection \<open>CanvasState\<close>

text \<open>Modelled from the spec: \<^verbatim>\<open>CanvasState\<close> (its code is not among the sources) is
  a stack of snapshots, the current one and those saved below it, nearest first.
  \<open>save\<close> pushes a copy of the current snapshot and returns the depth before the push,
  \<open>restoreToCount n\<close> pops until the depth is \<open>n\<close> and never pops the root, and a
  \<open>restore\<close> below the initial depth is a fatal error.\<close>

record 's CanvasState =
  mSnapshot :: 's
  mPrevious :: "'s list"

definition getSaveCount :: "'s CanvasState \<Rightarrow> nat" where
  "getSaveCount cs = Suc (length (mPrevious cs))"

definition save ::
  "('s, 'm, 'p) Ext \<Rightarrow> SaveFlag set \<Rightarrow> 's CanvasState \<Rightarrow> nat \<times> 's CanvasState"
where
  "save ext flags cs =
     (getSaveCount cs,
      \<lparr>mSnapshot = snapshotCopy ext flags (mSnapshot cs),
       mPrevious = mSnapshot cs # mPrevious cs\<rparr>)"

definition restore :: "'s CanvasState \<Rightarrow> error + 's CanvasState" where
  "restore cs =
     (case mPrevious cs of
        [] \<Rightarrow> Inl (Fatal ''restore below initial depth'')
      | p # ps \<Rightarrow> Inr \<lparr>mSnapshot = p, mPrevious = ps\<rparr>)"

fun restoreSnapshots :: "nat \<Rightarrow> 's \<Rightarrow> 's list \<Rightarrow> 's CanvasState" where
  "restoreSnapshots saveCount s [] = \<lparr>mSnapshot = s, mPrevious = []\<rparr>"
| "restoreSnapshots saveCount s (p # ps) =
     (if saveCount < Suc (length (p # ps)) then restoreSnapshots saveCount p ps
      else \<lparr>mSnapshot = s, mPrevious = p # ps\<rparr>)"

definition restoreToCount :: "nat \<Rightarrow> 's CanvasState \<Rightarrow> 's CanvasState" where
  "restoreToCount saveCount cs = restoreSnapshots saveCount (mSnapshot cs) (mPrevious cs)"

definition writeSnapshot :: "('s \<Rightarrow> 's) \<Rightarrow> 's CanvasState \<Rightarrow> 's CanvasState" where
  "writeSnapshot f cs = cs\<lparr>mSnapshot := f (mSnapshot cs)\<rparr>"

subsection \<open>LayerBuilder\<close>

text \<open>Modelled from the spec: \<^verbatim>\<open>LayerBuilder\<close> (its code is not among the sources).
  How it groups what it is given into batches is no part of the builder; the model keeps,
  in the order received, every deferral it is asked for (an op with its batch id, and
  its merge id when deferred as mergeable, or a layer clear), and its stack of active
  unclipped save layers, the top last. \<open>clear\<close> empties what was deferred.\<close>

datatype ('m, 'p) Deferral =
  UnmergeableOp "('m, 'p) BakedOpState" OpBatchType
  | MergeableOp "('m, 'p) BakedOpState" OpBatchType nat
  | LayerClear Rect

record ('m, 'p) LayerBuilder =
  width :: nat
  height :: nat
  repaintRect :: Rect
  beginLayerOp :: "('m, 'p) RecordedOp option"
  layerNode :: "('m, 'p) RenderNode option"
  viewportClip :: ClipBase
  deferred :: "('m, 'p) Deferral list"
  activeUnclippedSaveLayers :: "('m, 'p) BakedOpState list"

definition newLayerBuilder ::
  "('s, 'm, 'p) Ext \<Rightarrow> nat \<Rightarrow> nat \<Rightarrow> Rect \<Rightarrow> ('m, 'p) RecordedOp option
     \<Rightarrow> ('m, 'p) RenderNode option \<Rightarrow> ('m, 'p) LayerBuilder"
where
  "newLayerBuilder ext w h repaint beginOp node =
     \<lparr>width = w, height = h, repaintRect = repaint, beginLayerOp = beginOp,
      layerNode = node, viewportClip = viewportClipOf ext w h repaint,
      deferred = [], activeUnclippedSaveLayers = []\<rparr>"

definition deferUnmergeableOp ::
  "('m, 'p) BakedOpState \<Rightarrow> OpBatchType \<Rightarrow> ('m, 'p) LayerBuilder \<Rightarrow> ('m, 'p) LayerBuilder"
where
  "deferUnmergeableOp bakedState batchId lb =
     lb\<lparr>deferred := deferred lb @ [UnmergeableOp bakedState batchId]\<rparr>"

definition deferMergeableOp ::
  "('m, 'p) BakedOpState \<Rightarrow> OpBatchType \<Rightarrow> nat \<Rightarrow> ('m, 'p) LayerBuilder
     \<Rightarrow> ('m, 'p) LayerBuilder"
where
  "deferMergeableOp bakedState batchId mergeId lb =
     lb\<lparr>deferred := deferred lb @ [MergeableOp bakedState batchId mergeId]\<rparr>"

definition deferLayerClear :: "Rect \<Rightarrow> ('m, 'p) LayerBuilder \<Rightarrow> ('m, 'p) LayerBuilder" where
  "deferLayerClear r lb = lb\<lparr>deferred := deferred lb @ [LayerClear r]\<rparr>"

definition clear :: "('m, 'p) LayerBuilder \<Rightarrow> ('m, 'p) LayerBuilder" where
  "clear lb = lb\<lparr>deferred := []\<rparr>"

subsection \<open>The members of FrameBuilder\<close>

text \<open>\<open>mLayerStack\<close> has its top last, as the vector has. \<open>mLayerHandles\<close> counts the
  layer-handle cells taken from the frame allocator; a cell is known by its number.\<close>

record ('s, 'm, 'p) FrameBuilder =
  mLayerBuilders :: "('m, 'p) LayerBuilder list"
  mLayerStack :: "nat list"
  mCanvasState :: "'s CanvasState"
  mLayerHandles :: nat

definition currentSnapshot :: "('s, 'm, 'p) FrameBuilder \<Rightarrow> 's" where
  "currentSnapshot fb = mSnapshot (mCanvasState fb)"

definition canvas ::
  "('s \<Rightarrow> 's) \<Rightarrow> ('s, 'm, 'p) FrameBuilder \<Rightarrow> ('s, 'm, 'p) FrameBuilder"
where
  "canvas f fb = fb\<lparr>mCanvasState := writeSnapshot f (mCanvasState fb)\<rparr>"

text \<open>\<^verbatim>\<open>currentLayer()\<close> is \<^verbatim>\<open>*(mLayerBuilders[mLayerStack.back()])\<close>.\<close>

definition currentLayerIndex :: "('s, 'm, 'p) FrameBuilder \<Rightarrow> error + nat" where
  "currentLayerIndex fb =
     (if mLayerStack fb = [] then Inl OutOfRange
      else if last (mLayerStack fb) < length (mLayerBuilders fb)
        then Inr (last (mLayerStack fb))
      else Inl OutOfRange)"

definition currentLayer :: "('s, 'm, 'p) FrameBuilder \<Rightarrow> error + ('m, 'p) LayerBuilder" where
  "currentLayer fb = andThen (currentLayerIndex fb) (\<lambda>i. Inr (mLayerBuilders fb ! i))"

definition onCurrentLayer ::
  "(('m, 'p) LayerBuilder \<Rightarrow> ('m, 'p) LayerBuilder) \<Rightarrow> ('s, 'm, 'p) FrameBuilder
     \<Rightarrow> error + ('s, 'm, 'p) FrameBuilder"
where
  "onCurrentLayer f fb =
     andThen (currentLayerIndex fb)
       (\<lambda>i. Inr (fb\<lparr>mLayerBuilders := (mLayerBuilders fb)[i := f (mLayerBuilders fb ! i)]\<rparr>))"

definition tryBakeOpState ::
  "('s, 'm, 'p) Ext \<Rightarrow> ('m, 'p) RecordedOp \<Rightarrow> ('s, 'm, 'p) FrameBuilder
     \<Rightarrow> ('m, 'p) BakedOpState option"
where
  "tryBakeOpState ext recordedOp fb = tryConstruct ext (currentSnapshot fb) recordedOp"

subsection \<open>Per-op defer handlers\<close>

definition deferStrokeableOp ::
  "('s, 'm, 'p) Ext \<Rightarrow> ('m, 'p) RecordedOp \<Rightarrow> OpBatchType \<Rightarrow> StrokeBehavior
     \<Rightarrow> ('s, 'm, 'p) FrameBuilder \<Rightarrow> error + ('s, 'm, 'p) FrameBuilder"
where
  "deferStrokeableOp ext recordedOp batchId strokeBehavior fb =
     (case tryStrokeableOpConstruct ext (currentSnapshot fb) recordedOp strokeBehavior of
        None \<Rightarrow> Inr fb
      | Some bakedState \<Rightarrow> onCurrentLayer (deferUnmergeableOp bakedState batchId) fb)"

definition tessBatchId :: "('m, 'p) RecordedOp \<Rightarrow> error + OpBatchType" where
  "tessBatchId recordedOp =
     andThen (deref (paint recordedOp))
       (\<lambda>p. Inr (if getPathEffect p then AlphaMaskTexture
                  else if isAntiAlias p then AlphaVertices else Vertices))"

definition deferArcOp ::
  "('s, 'm, 'p) Ext \<Rightarrow> ('m, 'p) RecordedOp \<Rightarrow> ('s, 'm, 'p) FrameBuilder
     \<Rightarrow> error + ('s, 'm, 'p) FrameBuilder"
where
  "deferArcOp ext recordedOp fb =
     andThen (tessBatchId recordedOp)
       (\<lambda>batchId. deferStrokeableOp ext recordedOp batchId StyleDefined fb)"

text \<open>\<^verbatim>\<open>clipState || clipState->mode == ClipMode::Rectangle\<close>: the right operand is
  evaluated when the pointer is null, and reads through it.\<close>

definition hasMergeableClip :: "('m, 'p) BakedOpState \<Rightarrow> error + bool" where
  "hasMergeableClip state =
     (if clipState (computedState state) \<noteq> None then Inr True
      else andThen (deref (clipState (computedState state)))
             (\<lambda>c. Inr (mode c = Rectangle)))"

definition deferBitmapOp ::
  "('s, 'm, 'p) Ext \<Rightarrow> ('m, 'p) RecordedOp \<Rightarrow> SkBitmap \<Rightarrow> ('s, 'm, 'p) FrameBuilder
     \<Rightarrow> error + ('s, 'm, 'p) FrameBuilder"
where
  "deferBitmapOp ext recordedOp bitmap fb =
     (case tryBakeOpState ext recordedOp fb of
        None \<Rightarrow> Inr fb
      | Some bakedState \<Rightarrow>
          andThen
            (if isSimple ext (transform (computedState bakedState))
                \<and> positiveScale ext (transform (computedState bakedState))
                \<and> getXfermodeDirect (paint recordedOp) = kSrcOver_Mode
                \<and> colorType bitmap \<noteq> kAlpha_8_SkColorType
             then hasMergeableClip bakedState else Inr False)
            (\<lambda>mergeable.
               if mergeable
               then onCurrentLayer
                      (deferMergeableOp bakedState Bitmap (getGenerationID bitmap)) fb
               else onCurrentLayer (deferUnmergeableOp bakedState Bitmap) fb))"

definition deferUnmergeable ::
  "('s, 'm, 'p) Ext \<Rightarrow> ('m, 'p) RecordedOp \<Rightarrow> OpBatchType \<Rightarrow> ('s, 'm, 'p) FrameBuilder
     \<Rightarrow> error + ('s, 'm, 'p) FrameBuilder"
where
  "deferUnmergeable ext recordedOp batchId fb =
     (case tryBakeOpState ext recordedOp fb of
        None \<Rightarrow> Inr fb
      | Some bakedState \<Rightarrow> onCurrentLayer (deferUnmergeableOp bakedState batchId) fb)"

definition deferBitmapMeshOp ::
  "('s, 'm, 'p) Ext \<Rightarrow> ('m, 'p) RecordedOp \<Rightarrow> ('s, 'm, 'p) FrameBuilder
     \<Rightarrow> error + ('s, 'm, 'p) FrameBuilder"
where
  "deferBitmapMeshOp ext recordedOp fb = deferUnmergeable ext recordedOp Bitmap fb"

definition deferBitmapRectOp ::
  "('s, 'm, 'p) Ext \<Rightarrow> ('m, 'p) RecordedOp \<Rightarrow> ('s, 'm, 'p) FrameBuilder
     \<Rightarrow> error + ('s, 'm, 'p) FrameBuilder"
where
  "deferBitmapRectOp ext recordedOp fb = deferUnmergeable ext recordedOp Bitmap fb"

definition deferOvalOp ::
  "('s, 'm, 'p) Ext \<Rightarrow> ('m, 'p) RecordedOp \<Rightarrow> ('s, 'm, 'p) FrameBuilder
     \<Rightarrow> error + ('s, 'm, 'p) FrameBuilder"
where
  "deferOvalOp ext recordedOp fb =
     andThen (tessBatchId recordedOp)
       (\<lambda>batchId. deferStrokeableOp ext recordedOp batchId StyleDefined fb)"

definition deferCirclePropsOp ::
  "('s, 'm, 'p) Ext \<Rightarrow> ('m, 'p) RecordedOp \<Rightarrow> real \<Rightarrow> real \<Rightarrow> real
     \<Rightarrow> ('s, 'm, 'p) FrameBuilder \<Rightarrow> error + ('s, 'm, 'p) FrameBuilder"
where
  "deferCirclePropsOp ext recordedOp x y radius fb =
     deferOvalOp ext
       \<lparr>opId = OvalOp,
        unmappedBounds = mkRect (x - radius) (y - radius) (x + radius) (y + radius),
        localMatrix = localMatrix recordedOp, localClip = localClip recordedOp,
        paint = paint recordedOp\<rparr> fb"

definition deferFunctorOp ::
  "('s, 'm, 'p) Ext \<Rightarrow> ('m, 'p) RecordedOp \<Rightarrow> ('s, 'm, 'p) FrameBuilder
     \<Rightarrow> error + ('s, 'm, 'p) FrameBuilder"
where
  "deferFunctorOp ext recordedOp fb = deferUnmergeable ext recordedOp Functor fb"

definition deferLinesOp ::
  "('s, 'm, 'p) Ext \<Rightarrow> ('m, 'p) RecordedOp \<Rightarrow> ('s, 'm, 'p) FrameBuilder
     \<Rightarrow> error + ('s, 'm, 'p) FrameBuilder"
where
  "deferLinesOp ext recordedOp fb =
     andThen (deref (paint recordedOp))
       (\<lambda>p. deferStrokeableOp ext recordedOp
               (if isAntiAlias p then AlphaVertices else Vertices) Forced fb)"

definition deferPatchOp ::
  "('s, 'm, 'p) Ext \<Rightarrow> ('m, 'p) RecordedOp \<Rightarrow> SkBitmap \<Rightarrow> ('s, 'm, 'p) FrameBuilder
     \<Rightarrow> error + ('s, 'm, 'p) FrameBuilder"
where
  "deferPatchOp ext recordedOp bitmap fb =
     (case tryBakeOpState ext recordedOp fb of
        None \<Rightarrow> Inr fb
      | Some bakedState \<Rightarrow>
          andThen
            (if isPureTranslate ext (transform (computedState bakedState))
                \<and> getXfermodeDirect (paint recordedOp) = kSrcOver_Mode
             then hasMergeableClip bakedState else Inr False)
            (\<lambda>mergeable.
               if mergeable
               then onCurrentLayer
                      (deferMergeableOp bakedState MergedPatch (getGenerationID bitmap)) fb
               else onCurrentLayer (deferUnmergeableOp bakedState Bitmap) fb))"

definition deferPathOp ::
  "('s, 'm, 'p) Ext \<Rightarrow> ('m, 'p) RecordedOp \<Rightarrow> ('s, 'm, 'p) FrameBuilder
     \<Rightarrow> error + ('s, 'm, 'p) FrameBuilder"
where
  "deferPathOp ext recordedOp fb = deferStrokeableOp ext recordedOp Bitmap StyleDefined fb"

definition deferPointsOp ::
  "('s, 'm, 'p) Ext \<Rightarrow> ('m, 'p) RecordedOp \<Rightarrow> ('s, 'm, 'p) FrameBuilder
     \<Rightarrow> error + ('s, 'm, 'p) FrameBuilder"
where
  "deferPointsOp ext recordedOp fb =
     andThen (deref (paint recordedOp))
       (\<lambda>p. deferStrokeableOp ext recordedOp
               (if isAntiAlias p then AlphaVertices else Vertices) Forced fb)"

definition deferRectOp ::
  "('s, 'm, 'p) Ext \<Rightarrow> ('m, 'p) RecordedOp \<Rightarrow> ('s, 'm, 'p) FrameBuilder
     \<Rightarrow> error + ('s, 'm, 'p) FrameBuilder"
where
  "deferRectOp ext recordedOp fb =
     andThen (tessBatchId recordedOp)
       (\<lambda>batchId. deferStrokeableOp ext recordedOp batchId StyleDefined fb)"

definition deferRoundRectOp ::
  "('s, 'm, 'p) Ext \<Rightarrow> ('m, 'p) RecordedOp \<Rightarrow> ('s, 'm, 'p) FrameBuilder
     \<Rightarrow> error + ('s, 'm, 'p) FrameBuilder"
where
  "deferRoundRectOp ext recordedOp fb =
     andThen (tessBatchId recordedOp)
       (\<lambda>batchId. deferStrokeableOp ext recordedOp batchId StyleDefined fb)"

definition deferRoundRectPropsOp ::
  "('s, 'm, 'p) Ext \<Rightarrow> ('m, 'p) RecordedOp \<Rightarrow> real \<Rightarrow> real \<Rightarrow> real \<Rightarrow> real \<Rightarrow> real
     \<Rightarrow> real \<Rightarrow> ('s, 'm, 'p) FrameBuilder \<Rightarrow> error + ('s, 'm, 'p) FrameBuilder"
where
  "deferRoundRectPropsOp ext recordedOp l t r b rx ry fb =
     deferRoundRectOp ext
       \<lparr>opId = RoundRectOp rx ry, unmappedBounds = mkRect l t r b,
        localMatrix = localMatrix recordedOp, localClip = localClip recordedOp,
        paint = paint recordedOp\<rparr> fb"

definition deferSimpleRectsOp ::
  "('s, 'm, 'p) Ext \<Rightarrow> ('m, 'p) RecordedOp \<Rightarrow> ('s, 'm, 'p) FrameBuilder
     \<Rightarrow> error + ('s, 'm, 'p) FrameBuilder"
where
  "deferSimpleRectsOp ext recordedOp fb = deferUnmergeable ext recordedOp Vertices fb"

definition textBatchId :: "SkPaint \<Rightarrow> OpBatchType" where
  "textBatchId p = (if getColor p = SK_ColorBLACK then Text else ColorText)"

definition deferTextOp ::
  "('s, 'm, 'p) Ext \<Rightarrow> ('m, 'p) RecordedOp \<Rightarrow> ('s, 'm, 'p) FrameBuilder
     \<Rightarrow> error + ('s, 'm, 'p) FrameBuilder"
where
  "deferTextOp ext recordedOp fb =
     (case tryBakeOpState ext recordedOp fb of
        None \<Rightarrow> Inr fb
      | Some bakedState \<Rightarrow>
          andThen (deref (paint recordedOp))
            (\<lambda>p. andThen
               (if isPureTranslate ext (transform (computedState bakedState))
                   \<and> getXfermodeDirect (paint recordedOp) = kSrcOver_Mode
                then hasMergeableClip bakedState else Inr False)
               (\<lambda>mergeable.
                  if mergeable
                  then onCurrentLayer
                         (deferMergeableOp bakedState (textBatchId p) (getColor p)) fb
                  else onCurrentLayer (deferUnmergeableOp bakedState (textBatchId p)) fb)))"

definition deferTextOnPathOp ::
  "('s, 'm, 'p) Ext \<Rightarrow> ('m, 'p) RecordedOp \<Rightarrow> ('s, 'm, 'p) FrameBuilder
     \<Rightarrow> error + ('s, 'm, 'p) FrameBuilder"
where
  "deferTextOnPathOp ext recordedOp fb =
     (case tryBakeOpState ext recordedOp fb of
        None \<Rightarrow> Inr fb
      | Some bakedState \<Rightarrow>
          andThen (deref (paint recordedOp))
            (\<lambda>p. onCurrentLayer (deferUnmergeableOp bakedState (textBatchId p)) fb))"

definition deferTextureLayerOp ::
  "('s, 'm, 'p) Ext \<Rightarrow> ('m, 'p) RecordedOp \<Rightarrow> ('s, 'm, 'p) FrameBuilder
     \<Rightarrow> error + ('s, 'm, 'p) FrameBuilder"
where
  "deferTextureLayerOp ext recordedOp fb = deferUnmergeable ext recordedOp TextureLayer fb"

subsection \<open>Layers\<close>

definition saveForLayer ::
  "('s, 'm, 'p) Ext \<Rightarrow> nat \<Rightarrow> nat \<Rightarrow> real \<Rightarrow> real \<Rightarrow> Rect \<Rightarrow> Vector3
     \<Rightarrow> ('m, 'p) RecordedOp option \<Rightarrow> ('m, 'p) RenderNode option
     \<Rightarrow> ('s, 'm, 'p) FrameBuilder \<Rightarrow> ('s, 'm, 'p) FrameBuilder"
where
  "saveForLayer ext layerWidth layerHeight contentTranslateX contentTranslateY repaint
       lightCenter beginOp node fb =
     (let cs = snd (save ext {kClip_SaveFlag, kMatrix_SaveFlag} (mCanvasState fb));
          cs = writeSnapshot (initializeViewport ext layerWidth layerHeight) cs;
          cs = writeSnapshot (resetRoundRectClipState ext) cs;
          cs = writeSnapshot (setRelativeLightCenter ext lightCenter) cs;
          cs = writeSnapshot (loadTranslate ext contentTranslateX contentTranslateY 0) cs;
          cs = writeSnapshot (setClip ext repaint) cs
      in fb\<lparr>mCanvasState := cs,
            mLayerStack := mLayerStack fb @ [length (mLayerBuilders fb)],
            mLayerBuilders := mLayerBuilders fb
              @ [newLayerBuilder ext layerWidth layerHeight repaint beginOp node]\<rparr>)"

text \<open>\<^verbatim>\<open>pop_back\<close> of an empty vector is undefined.\<close>

definition restoreForLayer ::
  "('s, 'm, 'p) FrameBuilder \<Rightarrow> error + ('s, 'm, 'p) FrameBuilder"
where
  "restoreForLayer fb =
     andThen (restore (mCanvasState fb))
       (\<lambda>cs. if mLayerStack fb = [] then Inl OutOfRange
              else Inr (fb\<lparr>mCanvasState := cs, mLayerStack := butlast (mLayerStack fb)\<rparr>))"

definition deferBeginLayerOp ::
  "('s, 'm, 'p) Ext \<Rightarrow> ('m, 'p) RecordedOp \<Rightarrow> ('s, 'm, 'p) FrameBuilder
     \<Rightarrow> error + ('s, 'm, 'p) FrameBuilder"
where
  "deferBeginLayerOp ext recordedOp fb =
     andThen (toUInt32 (rectGetWidth (unmappedBounds recordedOp))) (\<lambda>layerWidth.
     andThen (toUInt32 (rectGetHeight (unmappedBounds recordedOp))) (\<lambda>layerHeight.
       let previous = currentSnapshot fb;
           lightCenter = getRelativeLightCenter ext previous;
           contentTransform = snapshotTransform ext previous;
           contentTransform = multiply ext contentTransform (localMatrix recordedOp);
           contentTransform = translate4 ext (left (unmappedBounds recordedOp))
                                (rtop (unmappedBounds recordedOp)) contentTransform;
           inverseContentTransform = loadInverse ext contentTransform;
           lightCenter = mapPoint3d ext inverseContentTransform lightCenter;
           saveLayerBounds = rectWH (real layerWidth) (real layerHeight);
           saveLayerBounds = mapRect ext contentTransform saveLayerBounds;
           saveLayerBounds = doIntersect saveLayerBounds (getRenderTargetClip ext previous);
           saveLayerBounds = mapRect ext inverseContentTransform saveLayerBounds;
           saveLayerBounds = doIntersect saveLayerBounds
                               (rectWH (real layerWidth) (real layerHeight));
           saveLayerBounds = roundOut saveLayerBounds
       in
       andThen (toUInt32 (rectGetWidth saveLayerBounds)) (\<lambda>layerWidth.
       andThen (toUInt32 (rectGetHeight saveLayerBounds)) (\<lambda>layerHeight.
         Inr (saveForLayer ext layerWidth layerHeight
                (- left saveLayerBounds) (- rtop saveLayerBounds)
                (rectWH (real layerWidth) (real layerHeight))
                lightCenter (Some recordedOp) None fb)))))"

text \<open>The reference to the begin op is bound through the pointer before the layer is
  popped; the finished layer is found by the index that was on top.\<close>

definition deferEndLayerOp ::
  "('s, 'm, 'p) Ext \<Rightarrow> ('s, 'm, 'p) FrameBuilder \<Rightarrow> error + ('s, 'm, 'p) FrameBuilder"
where
  "deferEndLayerOp ext fb =
     andThen (currentLayer fb) (\<lambda>lb.
     andThen (deref (beginLayerOp lb)) (\<lambda>beginOp.
       let finishedLayerIndex = last (mLayerStack fb) in
       andThen (restoreForLayer fb) (\<lambda>fb.
         let drawLayerOp =
               \<lparr>opId = LayerOp (BuilderLayer finishedLayerIndex),
                unmappedBounds = unmappedBounds beginOp,
                localMatrix = localMatrix beginOp,
                localClip = localClip beginOp,
                paint = paint beginOp\<rparr>
         in case tryBakeOpState ext drawLayerOp fb of
              Some bakedOpState \<Rightarrow> onCurrentLayer (deferUnmergeableOp bakedOpState Bitmap) fb
            | None \<Rightarrow>
                Inr (fb\<lparr>mLayerBuilders := (mLayerBuilders fb)
                        [finishedLayerIndex := clear (mLayerBuilders fb ! finishedLayerIndex)]\<rparr>))))"

text \<open>Modelled from the spec: the constructors of \<^verbatim>\<open>CopyToLayerOp\<close> and
  \<^verbatim>\<open>CopyFromLayerOp\<close> (\<^verbatim>\<open>RecordedOp.h\<close> is not among the sources) take the bounds,
  matrix and paint of the begin op, no clip, and the layer-handle cell.\<close>

definition copyLayerOp ::
  "('m, 'p) RecordedOpId \<Rightarrow> ('m, 'p) RecordedOp \<Rightarrow> ('m, 'p) RecordedOp"
where
  "copyLayerOp ident recordedOp =
     \<lparr>opId = ident, unmappedBounds = unmappedBounds recordedOp,
      localMatrix = localMatrix recordedOp, localClip = None, paint = paint recordedOp\<rparr>"

definition deferBeginUnclippedLayerOp ::
  "('s, 'm, 'p) Ext \<Rightarrow> ('m, 'p) RecordedOp \<Rightarrow> ('s, 'm, 'p) FrameBuilder
     \<Rightarrow> error + ('s, 'm, 'p) FrameBuilder"
where
  "deferBeginUnclippedLayerOp ext recordedOp fb =
     (let boundsTransform = snapshotTransform ext (currentSnapshot fb);
          boundsTransform = multiply ext boundsTransform (localMatrix recordedOp);
          dstRect = unmappedBounds recordedOp;
          dstRect = mapRect ext boundsTransform dstRect;
          dstRect = doIntersect dstRect (getRenderTargetClip ext (currentSnapshot fb));
          layerHandle = mLayerHandles fb;
          fb = fb\<lparr>mLayerHandles := Suc (mLayerHandles fb)\<rparr>;
          copyToOp = copyLayerOp (CopyToLayerOp layerHandle) recordedOp
      in
      andThen (currentLayer fb) (\<lambda>lb.
        let bakedState = directConstruct ext (viewportClip lb) dstRect copyToOp in
        andThen (onCurrentLayer (deferUnmergeableOp bakedState CopyToLayer) fb) (\<lambda>fb.
        andThen (onCurrentLayer (deferLayerClear dstRect) fb) (\<lambda>fb.
          let copyFromOp = copyLayerOp (CopyFromLayerOp layerHandle) recordedOp in
          andThen (currentLayer fb) (\<lambda>lb.
            let bakedState = directConstruct ext (viewportClip lb) dstRect copyFromOp in
            onCurrentLayer
              (\<lambda>l. l\<lparr>activeUnclippedSaveLayers :=
                        activeUnclippedSaveLayers l @ [bakedState]\<rparr>) fb)))))"

definition deferEndUnclippedLayerOp ::
  "('s, 'm, 'p) Ext \<Rightarrow> ('s, 'm, 'p) FrameBuilder \<Rightarrow> error + ('s, 'm, 'p) FrameBuilder"
where
  "deferEndUnclippedLayerOp ext fb =
     andThen (currentLayer fb) (\<lambda>lb.
       if activeUnclippedSaveLayers lb = [] then Inl (Fatal ''no layer to end!'')
       else
         let copyFromLayerOp = last (activeUnclippedSaveLayers lb) in
         andThen (onCurrentLayer (deferUnmergeableOp copyFromLayerOp CopyFromLayer) fb)
           (\<lambda>fb. onCurrentLayer
                    (\<lambda>l. l\<lparr>activeUnclippedSaveLayers :=
                              butlast (activeUnclippedSaveLayers l)\<rparr>) fb))"

subsection \<open>Shadows\<close>

text \<open>Modelled from the spec: the constructor of \<^verbatim>\<open>ShadowOp\<close> (\<^verbatim>\<open>RecordedOp.h\<close> is
  not among the sources) takes the bounds and matrix of the caster's op, no clip and no
  paint.\<close>

definition mkShadowOp ::
  "('m, 'p) RenderNodeOp \<Rightarrow> real \<Rightarrow> 'p \<Rightarrow> Rect \<Rightarrow> Vector3 \<Rightarrow> ('m, 'p) RecordedOp"
where
  "mkShadowOp casterNodeOp casterAlpha casterPath clipBounds lightCenter =
     \<lparr>opId = ShadowOp casterAlpha casterPath clipBounds lightCenter,
      unmappedBounds = unmappedBounds (nodeOp casterNodeOp),
      localMatrix = localMatrix (nodeOp casterNodeOp), localClip = None, paint = None\<rparr>"

definition deferShadow ::
  "('s, 'm, 'p) Ext \<Rightarrow> ('m, 'p) RenderNodeOp \<Rightarrow> ('s, 'm, 'p) FrameBuilder
     \<Rightarrow> error + ('s, 'm, 'p) FrameBuilder"
where
  "deferShadow ext casterNodeOp fb =
     (let props = properties (renderNode casterNodeOp) in
      if getAlpha props \<le> 0
         \<or> outlineAlpha (getOutline props) \<le> 0
         \<or> outlinePath (getOutline props) = None
         \<or> getScaleX props = 0
         \<or> getScaleY props = 0
      then Inr fb
      else
        andThen (deref (outlinePath (getOutline props))) (\<lambda>casterOutlinePath.
          let revealClipPath = revealPath (getRevealClip props) in
          if (case revealClipPath of None \<Rightarrow> False | Some p \<Rightarrow> pathIsEmpty ext p)
          then Inr fb
          else
            let casterAlpha = getAlpha props * outlineAlpha (getOutline props);
                casterPath = casterOutlinePath;
                casterPath = (case revealClipPath of
                                None \<Rightarrow> casterPath
                              | Some p \<Rightarrow> pathIntersect ext casterPath p);
                casterPath =
                  (if CLIP_TO_CLIP_BOUNDS \<in> getClippingFlags props
                   then pathIntersect ext casterPath
                          (pathAddRect ext
                             (getClippingRectForFlags ext props {CLIP_TO_CLIP_BOUNDS}
                                emptyRect))
                   else casterPath);
                shadowOp = mkShadowOp casterNodeOp casterAlpha casterPath
                             (getLocalClipBounds ext (currentSnapshot fb))
                             (getRelativeLightCenter ext (currentSnapshot fb))
            in case tryShadowOpConstruct ext (currentSnapshot fb) shadowOp of
                 None \<Rightarrow> Inr fb
               | Some bakedOpState \<Rightarrow>
                   onCurrentLayer (deferUnmergeableOp bakedOpState Shadow) fb))"

subsection \<open>Single-precision arithmetic\<close>

text \<open>The z values of the children are \<^verbatim>\<open>float\<close>s, and the shadow loop subtracts two of
  them and compares the difference with \<^verbatim>\<open>0.1f\<close>, all in single precision. A finite
  float is a real number here. The difference of two floats is the exact difference
  rounded to the nearest float, a tie going to the even significand: in units of
  \<open>2\<^sup>-\<^sup>1\<^sup>4\<^sup>9\<close>, the smallest positive float, a float is an integer with all but its
  leading 24 bits zero. A result beyond the largest float is an infinity on the machine;
  it compares with \<^verbatim>\<open>0.1f\<close> as its real value here does. \<^verbatim>\<open>0.1f\<close> is the float nearest
  to one tenth.\<close>

fun bitLength :: "nat \<Rightarrow> nat" where
  "bitLength n = (if n = 0 then 0 else Suc (bitLength (n div 2)))"

declare bitLength.simps [simp del]

definition roundHalfEven :: "real \<Rightarrow> int" where
  "roundHalfEven x =
     (let f = \<lfloor>x\<rfloor> in
      if x - of_int f < 1 / 2 then f
      else if 1 / 2 < x - of_int f then f + 1
      else if even f then f else f + 1)"

definition roundToFloat :: "real \<Rightarrow> real" where
  "roundToFloat x =
     (let m = \<bar>x\<bar> * 2 ^ 149;
          q = 2 ^ (bitLength (nat \<lfloor>m\<rfloor>) - 24)
      in sgn x * (of_int (roundHalfEven (m / q)) * q / 2 ^ 149))"

definition floatSub :: "real \<Rightarrow> real \<Rightarrow> real" where
  "floatSub a b = roundToFloat (a - b)"

definition floatTenth :: real where
  "floatTenth = roundToFloat (1 / 10)"

subsection \<open>Traversal\<close>

definition deferRenderNodeOpImpl ::
  "('s, 'm, 'p) Ext
     \<Rightarrow> (('m, 'p) RenderNode \<Rightarrow> ('s, 'm, 'p) FrameBuilder \<Rightarrow> error + ('s, 'm, 'p) FrameBuilder)
     \<Rightarrow> ('m, 'p) RenderNodeOp \<Rightarrow> ('s, 'm, 'p) FrameBuilder
     \<Rightarrow> error + ('s, 'm, 'p) FrameBuilder"
where
  "deferRenderNodeOpImpl ext deferNodePropsAndOps rnOp fb =
     (if nothingToDraw ext (renderNode rnOp) then Inr fb
      else
        let (count, cs) = save ext {kClip_SaveFlag, kMatrix_SaveFlag} (mCanvasState fb);
            fb = fb\<lparr>mCanvasState := cs\<rparr>;
            fb = canvas (\<lambda>s. applyClip ext (localClip (nodeOp rnOp))
                                (snapshotTransform ext s) s) fb;
            fb = canvas (concatMatrix ext (localMatrix (nodeOp rnOp))) fb
        in andThen (deferNodePropsAndOps (renderNode rnOp) fb)
             (\<lambda>fb. Inr (fb\<lparr>mCanvasState := restoreToCount count (mCanvasState fb)\<rparr>)))"

function defer3dLoop ::
  "('s, 'm, 'p) Ext
     \<Rightarrow> (('m, 'p) RenderNode \<Rightarrow> ('s, 'm, 'p) FrameBuilder \<Rightarrow> error + ('s, 'm, 'p) FrameBuilder)
     \<Rightarrow> (real \<times> ('m, 'p) RenderNodeOp) list \<Rightarrow> nat \<Rightarrow> nat \<Rightarrow> nat \<Rightarrow> real
     \<Rightarrow> ('s, 'm, 'p) FrameBuilder \<Rightarrow> error + ('s, 'm, 'p) FrameBuilder"
where
  "defer3dLoop ext deferNodePropsAndOps zTranslatedNodes endIndex shadowIndex drawIndex
       lastCasterZ fb =
     (if shadowIndex < endIndex \<or> drawIndex < endIndex then
        andThen
          (if shadowIndex < endIndex then
             andThen (elementAt zTranslatedNodes shadowIndex)
               (\<lambda>caster. Inr (shadowIndex = drawIndex
                                \<or> floatSub (fst caster) lastCasterZ < floatTenth))
           else Inr False)
          (\<lambda>shadowFirst.
             if shadowFirst then
               andThen (elementAt zTranslatedNodes shadowIndex) (\<lambda>caster.
               andThen (deferShadow ext (snd caster) fb) (\<lambda>fb.
                 defer3dLoop ext deferNodePropsAndOps zTranslatedNodes endIndex
                   (Suc shadowIndex) drawIndex (fst caster) fb))
             else
               andThen (elementAt zTranslatedNodes drawIndex) (\<lambda>child.
               andThen (deferRenderNodeOpImpl ext deferNodePropsAndOps (snd child) fb) (\<lambda>fb.
                 defer3dLoop ext deferNodePropsAndOps zTranslatedNodes endIndex
                   shadowIndex (Suc drawIndex) lastCasterZ fb)))
      else Inr fb)"
  by pat_completeness auto
termination
  apply (relation "measure (\<lambda>(ext, r, zs, e, s, d, l, fb). (e - s) + (length zs - d))")
    apply (auto simp: elementAt_def andThen_def split: if_splits)
  done

declare defer3dLoop.simps [simp del]


datatype ChildrenSelectMode = Negative | Positive

fun findNonNegativeIndexFrom :: "(real \<times> 'a) list \<Rightarrow> nat \<Rightarrow> nat" where
  "findNonNegativeIndexFrom [] i = i"
| "findNonNegativeIndexFrom (z # zs) i =
     (if fst z \<ge> 0 then i else findNonNegativeIndexFrom zs (Suc i))"

definition findNonNegativeIndex :: "(real \<times> 'a) list \<Rightarrow> nat" where
  "findNonNegativeIndex zTranslatedNodes = findNonNegativeIndexFrom zTranslatedNodes 0"

definition defer3dChildren ::
  "('s, 'm, 'p) Ext
     \<Rightarrow> (('m, 'p) RenderNode \<Rightarrow> ('s, 'm, 'p) FrameBuilder \<Rightarrow> error + ('s, 'm, 'p) FrameBuilder)
     \<Rightarrow> ChildrenSelectMode \<Rightarrow> (real \<times> ('m, 'p) RenderNodeOp) list
     \<Rightarrow> ('s, 'm, 'p) FrameBuilder \<Rightarrow> error + ('s, 'm, 'p) FrameBuilder"
where
  "defer3dChildren ext deferNodePropsAndOps selectMode zTranslatedNodes fb =
     (let size = length zTranslatedNodes in
      if size = 0
         \<or> (selectMode = Negative \<and> fst (zTranslatedNodes ! 0) > 0)
         \<or> (selectMode = Positive \<and> fst (zTranslatedNodes ! (size - 1)) < 0)
      then Inr fb
      else
        let nonNegativeIndex = findNonNegativeIndex zTranslatedNodes;
            (drawIndex, endIndex, shadowIndex) =
              (if selectMode = Negative then (0, nonNegativeIndex, nonNegativeIndex)
               else (nonNegativeIndex, size, nonNegativeIndex))
        in defer3dLoop ext deferNodePropsAndOps zTranslatedNodes endIndex shadowIndex
             drawIndex 0 fb)"

text \<open>One pass of the loop of \<^verbatim>\<open>buildZSortedChildList\<close>.\<close>

fun collectZChildren ::
  "('s, 'm, 'p) Ext \<Rightarrow> ('m, 'p) RenderNodeOp list \<Rightarrow> bool \<Rightarrow> nat list
     \<Rightarrow> (real \<times> ('m, 'p) RenderNodeOp) list \<times> bool list
     \<Rightarrow> error + (real \<times> ('m, 'p) RenderNodeOp) list \<times> bool list"
where
  "collectZChildren ext children reorder [] acc = Inr acc"
| "collectZChildren ext children reorder (i # rest) (zTranslatedNodes, skips) =
     andThen (elementAt children i) (\<lambda>childOp.
       let child = renderNode childOp;
           childZ = getZ (properties child)
       in if \<not> isZero ext childZ \<and> reorder
          then collectZChildren ext children reorder rest
                 (zTranslatedNodes @ [(childZ, childOp)], skips[i := True])
          else if \<not> getProjectBackwards (properties child)
          then collectZChildren ext children reorder rest
                 (zTranslatedNodes, skips[i := False])
          else collectZChildren ext children reorder rest (zTranslatedNodes, skips))"

definition buildZSortedChildList ::
  "('s, 'm, 'p) Ext \<Rightarrow> ('m, 'p) DisplayList \<Rightarrow> Chunk \<Rightarrow> bool list
     \<Rightarrow> error + (real \<times> ('m, 'p) RenderNodeOp) list \<times> bool list"
where
  "buildZSortedChildList ext displayList chunk skips =
     (if beginChildIndex chunk = endChildIndex chunk then Inr ([], skips)
      else
        andThen
          (collectZChildren ext (getChildren displayList) (reorderChildren chunk)
             [beginChildIndex chunk ..< endChildIndex chunk] ([], skips))
          (\<lambda>(zTranslatedNodes, skips). Inr (sort_key fst zTranslatedNodes, skips)))"


type_synonym ('s, 'm, 'p) deferNode =
  "('m, 'p) RenderNode \<Rightarrow> ('s, 'm, 'p) FrameBuilder \<Rightarrow> error + ('s, 'm, 'p) FrameBuilder"

definition deferRenderNodeOp ::
  "('s, 'm, 'p) Ext \<Rightarrow> ('s, 'm, 'p) deferNode \<Rightarrow> ('m, 'p) DisplayList \<Rightarrow> bool list \<Rightarrow> nat
     \<Rightarrow> ('s, 'm, 'p) FrameBuilder \<Rightarrow> error + ('s, 'm, 'p) FrameBuilder"
where
  "deferRenderNodeOp ext deferNodePropsAndOps displayList skips i fb =
     andThen (elementAt skips i) (\<lambda>skip.
       if \<not> skip then
         andThen (elementAt (getChildren displayList) i)
           (\<lambda>childOp. deferRenderNodeOpImpl ext deferNodePropsAndOps childOp fb)
       else Inr fb)"

definition deferOp ::
  "('s, 'm, 'p) Ext \<Rightarrow> ('s, 'm, 'p) deferNode \<Rightarrow> ('m, 'p) DisplayList \<Rightarrow> bool list
     \<Rightarrow> ('m, 'p) RecordedOp \<Rightarrow> ('s, 'm, 'p) FrameBuilder
     \<Rightarrow> error + ('s, 'm, 'p) FrameBuilder"
where
  "deferOp ext deferNodePropsAndOps displayList skips recordedOp fb =
     (case opId recordedOp of
        ArcOp \<Rightarrow> deferArcOp ext recordedOp fb
      | BeginLayerOp \<Rightarrow> deferBeginLayerOp ext recordedOp fb
      | BeginUnclippedLayerOp \<Rightarrow> deferBeginUnclippedLayerOp ext recordedOp fb
      | BitmapOp bitmap \<Rightarrow> deferBitmapOp ext recordedOp bitmap fb
      | BitmapMeshOp \<Rightarrow> deferBitmapMeshOp ext recordedOp fb
      | BitmapRectOp \<Rightarrow> deferBitmapRectOp ext recordedOp fb
      | CirclePropsOp x y radius \<Rightarrow> deferCirclePropsOp ext recordedOp x y radius fb
      | EndLayerOp \<Rightarrow> deferEndLayerOp ext fb
      | EndUnclippedLayerOp \<Rightarrow> deferEndUnclippedLayerOp ext fb
      | FunctorOp \<Rightarrow> deferFunctorOp ext recordedOp fb
      | LinesOp \<Rightarrow> deferLinesOp ext recordedOp fb
      | OvalOp \<Rightarrow> deferOvalOp ext recordedOp fb
      | PatchOp bitmap \<Rightarrow> deferPatchOp ext recordedOp bitmap fb
      | PathOp \<Rightarrow> deferPathOp ext recordedOp fb
      | PointsOp \<Rightarrow> deferPointsOp ext recordedOp fb
      | RectOp \<Rightarrow> deferRectOp ext recordedOp fb
      | RenderNodeOp i \<Rightarrow> deferRenderNodeOp ext deferNodePropsAndOps displayList skips i fb
      | RoundRectOp rx ry \<Rightarrow> deferRoundRectOp ext recordedOp fb
      | RoundRectPropsOp l t r b rx ry \<Rightarrow> deferRoundRectPropsOp ext recordedOp l t r b rx ry fb
      | SimpleRectsOp \<Rightarrow> deferSimpleRectsOp ext recordedOp fb
      | TextOp \<Rightarrow> deferTextOp ext recordedOp fb
      | TextOnPathOp \<Rightarrow> deferTextOnPathOp ext recordedOp fb
      | TextureLayerOp \<Rightarrow> deferTextureLayerOp ext recordedOp fb
      | ShadowOp casterAlpha casterPath clipBounds lightCenter \<Rightarrow> Inl NullDereference
      | LayerOp handle \<Rightarrow> Inl NullDereference
      | CopyToLayerOp handle \<Rightarrow> Inl NullDereference
      | CopyFromLayerOp handle \<Rightarrow> Inl NullDereference)"

fun deferProjectedNodes ::
  "('s, 'm, 'p) Ext \<Rightarrow> ('s, 'm, 'p) deferNode \<Rightarrow> ('m, 'p) RenderNodeOp list
     \<Rightarrow> ('s, 'm, 'p) FrameBuilder \<Rightarrow> error + ('s, 'm, 'p) FrameBuilder"
where
  "deferProjectedNodes ext deferNodePropsAndOps [] fb = Inr fb"
| "deferProjectedNodes ext deferNodePropsAndOps (childOp # rest) fb =
     (let (restoreTo, cs) = save ext {kMatrix_SaveFlag} (mCanvasState fb);
          fb = fb\<lparr>mCanvasState := cs\<rparr>;
          fb = canvas (concatMatrix ext (transformFromCompositingAncestor childOp)) fb
      in andThen (deferRenderNodeOpImpl ext deferNodePropsAndOps childOp fb) (\<lambda>fb.
           deferProjectedNodes ext deferNodePropsAndOps rest
             (fb\<lparr>mCanvasState := restoreToCount restoreTo (mCanvasState fb)\<rparr>)))"

definition backgroundOpAt ::
  "('m, 'p) DisplayList \<Rightarrow> int \<Rightarrow> error + ('m, 'p) RenderNodeOp"
where
  "backgroundOpAt displayList i =
     (if i < 0 then Inl OutOfRange
      else andThen (elementAt (getOps displayList) (nat i)) (\<lambda>recordedOp.
             case opId recordedOp of
               RenderNodeOp k \<Rightarrow> elementAt (getChildren displayList) k
             | _ \<Rightarrow> Inl BadCast))"

definition deferProjectedChildren ::
  "('s, 'm, 'p) Ext \<Rightarrow> ('s, 'm, 'p) deferNode \<Rightarrow> ('m, 'p) RenderNode
     \<Rightarrow> ('s, 'm, 'p) FrameBuilder \<Rightarrow> error + ('s, 'm, 'p) FrameBuilder"
where
  "deferProjectedChildren ext deferNodePropsAndOps node fb =
     (let projectionReceiverOutline = outlinePath (getOutline (properties node));
          (count, cs) = save ext {kMatrix_SaveFlag, kClip_SaveFlag} (mCanvasState fb);
          fb = fb\<lparr>mCanvasState := cs\<rparr>
      in
      andThen (deref (getDisplayList node)) (\<lambda>displayList.
      andThen (backgroundOpAt displayList (projectionReceiveIndex displayList)) (\<lambda>backgroundOp.
        let backgroundProps = properties (renderNode backgroundOp);
            fb = canvas (translate ext (getTranslationX backgroundProps)
                           (getTranslationY backgroundProps)) fb;
            fb = canvas (setProjectionPathMask ext projectionReceiverOutline) fb
        in andThen (deferProjectedNodes ext deferNodePropsAndOps (mProjectedNodes node) fb)
             (\<lambda>fb. Inr (fb\<lparr>mCanvasState := restoreToCount count (mCanvasState fb)\<rparr>)))))"

fun deferChunkOps ::
  "('s, 'm, 'p) Ext \<Rightarrow> ('s, 'm, 'p) deferNode \<Rightarrow> ('m, 'p) RenderNode
     \<Rightarrow> ('m, 'p) DisplayList \<Rightarrow> bool list \<Rightarrow> nat list
     \<Rightarrow> ('s, 'm, 'p) FrameBuilder \<Rightarrow> error + ('s, 'm, 'p) FrameBuilder"
where
  "deferChunkOps ext deferNodePropsAndOps node displayList skips [] fb = Inr fb"
| "deferChunkOps ext deferNodePropsAndOps node displayList skips (opIndex # rest) fb =
     andThen (elementAt (getOps displayList) opIndex) (\<lambda>recordedOp.
     andThen (deferOp ext deferNodePropsAndOps displayList skips recordedOp fb) (\<lambda>fb.
     andThen
       (if mProjectedNodes node \<noteq> []
           \<and> projectionReceiveIndex displayList \<ge> 0
           \<and> int opIndex = projectionReceiveIndex displayList
        then deferProjectedChildren ext deferNodePropsAndOps node fb
        else Inr fb)
       (\<lambda>fb. deferChunkOps ext deferNodePropsAndOps node displayList skips rest fb)))"

fun deferChunks ::
  "('s, 'm, 'p) Ext \<Rightarrow> ('s, 'm, 'p) deferNode \<Rightarrow> ('m, 'p) RenderNode
     \<Rightarrow> ('m, 'p) DisplayList \<Rightarrow> Chunk list \<Rightarrow> bool list
     \<Rightarrow> ('s, 'm, 'p) FrameBuilder \<Rightarrow> error + ('s, 'm, 'p) FrameBuilder"
where
  "deferChunks ext deferNodePropsAndOps node displayList [] skips fb = Inr fb"
| "deferChunks ext deferNodePropsAndOps node displayList (chunk # rest) skips fb =
     andThen (buildZSortedChildList ext displayList chunk skips)
       (\<lambda>(zTranslatedNodes, skips).
     andThen (defer3dChildren ext deferNodePropsAndOps Negative zTranslatedNodes fb) (\<lambda>fb.
     andThen (deferChunkOps ext deferNodePropsAndOps node displayList skips
                [beginOpIndex chunk ..< endOpIndex chunk] fb) (\<lambda>fb.
     andThen (defer3dChildren ext deferNodePropsAndOps Positive zTranslatedNodes fb) (\<lambda>fb.
       deferChunks ext deferNodePropsAndOps node displayList rest skips fb))))"

definition deferNodeOps ::
  "('s, 'm, 'p) Ext \<Rightarrow> ('s, 'm, 'p) deferNode \<Rightarrow> ('m, 'p) RenderNode
     \<Rightarrow> ('s, 'm, 'p) FrameBuilder \<Rightarrow> error + ('s, 'm, 'p) FrameBuilder"
where
  "deferNodeOps ext deferNodePropsAndOps node fb =
     andThen (deref (getDisplayList node)) (\<lambda>displayList.
       deferChunks ext deferNodePropsAndOps node displayList (getChunks displayList)
         (map skipInOrderDraw (getChildren displayList)) fb)"


definition subNodes :: "('m, 'p) RenderNode \<Rightarrow> ('m, 'p) RenderNode set" where
  "subNodes node =
     renderNode ` (set (mProjectedNodes node)
       \<union> (case getDisplayList node of None \<Rightarrow> {} | Some dl \<Rightarrow> set (getChildren dl)))"

lemma deferRenderNodeOpImpl_agree:
  "(\<And>s. f (renderNode c) s = g (renderNode c) s)
     \<Longrightarrow> deferRenderNodeOpImpl ext f c fb = deferRenderNodeOpImpl ext g c fb"
  by (simp add: deferRenderNodeOpImpl_def Let_def split: prod.splits)

lemma defer3dLoop_agree:
  assumes "\<And>c s. c \<in> snd ` set zs \<Longrightarrow> f (renderNode c) s = g (renderNode c) s"
  shows "defer3dLoop ext f zs e si di l fb = defer3dLoop ext g zs e si di l fb"
  using assms
proof (induction ext f zs e si di l fb rule: defer3dLoop.induct)
  case (1 ext f zs e si di l fb)
  have impl: "deferRenderNodeOpImpl ext f (snd c) s = deferRenderNodeOpImpl ext g (snd c) s"
    if "elementAt zs di = Inr c" for c s
    using that "1.prems" by (intro deferRenderNodeOpImpl_agree) (auto dest: elementAt_mem)
  show ?case
    apply (subst defer3dLoop.simps)
    apply (subst defer3dLoop.simps[of ext g])
    apply (intro if_cong refl andThen_cong)
    subgoal by (rule "1.IH"(1)) (auto intro: "1.prems")
    subgoal by (simp add: impl)
    subgoal by (rule "1.IH"(2)) (auto simp: impl intro: "1.prems")
    done
qed


lemma defer3dChildren_agree:
  assumes "\<And>c s. c \<in> snd ` set zs \<Longrightarrow> f (renderNode c) s = g (renderNode c) s"
  shows "defer3dChildren ext f m zs fb = defer3dChildren ext g m zs fb"
proof -
  have "defer3dLoop ext f zs e si di l fb = defer3dLoop ext g zs e si di l fb" for e si di l
    by (rule defer3dLoop_agree) (rule assms)
  then show ?thesis
    by (simp add: defer3dChildren_def Let_def split: prod.splits)
qed

lemma collectZChildren_subset:
  "collectZChildren ext children reorder is acc = Inr (zs, sk)
     \<Longrightarrow> snd ` set zs \<subseteq> snd ` set (fst acc) \<union> set children"
proof (induction "is" arbitrary: acc)
  case Nil
  then show ?case by auto
next
  case (Cons i rest)
  obtain z0 s0 where acc: "acc = (z0, s0)" by (cases acc)
  from Cons.prems obtain childOp where c: "elementAt children i = Inr childOp"
    by (auto simp: acc andThen_def split: sum.splits)
  from Cons.prems c consider
      "collectZChildren ext children reorder rest
         (z0 @ [(getZ (properties (renderNode childOp)), childOp)], s0[i := True]) = Inr (zs, sk)"
    | "collectZChildren ext children reorder rest (z0, s0[i := False]) = Inr (zs, sk)"
    | "collectZChildren ext children reorder rest (z0, s0) = Inr (zs, sk)"
    by (auto simp: acc andThen_def Let_def split: if_splits)
  then show ?case
  proof cases
    case 1
    from Cons.IH[OF 1] elementAt_mem[OF c] show ?thesis by (auto simp: acc)
  next
    case 2
    from Cons.IH[OF 2] show ?thesis by (auto simp: acc)
  next
    case 3
    from Cons.IH[OF 3] show ?thesis by (auto simp: acc)
  qed
qed

lemma buildZSortedChildList_subset:
  "buildZSortedChildList ext dl chunk skips = Inr (zs, sk)
     \<Longrightarrow> snd ` set zs \<subseteq> set (getChildren dl)"
proof -
  assume b: "buildZSortedChildList ext dl chunk skips = Inr (zs, sk)"
  show ?thesis
  proof (cases "beginChildIndex chunk = endChildIndex chunk")
    case True
    with b show ?thesis by (simp add: buildZSortedChildList_def)
  next
    case False
    with b obtain z0 s0 where
      c: "collectZChildren ext (getChildren dl) (reorderChildren chunk)
            [beginChildIndex chunk ..< endChildIndex chunk] ([], skips) = Inr (z0, s0)"
      and zs: "zs = sort_key fst z0"
      by (auto simp: buildZSortedChildList_def andThen_def split: sum.splits prod.splits)
    from collectZChildren_subset[OF c] show ?thesis by (simp add: zs)
  qed
qed

lemma deferOp_agree:
  assumes "\<And>c s. c \<in> set (getChildren dl) \<Longrightarrow> f (renderNode c) s = g (renderNode c) s"
  shows "deferOp ext f dl skips recordedOp fb = deferOp ext g dl skips recordedOp fb"
  by (cases "opId recordedOp")
     (auto simp: deferOp_def deferRenderNodeOp_def
           intro!: andThen_cong deferRenderNodeOpImpl_agree assms dest: elementAt_mem)

lemma deferProjectedNodes_agree:
  assumes "\<And>c s. c \<in> set cs \<Longrightarrow> f (renderNode c) s = g (renderNode c) s"
  shows "deferProjectedNodes ext f cs fb = deferProjectedNodes ext g cs fb"
  using assms
proof (induction cs arbitrary: fb)
  case Nil
  show ?case by simp
next
  case (Cons c cs)
  have "deferRenderNodeOpImpl ext f c s = deferRenderNodeOpImpl ext g c s" for s
    by (rule deferRenderNodeOpImpl_agree) (simp add: Cons.prems)
  moreover have "deferProjectedNodes ext f cs s = deferProjectedNodes ext g cs s" for s
    by (rule Cons.IH) (simp add: Cons.prems)
  ultimately show ?case by (simp add: Let_def split: prod.splits)
qed

lemma deferProjectedChildren_agree:
  assumes "\<And>c s. c \<in> set (mProjectedNodes node) \<Longrightarrow> f (renderNode c) s = g (renderNode c) s"
  shows "deferProjectedChildren ext f node fb = deferProjectedChildren ext g node fb"
  unfolding deferProjectedChildren_def Let_def
  by (simp add: deferProjectedNodes_agree[of "mProjectedNodes node" f g, OF assms]
           split: prod.splits)

lemma deferChunkOps_agree:
  assumes "\<And>c s. c \<in> set (mProjectedNodes node) \<union> set (getChildren dl)
             \<Longrightarrow> f (renderNode c) s = g (renderNode c) s"
  shows "deferChunkOps ext f node dl skips is fb = deferChunkOps ext g node dl skips is fb"
proof (induction "is" arbitrary: fb)
  case Nil
  show ?case by simp
next
  case (Cons i rest)
  have "deferOp ext f dl skips r s = deferOp ext g dl skips r s" for r s
    by (rule deferOp_agree) (simp add: assms)
  moreover have "deferProjectedChildren ext f node s = deferProjectedChildren ext g node s" for s
    by (rule deferProjectedChildren_agree) (simp add: assms)
  moreover have "deferChunkOps ext f node dl skips rest = deferChunkOps ext g node dl skips rest"
    by (rule ext) (rule Cons.IH)
  ultimately show ?case by (simp cong: if_cong)
qed

lemma deferChunks_agree:
  assumes "\<And>c s. c \<in> set (mProjectedNodes node) \<union> set (getChildren dl)
             \<Longrightarrow> f (renderNode c) s = g (renderNode c) s"
  shows "deferChunks ext f node dl chunks skips fb = deferChunks ext g node dl chunks skips fb"
proof (induction chunks arbitrary: skips fb)
  case Nil
  show ?case by simp
next
  case (Cons chunk rest)
  have z: "defer3dChildren ext f m zs s = defer3dChildren ext g m zs s"
    if "buildZSortedChildList ext dl chunk skips = Inr (zs, sk)" for m zs sk s
    using buildZSortedChildList_subset[OF that]
    by (intro defer3dChildren_agree assms) auto
  have o: "deferChunkOps ext f node dl sk is s = deferChunkOps ext g node dl sk is s"
    for sk "is" s
    by (rule deferChunkOps_agree) (rule assms)
  show ?case
    by (auto simp: o Cons.IH intro!: andThen_cong dest: z)
qed

lemma deferNodeOps_cong [fundef_cong]:
  assumes "ext = ext'" "node = node'" "fb = fb'"
    and "\<And>n s. n \<in> subNodes node' \<Longrightarrow> f n s = g n s"
  shows "deferNodeOps ext f node fb = deferNodeOps ext' g node' fb'"
  unfolding deferNodeOps_def assms(1-3)
  by (intro andThen_cong refl deferChunks_agree assms(4))
     (auto simp: subNodes_def deref_def split: option.splits)

lemma subNodes_size: "n \<in> subNodes node \<Longrightarrow> size n < size node"
proof -
  assume n: "n \<in> subNodes node"
  obtain props dl layer proj where node: "node = RenderNode props dl layer proj"
    by (cases node)
  have op: "size (renderNode c) < size c" for c :: "('m, 'p) RenderNodeOp"
    by (cases c) simp
  from n obtain c where c: "n = renderNode c"
    and mem: "c \<in> set proj \<or> (\<exists>d. dl = Some d \<and> c \<in> set (getChildren d))"
    by (auto simp: subNodes_def node split: option.splits)
  from mem show ?thesis
  proof
    assume "c \<in> set proj"
    then have "size c \<le> size_list size proj" by (simp add: size_list_estimation')
    with op[of c] show ?thesis by (simp add: node c)
  next
    assume "\<exists>d. dl = Some d \<and> c \<in> set (getChildren d)"
    then obtain d where d: "dl = Some d" "c \<in> set (getChildren d)" by blast
    obtain ch os cs pr where dd: "d = DisplayList ch os cs pr" by (cases d)
    from d have "size c \<le> size_list size cs" by (simp add: dd size_list_estimation')
    with op[of c] show ?thesis by (simp add: node c d dd)
  qed
qed


definition mkLayerOp ::
  "('s, 'm, 'p) Ext \<Rightarrow> ('m, 'p) RenderNode \<Rightarrow> 'm OffscreenBuffer \<Rightarrow> ('m, 'p) RecordedOp"
where
  "mkLayerOp ext node layer =
     \<lparr>opId = LayerOp (NodeLayer layer),
      unmappedBounds = rectWH (real_of_int (getWidth (properties node)))
                         (real_of_int (getHeight (properties node))),
      localMatrix = identity4 ext, localClip = None, paint = None\<rparr>"

text \<open>\<open>deferNodePropsAndOps\<close> in two parts. \<open>applyNodeProperties\<close> is the part between
  the rejection test and the quick reject: it applies the properties of the node to the
  canvas state and returns the bounds of the save layer it schedules, empty when it
  schedules none.\<close>

definition applyNodeProperties ::
  "('s, 'm, 'p) Ext \<Rightarrow> ('m, 'p) RenderProperties \<Rightarrow> ('s, 'm, 'p) FrameBuilder
     \<Rightarrow> error + Rect \<times> ('s, 'm, 'p) FrameBuilder"
where
  "applyNodeProperties ext props fb =
     (let fb = (if getLeft props \<noteq> 0 \<or> getTop props \<noteq> 0
                then canvas (translate ext (real_of_int (getLeft props))
                               (real_of_int (getTop props))) fb
                else fb);
          fb = (case getStaticMatrix props of
                  Some m \<Rightarrow> canvas (concatMatrix ext m) fb
                | None \<Rightarrow>
                    (case getAnimationMatrix props of
                       Some m \<Rightarrow> canvas (concatMatrix ext m) fb
                     | None \<Rightarrow> fb))
      in
      andThen
        (if hasTransformMatrix props then
           if isTransformTranslateOnly props
           then Inr (canvas (translate ext (getTranslationX props)
                               (getTranslationY props)) fb)
           else andThen (deref (getTransformMatrix props))
                  (\<lambda>m. Inr (canvas (concatMatrix ext m) fb))
         else Inr fb)
        (\<lambda>fb.
          let w = getWidth props;
              h = getHeight props;
              saveLayerBounds = emptyRect;
              isLayer = (effectiveLayerType props \<noteq> LayerNone);
              clipFlags = getClippingFlags props;
              (clipFlags, saveLayerBounds, fb) =
                (if getAlpha props < 1 then
                   let clipFlags = (if isLayer then clipFlags - {CLIP_TO_BOUNDS}
                                    else clipFlags)
                   in if isLayer \<or> \<not> getHasOverlappingRendering props
                      then (clipFlags, saveLayerBounds,
                            canvas (scaleAlpha ext (getAlpha props)) fb)
                      else
                        let saveLayerBounds = mkRect 0 0 (real_of_int w) (real_of_int h)
                        in if clipFlags \<noteq> {}
                           then ({}, getClippingRectForFlags ext props clipFlags
                                       saveLayerBounds, fb)
                           else (clipFlags, saveLayerBounds, fb)
                 else (clipFlags, saveLayerBounds, fb));
              fb = (if clipFlags \<noteq> {}
                    then canvas (clipRect ext
                                   (getClippingRectForFlags ext props clipFlags emptyRect)) fb
                    else fb);
              fb = (if revealWillClip (getRevealClip props)
                    then canvas (setClippingRoundRect ext
                                   (revealBounds (getRevealClip props))
                                   (revealRadius (getRevealClip props))) fb
                    else if outlineWillClip (getOutline props)
                    then canvas (setClippingOutline ext (getOutline props)) fb
                    else fb)
          in Inr (saveLayerBounds, fb)))"

function deferNodePropsAndOps ::
  "('s, 'm, 'p) Ext \<Rightarrow> ('m, 'p) RenderNode \<Rightarrow> ('s, 'm, 'p) FrameBuilder
     \<Rightarrow> error + ('s, 'm, 'p) FrameBuilder"
where
  "deferNodePropsAndOps ext node fb =
     (let props = properties node;
          outline = getOutline props
      in
      if getAlpha props \<le> 0
         \<or> (getShouldClip outline \<and> outlineIsEmpty outline)
         \<or> getScaleX props = 0
         \<or> getScaleY props = 0
      then Inr fb
      else
        andThen (applyNodeProperties ext props fb) (\<lambda>(saveLayerBounds, fb).
          if \<not> quickRejectConservative ext (currentSnapshot fb) 0 0
                  (real_of_int (getWidth props)) (real_of_int (getHeight props))
          then
            (case getLayer node of
               Some layer \<Rightarrow>
                 (case tryBakeOpState ext (mkLayerOp ext node layer) fb of
                    Some bakedOpState \<Rightarrow>
                      onCurrentLayer (deferUnmergeableOp bakedOpState Bitmap) fb
                  | None \<Rightarrow> Inr fb)
             | None \<Rightarrow>
                 if \<not> rectIsEmpty saveLayerBounds then
                   andThen (toUInt32 (getAlpha props)) (\<lambda>a.
                     let saveLayerPaint = setAlpha a defaultPaint in
                     andThen
                       (deferBeginLayerOp ext
                          \<lparr>opId = BeginLayerOp, unmappedBounds = saveLayerBounds,
                           localMatrix = identity4 ext, localClip = None,
                           paint = Some saveLayerPaint\<rparr> fb)
                       (\<lambda>fb.
                     andThen (deferNodeOps ext (deferNodePropsAndOps ext) node fb)
                       (\<lambda>fb. deferEndLayerOp ext fb)))
                 else deferNodeOps ext (deferNodePropsAndOps ext) node fb)
          else Inr fb))"
  by pat_completeness auto
termination
  by (relation "measure (\<lambda>(ext, node, fb). size node)") (auto dest: subNodes_size)

declare deferNodePropsAndOps.simps [simp del]


subsection \<open>Construction\<close>

record ('m, 'p) LayerUpdateEntry =
  entryNode :: "('m, 'p) RenderNode"
  damage :: Rect

text \<open>The conversion of an \<^verbatim>\<open>int\<close> to \<^verbatim>\<open>uint32_t\<close> wraps.\<close>

definition intToUInt32 :: "int \<Rightarrow> nat" where
  "intToUInt32 v = nat (v mod 2 ^ 32)"

text \<open>The body of the loop over the layer-update queue, for one entry.\<close>

definition deferLayerUpdate ::
  "('s, 'm, 'p) Ext \<Rightarrow> ('m, 'p) LayerUpdateEntry \<Rightarrow> ('s, 'm, 'p) FrameBuilder
     \<Rightarrow> error + ('s, 'm, 'p) FrameBuilder"
where
  "deferLayerUpdate ext entry fb =
     (let layerNode = computeOrdering ext (entryNode entry);
          layerDamage = damage entry;
          lightCenter = getRelativeLightCenter ext (currentSnapshot fb)
      in
      andThen (deref (getLayer layerNode)) (\<lambda>layer.
        let lightCenter = mapPoint3d ext (inverseTransformInWindow layer) lightCenter;
            fb = saveForLayer ext (intToUInt32 (getWidth (properties layerNode)))
                   (intToUInt32 (getHeight (properties layerNode))) 0 0
                   layerDamage lightCenter None (Some layerNode) fb
        in
        andThen
          (if getDisplayList layerNode \<noteq> None
           then deferNodeOps ext (deferNodePropsAndOps ext) layerNode fb
           else Inr fb)
          restoreForLayer))"

text \<open>The loop runs from the last entry down to the first: \<open>deferLayerUpdates\<close> is
  given the entries reversed.\<close>

fun deferLayerUpdates ::
  "('s, 'm, 'p) Ext \<Rightarrow> ('m, 'p) LayerUpdateEntry list \<Rightarrow> ('s, 'm, 'p) FrameBuilder
     \<Rightarrow> error + ('s, 'm, 'p) FrameBuilder"
where
  "deferLayerUpdates ext [] fb = Inr fb"
| "deferLayerUpdates ext (entry # rest) fb =
     andThen (deferLayerUpdate ext entry fb) (deferLayerUpdates ext rest)"

fun deferNodes ::
  "('s, 'm, 'p) Ext \<Rightarrow> ('m, 'p) RenderNode list \<Rightarrow> ('s, 'm, 'p) FrameBuilder
     \<Rightarrow> error + ('s, 'm, 'p) FrameBuilder"
where
  "deferNodes ext [] fb = Inr fb"
| "deferNodes ext (node # rest) fb =
     (if nothingToDraw ext node then deferNodes ext rest fb
      else
        let node = computeOrdering ext node;
            (count, cs) = save ext {kClip_SaveFlag, kMatrix_SaveFlag} (mCanvasState fb);
            fb = fb\<lparr>mCanvasState := cs\<rparr>
        in andThen (deferNodePropsAndOps ext node fb) (\<lambda>fb.
             deferNodes ext rest
               (fb\<lparr>mCanvasState := restoreToCount count (mCanvasState fb)\<rparr>)))"

definition initialFrameBuilder ::
  "('s, 'm, 'p) Ext \<Rightarrow> Rect \<Rightarrow> nat \<Rightarrow> nat \<Rightarrow> Vector3 \<Rightarrow> ('s, 'm, 'p) FrameBuilder"
where
  "initialFrameBuilder ext clip viewportWidth viewportHeight lightCenter =
     \<lparr>mLayerBuilders = [newLayerBuilder ext viewportWidth viewportHeight clip None None],
      mLayerStack = [0],
      mCanvasState =
        \<lparr>mSnapshot = initializeSaveStack ext viewportWidth viewportHeight clip lightCenter,
         mPrevious = []\<rparr>,
      mLayerHandles = 0\<rparr>"

definition FrameBuilder ::
  "('s, 'm, 'p) Ext \<Rightarrow> ('m, 'p) LayerUpdateEntry list \<Rightarrow> Rect \<Rightarrow> nat \<Rightarrow> nat
     \<Rightarrow> ('m, 'p) RenderNode list \<Rightarrow> Vector3 \<Rightarrow> error + ('s, 'm, 'p) FrameBuilder"
where
  "FrameBuilder ext layers clip viewportWidth viewportHeight nodes lightCenter =
     andThen
       (deferLayerUpdates ext (rev layers)
          (initialFrameBuilder ext clip viewportWidth viewportHeight lightCenter))
       (deferNodes ext nodes)"

subsection \<open>An implementation of the collaborators\<close>

text \<open>To run the builder on concrete inputs: matrices are translations, a snapshot is a
  translation, a clip rect in the space of the render target and a light centre, a path
  is its bounding rect, and a bake maps the bounds of the op and rejects it when nothing
  of them is inside the clip.\<close>

type_synonym Translation = "real \<times> real"

type_synonym SimpleSnapshot = "Translation \<times> Rect \<times> Vector3"

definition offsetRect :: "Translation \<Rightarrow> Rect \<Rightarrow> Rect" where
  "offsetRect t r = mkRect (left r + fst t) (rtop r + snd t) (right r + fst t) (bottom r + snd t)"

definition simpleBake ::
  "SimpleSnapshot \<Rightarrow> (Translation, Rect) RecordedOp \<Rightarrow> (Translation, Rect) BakedOpState option"
where
  "simpleBake s recordedOp =
     (let t = (fst (fst s) + fst (localMatrix recordedOp),
               snd (fst s) + snd (localMatrix recordedOp));
          bounds = doIntersect (offsetRect t (unmappedBounds recordedOp)) (fst (snd s))
      in if rectIsEmpty bounds then None
         else Some \<lparr>computedState =
                      \<lparr>transform = t,
                       clipState = Some \<lparr>mode = Rectangle, rect = fst (snd s)\<rparr>,
                       clippedBounds = bounds\<rparr>,
                    bakedAlpha = 1, op = recordedOp\<rparr>)"

definition simpleExt :: "(SimpleSnapshot, Translation, Rect) Ext" where
  "simpleExt =
     \<lparr>identity4 = (0, 0),
      multiply = (\<lambda>a b. (fst a + fst b, snd a + snd b)),
      translate4 = (\<lambda>x y a. (fst a + x, snd a + y)),
      loadInverse = (\<lambda>a. (- fst a, - snd a)),
      mapRect = offsetRect,
      mapPoint3d = (\<lambda>a v. (fst v + fst a, fst (snd v) + snd a, snd (snd v))),
      isSimple = (\<lambda>a. True),
      positiveScale = (\<lambda>a. True),
      isPureTranslate = (\<lambda>a. True),
      isZero = (\<lambda>v. \<bar>v\<bar> \<le> 1 / 1000),
      pathIsEmpty = rectIsEmpty,
      pathIntersect = doIntersect,
      pathAddRect = (\<lambda>r. r),
      initializeSaveStack = (\<lambda>w h clip lightCenter. ((0, 0), clip, lightCenter)),
      snapshotCopy = (\<lambda>flags s. s),
      snapshotTransform = fst,
      getRenderTargetClip = (\<lambda>s. fst (snd s)),
      getRelativeLightCenter = (\<lambda>s. snd (snd s)),
      getLocalClipBounds = (\<lambda>s. offsetRect (- fst (fst s), - snd (fst s)) (fst (snd s))),
      quickRejectConservative =
        (\<lambda>s l t r b. rectIsEmpty (doIntersect (offsetRect (fst s) (mkRect l t r b)) (fst (snd s)))),
      translate = (\<lambda>x y s. ((fst (fst s) + x, snd (fst s) + y), snd s)),
      concatMatrix = (\<lambda>m s. ((fst (fst s) + fst m, snd (fst s) + snd m), snd s)),
      scaleAlpha = (\<lambda>a s. s),
      clipRect = (\<lambda>r s. (fst s, doIntersect (offsetRect (fst s) r) (fst (snd s)), snd (snd s))),
      setClippingRoundRect = (\<lambda>r radius s. s),
      setClippingOutline = (\<lambda>outline s. s),
      setProjectionPathMask = (\<lambda>p s. s),
      applyClip =
        (\<lambda>c m s. case c of
                   None \<Rightarrow> s
                 | Some cb \<Rightarrow> (fst s, doIntersect (offsetRect m (rect cb)) (fst (snd s)),
                              snd (snd s))),
      initializeViewport = (\<lambda>w h s. s),
      resetRoundRectClipState = (\<lambda>s. s),
      setRelativeLightCenter = (\<lambda>v s. (fst s, fst (snd s), v)),
      loadTranslate = (\<lambda>x y z s. ((x, y), snd s)),
      setClip = (\<lambda>r s. (fst s, r, snd (snd s))),
      tryConstruct = simpleBake,
      tryStrokeableOpConstruct = (\<lambda>s recordedOp strokeBehavior. simpleBake s recordedOp),
      tryShadowOpConstruct = simpleBake,
      nothingToDraw =
        (\<lambda>node. getDisplayList node = None
                \<or> getAlpha (properties node) \<le> 0
                \<or> (getShouldClip (getOutline (properties node))
                    \<and> outlineIsEmpty (getOutline (properties node)))
                \<or> getScaleX (properties node) = 0
                \<or> getScaleY (properties node) = 0),
      computeOrdering = (\<lambda>node. node),
      getClippingRectForFlags =
        (\<lambda>props flags r.
           if CLIP_TO_BOUNDS \<in> flags
           then rectWH (real_of_int (getWidth props)) (real_of_int (getHeight props))
           else r),
      viewportClipOf = (\<lambda>w h repaint. \<lparr>mode = Rectangle, rect = rectWH (real w) (real h)\<rparr>)\<rparr>"

subsection \<open>Reading a result, and inputs to run the builder on\<close>

definition currentDeferred :: "('s, 'm, 'p) FrameBuilder \<Rightarrow> ('m, 'p) Deferral list" where
  "currentDeferred fb = (case currentLayer fb of Inl e \<Rightarrow> [] | Inr lb \<Rightarrow> deferred lb)"

text \<open>The batch id of a deferral, and whether it was deferred as mergeable.\<close>

fun deferralBatch :: "('m, 'p) Deferral \<Rightarrow> (OpBatchType \<times> bool) option" where
  "deferralBatch (UnmergeableOp bakedState batchId) = Some (batchId, False)"
| "deferralBatch (MergeableOp bakedState batchId mergeId) = Some (batchId, True)"
| "deferralBatch (LayerClear r) = None"

definition deferredBatches ::
  "error + ('s, 'm, 'p) FrameBuilder \<Rightarrow> (OpBatchType \<times> bool) option list list"
where
  "deferredBatches r =
     (case r of
        Inl e \<Rightarrow> []
      | Inr fb \<Rightarrow> map (\<lambda>lb. map deferralBatch (deferred lb)) (mLayerBuilders fb))"

text \<open>Two states of the builder that differ at most in the current snapshot: the same
  layer builders with the same deferrals, the same layer stack, the same snapshots saved
  below the current one.\<close>

definition sameLayers :: "('s, 'm, 'p) FrameBuilder \<Rightarrow> ('s, 'm, 'p) FrameBuilder \<Rightarrow> bool" where
  "sameLayers fb fb' \<longleftrightarrow>
     mLayerBuilders fb' = mLayerBuilders fb \<and> mLayerStack fb' = mLayerStack fb
     \<and> mLayerHandles fb' = mLayerHandles fb
     \<and> mPrevious (mCanvasState fb') = mPrevious (mCanvasState fb)"

definition isOk :: "error + 'a \<Rightarrow> bool" where
  "isOk r = (case r of Inl e \<Rightarrow> False | Inr v \<Rightarrow> True)"

definition isFatal :: "error + 'a \<Rightarrow> bool" where
  "isFatal r = (case r of Inl (Fatal msg) \<Rightarrow> True | _ \<Rightarrow> False)"

definition recorded ::
  "(Translation, Rect) RecordedOpId \<Rightarrow> Rect \<Rightarrow> (Translation, Rect) RecordedOp"
where
  "recorded ident bounds =
     \<lparr>opId = ident, unmappedBounds = bounds, localMatrix = (0, 0), localClip = None,
      paint = Some defaultPaint\<rparr>"

definition defaultProperties :: "int \<Rightarrow> int \<Rightarrow> (Translation, Rect) RenderProperties" where
  "defaultProperties w h =
     \<lparr>getAlpha = 1,
      getOutline = \<lparr>getShouldClip = False, outlineIsEmpty = True, outlineWillClip = False,
                    outlineAlpha = 1, outlinePath = None\<rparr>,
      getRevealClip = \<lparr>revealWillClip = False, revealBounds = emptyRect, revealRadius = 0,
                       revealPath = None\<rparr>,
      getScaleX = 1, getScaleY = 1, getLeft = 0, getTop = 0, getWidth = w, getHeight = h,
      getStaticMatrix = None, getAnimationMatrix = None, hasTransformMatrix = False,
      isTransformTranslateOnly = True, getTranslationX = 0, getTranslationY = 0,
      getTransformMatrix = None, effectiveLayerType = LayerNone,
      getClippingFlags = {CLIP_TO_BOUNDS}, getHasOverlappingRendering = True,
      getZ = 0, getProjectBackwards = False\<rparr>"

text \<open>A viewport of 100 by 100 with the clip \<open>(0, 0, 100, 100)\<close>, nothing deferred yet.\<close>

definition frame0 :: "(SimpleSnapshot, Translation, Rect) FrameBuilder" where
  "frame0 = initialFrameBuilder simpleExt (rectWH 100 100) 100 100 (50, 50, 100)"

lemmas rectDefs =
  mkRect_def rectWH_def emptyRect_def doIntersect_def offsetRect_def rectIsEmpty_def
  rectGetWidth_def rectGetHeight_def

lemmas layerDefs =
  currentSnapshot_def currentLayerIndex_def currentLayer_def onCurrentLayer_def
  newLayerBuilder_def deferUnmergeableOp_def deferMergeableOp_def deferLayerClear_def
  andThen_def deref_def canvas_def writeSnapshot_def tryBakeOpState_def

lemmas frame0Defs =
  frame0_def initialFrameBuilder_def simpleExt_def simpleBake_def recorded_def
  defaultPaint_def SK_ColorBLACK_def

text \<open>A node whose display list is one chunk with the given ops and children.\<close>

definition nodeWith ::
  "(Translation, Rect) RenderProperties \<Rightarrow> (Translation, Rect) RecordedOp list
     \<Rightarrow> (Translation, Rect) RenderNodeOp list \<Rightarrow> (Translation, Rect) RenderNode"
where
  "nodeWith props ops children =
     RenderNode props
       (Some (DisplayList
          [\<lparr>beginOpIndex = 0, endOpIndex = length ops, beginChildIndex = 0,
            endChildIndex = length children, reorderChildren = True\<rparr>]
          ops children (- 1)))
       None []"

text \<open>The collaborators above with a quick reject that never rejects (it is allowed to
  be conservative).\<close>

definition lenientExt :: "(SimpleSnapshot, Translation, Rect) Ext" where
  "lenientExt = simpleExt\<lparr>quickRejectConservative := (\<lambda>s l t r b. False)\<rparr>"

text \<open>A node of 10 by 10 with a persistent layer and one rect to draw.\<close>

definition layerBackedNode :: "(Translation, Rect) RenderNode" where
  "layerBackedNode =
     RenderNode (defaultProperties 10 10)
       (Some (DisplayList
          [\<lparr>beginOpIndex = 0, endOpIndex = 1, beginChildIndex = 0, endChildIndex = 0,
            reorderChildren = True\<rparr>]
          [recorded RectOp (mkRect 0 0 10 10)] [] (- 1)))
       (Some \<lparr>inverseTransformInWindow = (0, 0)\<rparr>) []"

text \<open>The same node placed at \<open>x = 200\<close>, outside a clip of 100 by 100.\<close>

definition farLayerNode :: "(Translation, Rect) RenderNode" where
  "farLayerNode =
     RenderNode ((defaultProperties 10 10)\<lparr>getLeft := 200\<rparr>)
       (getDisplayList layerBackedNode) (getLayer layerBackedNode) []"

text \<open>The collaborators above with a bake that reports the given clip state.\<close>

definition bakeWithClip :: "ClipBase option \<Rightarrow> (SimpleSnapshot, Translation, Rect) Ext" where
  "bakeWithClip c =
     simpleExt\<lparr>tryConstruct :=
       (\<lambda>s recordedOp.
          map_option (\<lambda>b. b\<lparr>computedState := (computedState b)\<lparr>clipState := c\<rparr>\<rparr>)
            (simpleBake s recordedOp))\<rparr>"

definition someBitmap :: SkBitmap where
  "someBitmap = \<lparr>colorType = kRGBA_8888_SkColorType, getGenerationID = 7\<rparr>"

text \<open>The empty frame with one unclipped save layer open in the primary layer builder.\<close>

definition frameWithOpenLayer :: "(SimpleSnapshot, Translation, Rect) FrameBuilder" where
  "frameWithOpenLayer =
     frame0\<lparr>mLayerBuilders :=
       map (\<lambda>lb. lb\<lparr>activeUnclippedSaveLayers :=
                      [directConstruct simpleExt (viewportClip lb) (mkRect 10 10 20 20)
                         (recorded (CopyFromLayerOp 0) (mkRect 10 10 20 20))]\<rparr>)
         (mLayerBuilders frame0)\<rparr>"

text \<open>A caster of 10 by 10 with a rect outline and the given reveal-clip path.\<close>

definition casterWithReveal :: "Rect option \<Rightarrow> (Translation, Rect) RenderNodeOp" where
  "casterWithReveal reveal =
     MkRenderNodeOp (recorded (RenderNodeOp 0) (mkRect 0 0 10 10))
       (RenderNode
          ((defaultProperties 10 10)
             \<lparr>getOutline := \<lparr>getShouldClip = False, outlineIsEmpty = False,
                              outlineWillClip = False, outlineAlpha = 1,
                              outlinePath = Some (mkRect 0 0 10 10)\<rparr>,
              getRevealClip := \<lparr>revealWillClip = (reveal \<noteq> None), revealBounds = emptyRect,
                                 revealRadius = 0, revealPath = reveal\<rparr>,
              getZ := 2\<rparr>)
          (Some (DisplayList [] [] [] (- 1))) None [])
       True (0, 0)"

subsection \<open>The interleaving of shadows and draws, as the spec words it\<close>

text \<open>What is emitted in the positive phase, from the two indices and the z of the last
  caster, over the z values of the sorted children: the shadow of the child at
  \<open>shadowIndex\<close> first if that index is the draw index or if its z is within 0.1 above the
  last caster's, else the draw of the child at \<open>drawIndex\<close>. \<open>shadowInterleaving\<close> reads
  the difference and the bound as the spec writes them, as numbers;
  \<open>shadowInterleavingFloat\<close> reads them as the single-precision difference and \<^verbatim>\<open>0.1f\<close>.
  \<open>runEmissions\<close> makes the calls of a list of emissions on the builder, in order.\<close>

datatype Emission = EmitShadow nat | EmitDraw nat

function shadowInterleaving :: "real list \<Rightarrow> nat \<Rightarrow> nat \<Rightarrow> real \<Rightarrow> Emission list" where
  "shadowInterleaving zs shadowIndex drawIndex lastCasterZ =
     (if shadowIndex < length zs
         \<and> (shadowIndex = drawIndex \<or> zs ! shadowIndex - lastCasterZ < 0.1)
      then EmitShadow shadowIndex
             # shadowInterleaving zs (Suc shadowIndex) drawIndex (zs ! shadowIndex)
      else if drawIndex < length zs
      then EmitDraw drawIndex # shadowInterleaving zs shadowIndex (Suc drawIndex) lastCasterZ
      else [])"
  by pat_completeness auto
termination
  by (relation "measure (\<lambda>(zs, s, d, l). (length zs - s) + (length zs - d))") auto

declare shadowInterleaving.simps [simp del]

function shadowInterleavingFloat :: "real list \<Rightarrow> nat \<Rightarrow> nat \<Rightarrow> real \<Rightarrow> Emission list"
where
  "shadowInterleavingFloat zs shadowIndex drawIndex lastCasterZ =
     (if shadowIndex < length zs
         \<and> (shadowIndex = drawIndex \<or> floatSub (zs ! shadowIndex) lastCasterZ < floatTenth)
      then EmitShadow shadowIndex
             # shadowInterleavingFloat zs (Suc shadowIndex) drawIndex (zs ! shadowIndex)
      else if drawIndex < length zs
      then EmitDraw drawIndex
             # shadowInterleavingFloat zs shadowIndex (Suc drawIndex) lastCasterZ
      else [])"
  by pat_completeness auto
termination
  by (relation "measure (\<lambda>(zs, s, d, l). (length zs - s) + (length zs - d))") auto

declare shadowInterleavingFloat.simps [simp del]

fun runEmissions ::
  "('s, 'm, 'p) Ext \<Rightarrow> ('s, 'm, 'p) deferNode \<Rightarrow> (real \<times> ('m, 'p) RenderNodeOp) list
     \<Rightarrow> Emission list \<Rightarrow> ('s, 'm, 'p) FrameBuilder \<Rightarrow> error + ('s, 'm, 'p) FrameBuilder"
where
  "runEmissions ext deferNode zTranslatedNodes [] fb = Inr fb"
| "runEmissions ext deferNode zTranslatedNodes (EmitShadow i # rest) fb =
     andThen (deferShadow ext (snd (zTranslatedNodes ! i)) fb)
       (runEmissions ext deferNode zTranslatedNodes rest)"
| "runEmissions ext deferNode zTranslatedNodes (EmitDraw i # rest) fb =
     andThen (deferRenderNodeOpImpl ext deferNode (snd (zTranslatedNodes ! i)) fb)
       (runEmissions ext deferNode zTranslatedNodes rest)"

text \<open>A child op at the given z, moved right by \<open>dx\<close>, whose node of 10 by 10 has a rect
  outline and draws one rect.\<close>

definition casterAt :: "real \<Rightarrow> real \<Rightarrow> (Translation, Rect) RenderNodeOp" where
  "casterAt z dx =
     MkRenderNodeOp
       ((recorded (RenderNodeOp 0) (mkRect 0 0 10 10))\<lparr>localMatrix := (dx, 0)\<rparr>)
       (nodeWith
          ((defaultProperties 10 10)
             \<lparr>getOutline := \<lparr>getShouldClip = False, outlineIsEmpty = False,
                              outlineWillClip = False, outlineAlpha = 1,
                              outlinePath = Some (mkRect 0 0 10 10)\<rparr>,
              getZ := z\<rparr>)
          [recorded RectOp (mkRect 0 0 10 10)] [])
       False (0, 0)"

fun deferralBounds :: "('m, 'p) Deferral \<Rightarrow> Rect" where
  "deferralBounds (UnmergeableOp bakedState batchId) = clippedBounds (computedState bakedState)"
| "deferralBounds (MergeableOp bakedState batchId mergeId) =
     clippedBounds (computedState bakedState)"
| "deferralBounds (LayerClear r) = r"

definition deferredBounds :: "error + ('s, 'm, 'p) FrameBuilder \<Rightarrow> Rect list list" where
  "deferredBounds r =
     (case r of
        Inl e \<Rightarrow> []
      | Inr fb \<Rightarrow> map (\<lambda>lb. map deferralBounds (deferred lb)) (mLayerBuilders fb))"

subsection \<open>Notions used in the statements and proofs\<close>

text \<open>The ops that draw: every op with a handler of its own that is neither the begin or
  end of a layer nor a reference to a render node.\<close>

fun isDrawOp :: "('m, 'p) RecordedOpId \<Rightarrow> bool" where
  "isDrawOp BeginLayerOp = False"
| "isDrawOp EndLayerOp = False"
| "isDrawOp BeginUnclippedLayerOp = False"
| "isDrawOp EndUnclippedLayerOp = False"
| "isDrawOp (RenderNodeOp i) = False"
| "isDrawOp (ShadowOp a p r v) = False"
| "isDrawOp (LayerOp h) = False"
| "isDrawOp (CopyToLayerOp h) = False"
| "isDrawOp (CopyFromLayerOp h) = False"
| "isDrawOp ident = True"

text \<open>\<open>onCurrent\<close> changes the current layer builder. \<open>insertDeferred k ins act h\<close>
  inserts the deferrals \<open>ins\<close> at position \<open>k\<close> of what the current layer builder has
  deferred, and sets its stack of active unclipped save layers and the count of layer
  handles; \<open>hasRoom k\<close> says that there is a current layer builder with at least \<open>k\<close>
  deferrals. Two results are \<open>alike\<close> when the second is the first with that insertion
  made, and the first \<open>k\<close> deferrals and the current layer are those of the state before.\<close>

definition onCurrent ::
  "(('m, 'p) LayerBuilder \<Rightarrow> ('m, 'p) LayerBuilder) \<Rightarrow> ('s, 'm, 'p) FrameBuilder
     \<Rightarrow> ('s, 'm, 'p) FrameBuilder"
where
  "onCurrent f fb =
     fb\<lparr>mLayerBuilders := (mLayerBuilders fb)
          [last (mLayerStack fb) := f (mLayerBuilders fb ! last (mLayerStack fb))]\<rparr>"

definition insertDeferred ::
  "nat \<Rightarrow> ('m, 'p) Deferral list \<Rightarrow> ('m, 'p) BakedOpState list \<Rightarrow> nat
     \<Rightarrow> ('s, 'm, 'p) FrameBuilder \<Rightarrow> ('s, 'm, 'p) FrameBuilder"
where
  "insertDeferred k ins act h fb =
     (onCurrent (\<lambda>lb. lb\<lparr>deferred := take k (deferred lb) @ ins @ drop k (deferred lb),
                        activeUnclippedSaveLayers := act\<rparr>) fb)\<lparr>mLayerHandles := h\<rparr>"

definition hasRoom :: "nat \<Rightarrow> ('s, 'm, 'p) FrameBuilder \<Rightarrow> bool" where
  "hasRoom k fb \<longleftrightarrow> isOk (currentLayerIndex fb) \<and> k \<le> length (currentDeferred fb)"

definition alike ::
  "nat \<Rightarrow> ('m, 'p) Deferral list \<Rightarrow> ('m, 'p) BakedOpState list \<Rightarrow> nat
     \<Rightarrow> ('s, 'm, 'p) FrameBuilder \<Rightarrow> error + ('s, 'm, 'p) FrameBuilder
     \<Rightarrow> error + ('s, 'm, 'p) FrameBuilder \<Rightarrow> bool"
where
  "alike k ins act h fb r r' \<longleftrightarrow>
     r' = map_sum id (insertDeferred k ins act h) r
     \<and> (\<forall>fb1. r = Inr fb1 \<longrightarrow>
           hasRoom k fb1 \<and> take k (currentDeferred fb1) = take k (currentDeferred fb)
           \<and> currentLayerIndex fb1 = currentLayerIndex fb)"

text \<open>The ops of a list dispatched in order, as the loop over a chunk does when no op of it
  is the projection receiver.\<close>

fun deferOpsInOrder ::
  "('s, 'm, 'p) Ext \<Rightarrow> ('s, 'm, 'p) deferNode \<Rightarrow> ('m, 'p) DisplayList \<Rightarrow> bool list
     \<Rightarrow> ('m, 'p) RecordedOp list \<Rightarrow> ('s, 'm, 'p) FrameBuilder
     \<Rightarrow> error + ('s, 'm, 'p) FrameBuilder"
where
  "deferOpsInOrder ext deferNode displayList skips [] fb = Inr fb"
| "deferOpsInOrder ext deferNode displayList skips (recordedOp # rest) fb =
     andThen (deferOp ext deferNode displayList skips recordedOp fb)
       (deferOpsInOrder ext deferNode displayList skips rest)"

subsection \<open>Notions used for the invariants of the traversal\<close>

text \<open>\<open>sat R fb r\<close>: when the run \<open>r\<close> started in \<open>fb\<close> returns a builder, \<open>R\<close> relates
  \<open>fb\<close> to it.\<close>

definition sat ::
  "(('s, 'm, 'p) FrameBuilder \<Rightarrow> ('s, 'm, 'p) FrameBuilder \<Rightarrow> bool)
     \<Rightarrow> ('s, 'm, 'p) FrameBuilder \<Rightarrow> error + ('s, 'm, 'p) FrameBuilder \<Rightarrow> bool"
where
  "sat R fb r \<longleftrightarrow> (\<forall>fb'. r = Inr fb' \<longrightarrow> R fb fb')"

text \<open>What a layer builder is made with: the builder without what was deferred to it.\<close>

definition layerIdentity :: "('m, 'p) LayerBuilder \<Rightarrow> ('m, 'p) LayerBuilder" where
  "layerIdentity lb = lb\<lparr>deferred := [], activeUnclippedSaveLayers := []\<rparr>"

definition layerNodes :: "('s, 'm, 'p) FrameBuilder \<Rightarrow> ('m, 'p) LayerBuilder list" where
  "layerNodes fb = map layerIdentity (mLayerBuilders fb)"

text \<open>A step that only defers to layer builders: the layer stack, the canvas state and
  the list of builders (up to what is deferred to them) are as before.\<close>

definition layerLocal :: "('s, 'm, 'p) FrameBuilder \<Rightarrow> ('s, 'm, 'p) FrameBuilder \<Rightarrow> bool" where
  "layerLocal fb fb' \<longleftrightarrow>
     mLayerStack fb' = mLayerStack fb \<and> mCanvasState fb' = mCanvasState fb
     \<and> layerNodes fb' = layerNodes fb"

text \<open>\<open>saved fb s\<close>: \<open>s\<close> is \<open>fb\<close> after a \<open>save\<close> of the canvas and writes to the new
  snapshot.\<close>

definition saved :: "('s, 'm, 'p) FrameBuilder \<Rightarrow> ('s, 'm, 'p) FrameBuilder \<Rightarrow> bool" where
  "saved fb s \<longleftrightarrow>
     mLayerBuilders s = mLayerBuilders fb \<and> mLayerStack s = mLayerStack fb
     \<and> mPrevious (mCanvasState s) = mSnapshot (mCanvasState fb) # mPrevious (mCanvasState fb)"

text \<open>A relation that the traversal of child nodes maintains: a preorder that holds of
  every step that only defers, and of a run between a \<open>save\<close> and the \<open>restoreToCount\<close>
  to the count that the \<open>save\<close> returned.\<close>

definition traversalInvariant ::
  "(('s, 'm, 'p) FrameBuilder \<Rightarrow> ('s, 'm, 'p) FrameBuilder \<Rightarrow> bool) \<Rightarrow> bool"
where
  "traversalInvariant R \<longleftrightarrow>
     (\<forall>a. R a a) \<and> (\<forall>a b c. R a b \<longrightarrow> R b c \<longrightarrow> R a c)
     \<and> (\<forall>a b. layerLocal a b \<longrightarrow> R a b)
     \<and> (\<forall>fb s fb1. saved fb s \<longrightarrow> R s fb1
           \<longrightarrow> R fb (fb1\<lparr>mCanvasState :=
                         restoreToCount (getSaveCount (mCanvasState fb)) (mCanvasState fb1)\<rparr>))"

text \<open>The builders are as before, followed by new ones that belong to no node.\<close>

definition growsNone :: "('s, 'm, 'p) FrameBuilder \<Rightarrow> ('s, 'm, 'p) FrameBuilder \<Rightarrow> bool" where
  "growsNone fb fb' \<longleftrightarrow>
     (\<exists>new. layerNodes fb' = layerNodes fb @ new \<and> (\<forall>lb\<in>set new. layerNode lb = None))"



text \<open>The layer stack and the saved snapshots are as before.\<close>

definition kept :: "('s, 'm, 'p) FrameBuilder \<Rightarrow> ('s, 'm, 'p) FrameBuilder \<Rightarrow> bool" where
  "kept fb fb' \<longleftrightarrow>
     mLayerStack fb' = mLayerStack fb
     \<and> mPrevious (mCanvasState fb') = mPrevious (mCanvasState fb)"

text \<open>\<open>d\<close> layers were opened on top of the layer stack, with \<open>d\<close> snapshots saved.\<close>

definition opened ::
  "nat \<Rightarrow> ('s, 'm, 'p) FrameBuilder \<Rightarrow> ('s, 'm, 'p) FrameBuilder \<Rightarrow> bool" where
  "opened d fb fb' \<longleftrightarrow>
     (\<exists>ls ps. length ls = d \<and> length ps = d \<and> mLayerStack fb' = mLayerStack fb @ ls
        \<and> mPrevious (mCanvasState fb') = ps @ mPrevious (mCanvasState fb))"

subsection \<open>Balanced layer ops, as the spec words it\<close>

text \<open>The number of open save layers after the ops at the given indices, starting with
  \<open>d\<close> open: a \<open>BeginLayerOp\<close> opens one, an \<open>EndLayerOp\<close> closes one. There is none
  when an \<open>EndLayerOp\<close> comes with no layer open, or an index is outside the ops.\<close>

fun layerDepth :: "('m, 'p) RecordedOp list \<Rightarrow> nat list \<Rightarrow> nat \<Rightarrow> nat option" where
  "layerDepth ops [] d = Some d"
| "layerDepth ops (i # rest) d =
     (if i < length ops then
        if opId (ops ! i) = BeginLayerOp then layerDepth ops rest (Suc d)
        else if opId (ops ! i) = EndLayerOp then
          (case d of 0 \<Rightarrow> None | Suc k \<Rightarrow> layerDepth ops rest k)
        else layerDepth ops rest d
      else None)"

text \<open>The indices of the ops of a display list in the order of the traversal, chunk by
  chunk.\<close>

definition visitedOpIndices :: "Chunk list \<Rightarrow> nat list" where
  "visitedOpIndices chunks = concat (map (\<lambda>c. [beginOpIndex c ..< endOpIndex c]) chunks)"

definition balancedOps :: "('m, 'p) DisplayList \<Rightarrow> bool" where
  "balancedOps dl \<longleftrightarrow> layerDepth (getOps dl) (visitedOpIndices (getChunks dl)) 0 = Some 0"

text \<open>A node is balanced when the layer ops of its display list are, and those of all
  the nodes below it.\<close>

function balancedNode :: "('m, 'p) RenderNode \<Rightarrow> bool" where
  "balancedNode node \<longleftrightarrow>
     (case getDisplayList node of None \<Rightarrow> True | Some dl \<Rightarrow> balancedOps dl)
     \<and> (\<forall>n\<in>subNodes node. balancedNode n)"
  by pat_completeness auto
termination
  by (relation "measure size") (auto dest: subNodes_size)

declare balancedNode.simps [simp del]

subsection \<open>Layer-update queues to run the constructor on\<close>

text \<open>An entry of the layer-update queue: a square node with a persistent layer whose
  display list is one chunk with the given ops, damaged all over.\<close>

definition layerUpdateOf ::
  "int \<Rightarrow> (Translation, Rect) RecordedOp list \<Rightarrow> (Translation, Rect) LayerUpdateEntry"
where
  "layerUpdateOf extent ops =
     \<lparr>entryNode =
        RenderNode (defaultProperties extent extent)
          (Some (DisplayList
             [\<lparr>beginOpIndex = 0, endOpIndex = length ops, beginChildIndex = 0,
               endChildIndex = 0, reorderChildren = True\<rparr>]
             ops [] (- 1)))
          (Some \<lparr>inverseTransformInWindow = (0, 0)\<rparr>) [],
      damage = rectWH (real_of_int extent) (real_of_int extent)\<rparr>"


lemmas constructionDefs =
  FrameBuilder_def deferLayerUpdate_def saveForLayer_def restoreForLayer_def restore_def
  save_def getSaveCount_def restoreToCount_def intToUInt32_def toUInt32_def roundOut_def
  deferNodeOps_def buildZSortedChildList_def defer3dChildren_def deferOp_def
  deferBeginLayerOp_def deferEndLayerOp_def deferRectOp_def tessBatchId_def
  deferStrokeableOp_def elementAt_def

section \<open>Properties\<close>

subsection \<open>Helper facts\<close>

lemma onCurrentLayer_deferred:
  assumes "onCurrentLayer (\<lambda>lb. lb\<lparr>deferred := deferred lb @ ds\<rparr>) fb = Inr fb'"
  shows "currentDeferred fb' = currentDeferred fb @ ds"
  using assms
  by (auto simp: onCurrentLayer_def currentDeferred_def currentLayer_def currentLayerIndex_def
                 andThen_def split: if_splits)

lemma deferUnmergeableOp_fun:
  "deferUnmergeableOp bakedState batchId
     = (\<lambda>lb. lb\<lparr>deferred := deferred lb @ [UnmergeableOp bakedState batchId]\<rparr>)"
  by (rule ext) (simp add: deferUnmergeableOp_def)

lemma deferMergeableOp_fun:
  "deferMergeableOp bakedState batchId mergeId
     = (\<lambda>lb. lb\<lparr>deferred := deferred lb @ [MergeableOp bakedState batchId mergeId]\<rparr>)"
  by (rule ext) (simp add: deferMergeableOp_def)

lemma deferLayerClear_fun:
  "deferLayerClear r = (\<lambda>lb. lb\<lparr>deferred := deferred lb @ [LayerClear r]\<rparr>)"
  by (rule ext) (simp add: deferLayerClear_def)

lemma deferStrokeableOp_deferred:
  assumes "deferStrokeableOp ext recordedOp batchId strokeBehavior fb = Inr fb'"
  shows "currentDeferred fb' = currentDeferred fb
           @ (case tryStrokeableOpConstruct ext (currentSnapshot fb) recordedOp strokeBehavior of
                None \<Rightarrow> []
              | Some bakedState \<Rightarrow> [UnmergeableOp bakedState batchId])"
proof (cases "tryStrokeableOpConstruct ext (currentSnapshot fb) recordedOp strokeBehavior")
  case None
  with assms show ?thesis by (simp add: deferStrokeableOp_def)
next
  case (Some bakedState)
  with assms have
    "onCurrentLayer (\<lambda>lb. lb\<lparr>deferred := deferred lb @ [UnmergeableOp bakedState batchId]\<rparr>) fb
       = Inr fb'"
    by (simp add: deferStrokeableOp_def deferUnmergeableOp_fun)
  from onCurrentLayer_deferred[OF this] Some show ?thesis by simp
qed

subsection \<open>Batch ids of the tessellated shapes (claim C3)\<close>

text \<open>Claim C3, as the code has it. An arc, oval, rect or round-rect op that has a paint
  is deferred, when its bake succeeds, as one unmergeable op whose batch id is
  \<open>AlphaMaskTexture\<close> if the paint has a path effect, else \<open>AlphaVertices\<close> if it is
  anti-aliased, else \<open>Vertices\<close>; a path op is deferred as one unmergeable op of batch
  \<open>Bitmap\<close>, whatever its paint. Nothing is deferred when the bake rejects the op, and
  none of these ops is ever deferred as mergeable.\<close>

theorem tessellated_ops_batch_id:
  assumes "paint recordedOp = Some p"
    and "opId recordedOp \<in> {ArcOp, OvalOp, RectOp, PathOp}
           \<or> (\<exists>rx ry. opId recordedOp = RoundRectOp rx ry)"
    and "deferOp ext deferNode displayList skips recordedOp fb = Inr fb'"
  shows "currentDeferred fb' = currentDeferred fb
           @ (case tryStrokeableOpConstruct ext (currentSnapshot fb) recordedOp StyleDefined of
                None \<Rightarrow> []
              | Some bakedState \<Rightarrow>
                  [UnmergeableOp bakedState
                     (if opId recordedOp = PathOp then Bitmap
                      else if getPathEffect p then AlphaMaskTexture
                      else if isAntiAlias p then AlphaVertices
                      else Vertices)])"
proof -
  let ?tess = "if getPathEffect p then AlphaMaskTexture
               else if isAntiAlias p then AlphaVertices else Vertices"
  have tess: "tessBatchId recordedOp = Inr ?tess"
    using assms(1) by (simp add: tessBatchId_def deref_def andThen_def)
  from assms(2) consider "opId recordedOp = PathOp" | "opId recordedOp = ArcOp"
    | "opId recordedOp = OvalOp" | "opId recordedOp = RectOp"
    | rx ry where "opId recordedOp = RoundRectOp rx ry"
    by auto
  then show ?thesis
  proof cases
    case 1
    with assms(3) have "deferStrokeableOp ext recordedOp Bitmap StyleDefined fb = Inr fb'"
      by (simp add: deferOp_def deferPathOp_def)
    from deferStrokeableOp_deferred[OF this] 1 show ?thesis by simp
  next
    case 2
    with assms(3) tess have "deferStrokeableOp ext recordedOp ?tess StyleDefined fb = Inr fb'"
      by (simp add: deferOp_def deferArcOp_def andThen_def)
    from deferStrokeableOp_deferred[OF this] 2 show ?thesis by simp
  next
    case 3
    with assms(3) tess have "deferStrokeableOp ext recordedOp ?tess StyleDefined fb = Inr fb'"
      by (simp add: deferOp_def deferOvalOp_def andThen_def)
    from deferStrokeableOp_deferred[OF this] 3 show ?thesis by simp
  next
    case 4
    with assms(3) tess have "deferStrokeableOp ext recordedOp ?tess StyleDefined fb = Inr fb'"
      by (simp add: deferOp_def deferRectOp_def andThen_def)
    from deferStrokeableOp_deferred[OF this] 4 show ?thesis by simp
  next
    case 5
    with assms(3) tess have "deferStrokeableOp ext recordedOp ?tess StyleDefined fb = Inr fb'"
      by (simp add: deferOp_def deferRoundRectOp_def andThen_def)
    from deferStrokeableOp_deferred[OF this] 5 show ?thesis by simp
  qed
qed

text \<open>The theorem at a rect op drawn on the empty frame: one unmergeable op of batch
  \<open>Vertices\<close>.\<close>

theorem tessellated_ops_batch_id_witness:
  "paint (recorded RectOp (mkRect 0 0 10 10)) = Some defaultPaint
   \<and> opId (recorded RectOp (mkRect 0 0 10 10)) \<in> {ArcOp, OvalOp, RectOp, PathOp}
   \<and> isOk (deferOp simpleExt (\<lambda>n s. Inr s) (DisplayList [] [] [] (- 1)) []
              (recorded RectOp (mkRect 0 0 10 10)) frame0)
   \<and> map deferralBatch
         (currentDeferred
            (projr (deferOp simpleExt (\<lambda>n s. Inr s) (DisplayList [] [] [] (- 1)) []
                      (recorded RectOp (mkRect 0 0 10 10)) frame0)))
       = [Some (Vertices, False)]"
proof -
  let ?op = "recorded RectOp (mkRect 0 0 10 10)"
  let ?run = "deferOp simpleExt (\<lambda>n s. Inr s) (DisplayList [] [] [] (- 1)) [] ?op frame0"
  have p: "paint ?op = Some defaultPaint"
    by (simp add: recorded_def)
  have k: "opId ?op \<in> {ArcOp, OvalOp, RectOp, PathOp} \<or> (\<exists>rx ry. opId ?op = RoundRectOp rx ry)"
    by (simp add: recorded_def)
  have r: "isOk ?run"
    by (simp add: isOk_def deferOp_def deferRectOp_def tessBatchId_def deferStrokeableOp_def
                  frame0Defs layerDefs rectDefs Let_def)
  then have run: "?run = Inr (projr ?run)"
    by (cases ?run) (simp_all add: isOk_def)
  have b: "tryStrokeableOpConstruct simpleExt (currentSnapshot frame0) ?op StyleDefined \<noteq> None"
    by (simp add: frame0Defs layerDefs rectDefs Let_def)
  from tessellated_ops_batch_id[OF p k run] b
  have "map deferralBatch (currentDeferred (projr ?run)) = [Some (Vertices, False)]"
    by (auto simp: currentDeferred_def frame0Defs layerDefs recorded_def)
  with p k r show ?thesis by (simp add: recorded_def)
qed

text \<open>Claim C3 as the spec states it fails for a path op: one whose paint has neither a
  path effect nor anti-aliasing lands in batch \<open>Bitmap\<close>, although the rule for the
  tessellated shapes gives \<open>Vertices\<close>.\<close>

theorem path_op_batch_counterexample:
  "tessBatchId (recorded PathOp (mkRect 0 0 10 10)) = Inr Vertices
   \<and> deferredBatches (deferPathOp simpleExt (recorded PathOp (mkRect 0 0 10 10)) frame0)
       = [[Some (Bitmap, False)]]"
  by (simp add: deferredBatches_def deferPathOp_def deferStrokeableOp_def tessBatchId_def
                frame0Defs layerDefs rectDefs Let_def)

subsection \<open>Mergeable bitmaps (claim C1)\<close>

text \<open>Claim C1 says that a bitmap op is deferred as mergeable only when its baked clip is
  rectangular, a null clip state counting as rectangular. The code does otherwise at both
  ends: \<open>hasMergeableClip\<close> accepts every clip state that is not null, so a bitmap op
  baked with a region clip is deferred as mergeable, and with a null clip state it reads
  through the null pointer.\<close>

theorem bitmap_op_region_clip_deferred_mergeable:
  "deferredBatches
     (deferBitmapOp (bakeWithClip (Some \<lparr>mode = Region, rect = rectWH 100 100\<rparr>))
        (recorded (BitmapOp someBitmap) (mkRect 0 0 10 10)) someBitmap frame0)
     = [[Some (Bitmap, True)]]
   \<and> deferBitmapOp (bakeWithClip None)
        (recorded (BitmapOp someBitmap) (mkRect 0 0 10 10)) someBitmap frame0
     = Inl NullDereference"
  by (simp add: deferredBatches_def deferBitmapOp_def hasMergeableClip_def bakeWithClip_def
                getXfermodeDirect_def someBitmap_def frame0Defs layerDefs rectDefs Let_def)

subsection \<open>Ending an unclipped layer (claim C8)\<close>

text \<open>Claim C8. Where there is a current layer builder, \<open>deferEndUnclippedLayerOp\<close>
  aborts with a fatal error if and only if the stack of active unclipped save layers of
  that builder is empty; when it is not empty, the top entry is popped and deferred as an
  unmergeable op of batch \<open>CopyFromLayer\<close> in that builder, and nothing else changes.\<close>

theorem end_unclipped_layer_pops_or_aborts:
  assumes "currentLayerIndex fb = Inr i"
  shows "(isFatal (deferEndUnclippedLayerOp ext fb)
            \<longleftrightarrow> activeUnclippedSaveLayers (mLayerBuilders fb ! i) = [])
         \<and> (activeUnclippedSaveLayers (mLayerBuilders fb ! i) \<noteq> [] \<longrightarrow>
              deferEndUnclippedLayerOp ext fb =
                Inr (fb\<lparr>mLayerBuilders := (mLayerBuilders fb)
                       [i := (mLayerBuilders fb ! i)
                          \<lparr>deferred := deferred (mLayerBuilders fb ! i)
                             @ [UnmergeableOp
                                  (last (activeUnclippedSaveLayers (mLayerBuilders fb ! i)))
                                  CopyFromLayer],
                           activeUnclippedSaveLayers :=
                             butlast (activeUnclippedSaveLayers (mLayerBuilders fb ! i))\<rparr>]\<rparr>))"
proof -
  from assms have i: "i < length (mLayerBuilders fb)" and s: "mLayerStack fb \<noteq> []"
    and l: "last (mLayerStack fb) = i"
    by (auto simp: currentLayerIndex_def split: if_splits)
  show ?thesis
    using assms i
    by (simp add: deferEndUnclippedLayerOp_def currentLayer_def onCurrentLayer_def
                  currentLayerIndex_def andThen_def isFatal_def deferUnmergeableOp_def Let_def
             split: if_splits)
qed

theorem end_unclipped_layer_pops_or_aborts_witness:
  "currentLayerIndex frameWithOpenLayer = Inr 0
   \<and> activeUnclippedSaveLayers (mLayerBuilders frameWithOpenLayer ! 0) \<noteq> []
   \<and> \<not> isFatal (deferEndUnclippedLayerOp simpleExt frameWithOpenLayer)
   \<and> deferredBatches (deferEndUnclippedLayerOp simpleExt frameWithOpenLayer)
       = [[Some (CopyFromLayer, False)]]
   \<and> isFatal (deferEndUnclippedLayerOp simpleExt frame0)"
proof -
  have i: "currentLayerIndex frameWithOpenLayer = Inr 0"
    by (simp add: frameWithOpenLayer_def frame0Defs layerDefs)
  have a: "activeUnclippedSaveLayers (mLayerBuilders frameWithOpenLayer ! 0) \<noteq> []"
    by (simp add: frameWithOpenLayer_def frame0Defs layerDefs)
  have i0: "currentLayerIndex frame0 = Inr 0"
    by (simp add: frame0Defs layerDefs)
  have a0: "activeUnclippedSaveLayers (mLayerBuilders frame0 ! 0) = []"
    by (simp add: frame0Defs layerDefs)
  from end_unclipped_layer_pops_or_aborts[OF i, of simpleExt] a
  have "\<not> isFatal (deferEndUnclippedLayerOp simpleExt frameWithOpenLayer)"
    and "deferredBatches (deferEndUnclippedLayerOp simpleExt frameWithOpenLayer)
           = [[Some (CopyFromLayer, False)]]"
    by (simp_all add: deferredBatches_def isFatal_def frameWithOpenLayer_def frame0_def
                      initialFrameBuilder_def newLayerBuilder_def)
  moreover from end_unclipped_layer_pops_or_aborts[OF i0, of simpleExt] a0
  have "isFatal (deferEndUnclippedLayerOp simpleExt frame0)" by simp
  ultimately show ?thesis using i a by simp
qed

subsection \<open>Shadows of casters with an empty reveal clip (claim C9)\<close>

text \<open>Claim C9. When the caster has a reveal-clip path and that path is empty,
  \<open>deferShadow\<close> defers nothing and leaves the builder as it was.\<close>

theorem shadow_skipped_for_empty_reveal_clip:
  assumes "revealPath (getRevealClip (properties (renderNode casterNodeOp))) = Some p"
    and "pathIsEmpty ext p"
  shows "deferShadow ext casterNodeOp fb = Inr fb"
  using assms
  by (simp add: deferShadow_def Let_def deref_def andThen_def split: option.splits)

text \<open>The same caster casts a shadow without its reveal clip, and none with the empty
  one.\<close>

theorem shadow_skipped_for_empty_reveal_clip_witness:
  "revealPath (getRevealClip (properties (renderNode (casterWithReveal (Some emptyRect)))))
     = Some emptyRect
   \<and> pathIsEmpty simpleExt emptyRect
   \<and> deferShadow simpleExt (casterWithReveal (Some emptyRect)) frame0 = Inr frame0
   \<and> deferredBatches (deferShadow simpleExt (casterWithReveal None) frame0)
       = [[Some (Shadow, False)]]"
proof -
  have r: "revealPath (getRevealClip (properties (renderNode (casterWithReveal (Some emptyRect)))))
             = Some emptyRect"
    by (simp add: casterWithReveal_def defaultProperties_def)
  have e: "pathIsEmpty simpleExt emptyRect"
    by (simp add: simpleExt_def rectDefs)
  have "deferredBatches (deferShadow simpleExt (casterWithReveal None) frame0)
          = [[Some (Shadow, False)]]"
    by (simp add: deferredBatches_def deferShadow_def casterWithReveal_def
                  defaultProperties_def mkShadowOp_def frame0Defs layerDefs rectDefs Let_def)
  with shadow_skipped_for_empty_reveal_clip[OF r e, of frame0] r e show ?thesis by simp
qed

subsection \<open>Rejected nodes (claim C7)\<close>

lemma sameLayers_refl [simp]: "sameLayers fb fb"
  by (simp add: sameLayers_def)

lemma sameLayers_canvas [simp]: "sameLayers fb (canvas f fb') = sameLayers fb fb'"
  by (simp add: sameLayers_def canvas_def writeSnapshot_def)

lemma restoreSnapshots_keep:
  "length ps < saveCount
     \<Longrightarrow> restoreSnapshots saveCount s ps = \<lparr>mSnapshot = s, mPrevious = ps\<rparr>"
  by (cases ps) simp_all

lemma restoreToCount_after_save:
  assumes "mPrevious cs' = mSnapshot cs # mPrevious cs"
  shows "restoreToCount (getSaveCount cs) cs' = cs"
  using assms by (simp add: restoreToCount_def getSaveCount_def restoreSnapshots_keep)

text \<open>Claim C7. A node with alpha at most 0, or with an outline that clips and is empty,
  or with a zero scale in x or in y, is rejected: \<open>deferNodePropsAndOps\<close> returns the
  builder as it was, nothing deferred and the canvas state untouched. Hence a child op
  of such a node, at whatever depth it is reached, leaves the builder as it was.\<close>

theorem rejected_node_defers_nothing:
  assumes "getAlpha (properties node) \<le> 0
           \<or> (getShouldClip (getOutline (properties node))
               \<and> outlineIsEmpty (getOutline (properties node)))
           \<or> getScaleX (properties node) = 0
           \<or> getScaleY (properties node) = 0"
  shows "deferNodePropsAndOps ext node fb = Inr fb
         \<and> (renderNode childOp = node \<longrightarrow>
              deferRenderNodeOpImpl ext (deferNodePropsAndOps ext) childOp fb = Inr fb)"
proof -
  have rejected: "deferNodePropsAndOps ext node s = Inr s" for s
    using assms by (subst deferNodePropsAndOps.simps) (simp add: Let_def)
  have "deferRenderNodeOpImpl ext (deferNodePropsAndOps ext) childOp fb = Inr fb"
    if "renderNode childOp = node"
  proof (cases "nothingToDraw ext (renderNode childOp)")
    case True
    then show ?thesis by (simp add: deferRenderNodeOpImpl_def)
  next
    case False
    have "restoreToCount (getSaveCount (mCanvasState fb))
            \<lparr>mSnapshot = s, mPrevious = mSnapshot (mCanvasState fb) # mPrevious (mCanvasState fb)\<rparr>
          = mCanvasState fb" for s
      by (rule restoreToCount_after_save) simp
    with False that show ?thesis
      by (simp add: deferRenderNodeOpImpl_def rejected save_def canvas_def writeSnapshot_def
                    andThen_def Let_def)
  qed
  with rejected show ?thesis by simp
qed

text \<open>A node with alpha 0 and a rect to draw, alone and as the child of an op; with
  alpha 1 the same node defers its rect.\<close>

theorem rejected_node_defers_nothing_witness:
  "getAlpha (properties (nodeWith ((defaultProperties 10 10)\<lparr>getAlpha := 0\<rparr>)
                           [recorded RectOp (mkRect 0 0 10 10)] [])) \<le> 0
   \<and> deferNodePropsAndOps simpleExt
        (nodeWith ((defaultProperties 10 10)\<lparr>getAlpha := 0\<rparr>)
           [recorded RectOp (mkRect 0 0 10 10)] []) frame0 = Inr frame0
   \<and> deferRenderNodeOpImpl simpleExt (deferNodePropsAndOps simpleExt)
        (MkRenderNodeOp (recorded (RenderNodeOp 0) (mkRect 0 0 10 10))
           (nodeWith ((defaultProperties 10 10)\<lparr>getAlpha := 0\<rparr>)
              [recorded RectOp (mkRect 0 0 10 10)] []) False (0, 0)) frame0 = Inr frame0
   \<and> deferredBatches
        (deferNodePropsAndOps simpleExt
           (nodeWith (defaultProperties 10 10) [recorded RectOp (mkRect 0 0 10 10)] []) frame0)
       = [[Some (Vertices, False)]]"
proof -
  let ?n = "nodeWith ((defaultProperties 10 10)\<lparr>getAlpha := 0\<rparr>)
              [recorded RectOp (mkRect 0 0 10 10)] []"
  let ?c = "MkRenderNodeOp (recorded (RenderNodeOp 0) (mkRect 0 0 10 10)) ?n False (0, 0)"
  have a: "getAlpha (properties ?n) \<le> 0
           \<or> (getShouldClip (getOutline (properties ?n)) \<and> outlineIsEmpty (getOutline (properties ?n)))
           \<or> getScaleX (properties ?n) = 0 \<or> getScaleY (properties ?n) = 0"
    by (simp add: nodeWith_def defaultProperties_def)
  have a0: "getAlpha (properties ?n) \<le> 0"
    by (simp add: nodeWith_def defaultProperties_def)
  have c: "renderNode ?c = ?n" by simp
  have d: "deferredBatches
             (deferNodePropsAndOps simpleExt
                (nodeWith (defaultProperties 10 10) [recorded RectOp (mkRect 0 0 10 10)] [])
                frame0)
           = [[Some (Vertices, False)]]"
    by (simp add: deferNodePropsAndOps.simps applyNodeProperties_def deferNodeOps_def
                  buildZSortedChildList_def defer3dChildren_def deferOp_def deferRectOp_def
                  tessBatchId_def deferStrokeableOp_def elementAt_def deferredBatches_def
                  nodeWith_def defaultProperties_def frame0Defs layerDefs rectDefs Let_def)
  from rejected_node_defers_nothing[OF a, of simpleExt frame0 ?c] c a0 d
  show ?thesis by simp
qed

subsection \<open>Nodes drawn from their layer (claim C10)\<close>

text \<open>\<open>applyNodeProperties\<close> writes the current snapshot only, and fails only by reading
  a transform matrix that is not there.\<close>

lemma applyNodeProperties_cases:
  "(case applyNodeProperties ext props fb of
      Inl e \<Rightarrow> e = NullDereference \<and> hasTransformMatrix props
               \<and> \<not> isTransformTranslateOnly props \<and> getTransformMatrix props = None
    | Inr r \<Rightarrow> sameLayers fb (snd r))"
  by (simp add: applyNodeProperties_def Let_def andThen_def deref_def
           split: option.split sum.split prod.split)

lemma applyNodeProperties_sameLayers:
  "applyNodeProperties ext props fb = Inr (b, fb') \<Longrightarrow> sameLayers fb fb'"
  using applyNodeProperties_cases[where ext = ext and props = props and fb = fb] by simp

text \<open>Claim C10. For a node that has a persistent layer (and whose transform matrix is
  there when it is to be concatenated), when the bake of the node's \<open>LayerOp\<close> rejects it
  in the state that the node's properties lead to, which is where the bake is made,
  \<open>deferNodePropsAndOps\<close> returns without error and without deferring anything: the
  layer builders, the layer stack and the saved snapshots are as before. The display list
  is not traversed: the result is the same whatever display list and projected nodes the
  node has.\<close>

theorem layer_node_rejected_by_bake_defers_nothing:
  assumes "getLayer node = Some layer"
    and "\<And>saveLayerBounds fb1.
           applyNodeProperties ext (properties node) fb = Inr (saveLayerBounds, fb1)
           \<Longrightarrow> tryBakeOpState ext (mkLayerOp ext node layer) fb1 = None"
    and "hasTransformMatrix (properties node) \<and> \<not> isTransformTranslateOnly (properties node)
           \<longrightarrow> getTransformMatrix (properties node) \<noteq> None"
  shows "(\<exists>fb'. deferNodePropsAndOps ext node fb = Inr fb' \<and> sameLayers fb fb')
         \<and> deferNodePropsAndOps ext
              (RenderNode (properties node) displayList (getLayer node) projected) fb
             = deferNodePropsAndOps ext node fb"
proof -
  let ?props = "properties node"
  let ?node' = "RenderNode ?props displayList (getLayer node) projected"
  have op': "mkLayerOp ext (RenderNode ?props d l q) layer = mkLayerOp ext node layer"
    for d l q
    by (simp add: mkLayerOp_def)
  have same: "deferNodePropsAndOps ext ?node' fb = deferNodePropsAndOps ext node fb"
    by (subst deferNodePropsAndOps.simps[of ext node],
        subst deferNodePropsAndOps.simps[of ext ?node'])
       (simp add: assms(1) op' Let_def case_prod_unfold cong: if_cong)
  have "\<exists>fb'. deferNodePropsAndOps ext node fb = Inr fb' \<and> sameLayers fb fb'"
  proof (cases "applyNodeProperties ext ?props fb")
    case (Inl e)
    with applyNodeProperties_cases[where ext = ext and props = "?props" and fb = fb] assms(3)
    show ?thesis by simp
  next
    case (Inr r)
    obtain b fb1 where r: "r = (b, fb1)" by (cases r)
    from Inr r have s: "sameLayers fb fb1" by (simp add: applyNodeProperties_sameLayers)
    from Inr r have "tryBakeOpState ext (mkLayerOp ext node layer) fb1 = None"
      by (intro assms(2)) simp
    with Inr r assms(1) s show ?thesis
      by (subst deferNodePropsAndOps.simps)
         (simp add: Let_def andThen_def)
  qed
  with same show ?thesis by simp
qed

text \<open>A node of 10 by 10 with a layer and a rect in its display list, placed outside the
  clip, under a quick reject that lets it pass. The bake accepts the node's \<open>LayerOp\<close>
  in the state before the node, and rejects it where it is made, after the node's
  translation and clip: the primary layer builder stays empty.\<close>

theorem layer_node_rejected_by_bake_defers_nothing_witness:
  "getLayer farLayerNode = Some \<lparr>inverseTransformInWindow = (0, 0)\<rparr>
   \<and> \<not> hasTransformMatrix (properties farLayerNode)
   \<and> tryBakeOpState lenientExt
        (mkLayerOp lenientExt farLayerNode \<lparr>inverseTransformInWindow = (0, 0)\<rparr>) frame0 \<noteq> None
   \<and> isOk (applyNodeProperties lenientExt (properties farLayerNode) frame0)
   \<and> tryBakeOpState lenientExt
        (mkLayerOp lenientExt farLayerNode \<lparr>inverseTransformInWindow = (0, 0)\<rparr>)
        (snd (projr (applyNodeProperties lenientExt (properties farLayerNode) frame0))) = None
   \<and> isOk (deferNodePropsAndOps lenientExt farLayerNode frame0)
   \<and> deferredBatches (deferNodePropsAndOps lenientExt farLayerNode frame0) = [[]]"
proof -
  let ?layer = "\<lparr>inverseTransformInWindow = (0::real, 0::real)\<rparr>"
  let ?applied = "applyNodeProperties lenientExt (properties farLayerNode) frame0"
  have l: "getLayer farLayerNode = Some ?layer"
    by (simp add: farLayerNode_def layerBackedNode_def)
  have t: "\<not> hasTransformMatrix (properties farLayerNode)"
    by (simp add: farLayerNode_def defaultProperties_def)
  then have t': "hasTransformMatrix (properties farLayerNode)
                   \<and> \<not> isTransformTranslateOnly (properties farLayerNode)
                 \<longrightarrow> getTransformMatrix (properties farLayerNode) \<noteq> None"
    by simp
  have before: "tryBakeOpState lenientExt (mkLayerOp lenientExt farLayerNode ?layer) frame0
                \<noteq> None"
    by (simp add: mkLayerOp_def farLayerNode_def defaultProperties_def lenientExt_def
                  frame0Defs layerDefs rectDefs Let_def)
  have a: "isOk ?applied
           \<and> tryBakeOpState lenientExt (mkLayerOp lenientExt farLayerNode ?layer)
               (snd (projr ?applied)) = None"
    by (simp add: isOk_def applyNodeProperties_def mkLayerOp_def farLayerNode_def
                  defaultProperties_def lenientExt_def frame0Defs layerDefs rectDefs Let_def)
  have b: "tryBakeOpState lenientExt (mkLayerOp lenientExt farLayerNode ?layer) fb1 = None"
    if "?applied = Inr (saveLayerBounds, fb1)" for saveLayerBounds fb1
    using a that by simp
  have "(\<exists>fb'. deferNodePropsAndOps lenientExt farLayerNode frame0 = Inr fb'
               \<and> sameLayers frame0 fb')
        \<and> deferNodePropsAndOps lenientExt
             (RenderNode (properties farLayerNode) None (getLayer farLayerNode) []) frame0
            = deferNodePropsAndOps lenientExt farLayerNode frame0"
    by (rule layer_node_rejected_by_bake_defers_nothing[OF l _ t']) (rule b)
  then obtain fb' where r: "deferNodePropsAndOps lenientExt farLayerNode frame0 = Inr fb'"
    and s: "sameLayers frame0 fb'"
    by blast
  from s have "map (\<lambda>lb. map deferralBatch (deferred lb)) (mLayerBuilders fb') = [[]]"
    by (simp add: sameLayers_def frame0_def initialFrameBuilder_def newLayerBuilder_def)
  with r l t before a show ?thesis
    by (simp add: isOk_def deferredBatches_def)
qed

subsection \<open>Shadows before draws (claim C2)\<close>

lemma findNonNegativeIndexFrom_le:
  "findNonNegativeIndexFrom zs i \<le> i + length zs"
proof (induction zs arbitrary: i)
  case Nil
  show ?case by simp
next
  case (Cons z zs)
  from Cons.IH[of "Suc i"] show ?case by simp
qed

lemma findNonNegativeIndex_le: "findNonNegativeIndex zs \<le> length zs"
  using findNonNegativeIndexFrom_le[of zs 0] by (simp add: findNonNegativeIndex_def)

lemma defer3dLoop_refines:
  assumes "endIndex = length zs" "drawIndex \<le> shadowIndex" "shadowIndex \<le> length zs"
  shows "defer3dLoop ext deferNode zs endIndex shadowIndex drawIndex lastCasterZ fb
         = runEmissions ext deferNode zs
             (shadowInterleavingFloat (map fst zs) shadowIndex drawIndex lastCasterZ) fb"
  using assms
proof (induction ext deferNode zs endIndex shadowIndex drawIndex lastCasterZ fb
       rule: defer3dLoop.induct)
  case (1 ext deferNode zs endIndex shadowIndex drawIndex lastCasterZ fb)
  note n = \<open>endIndex = length zs\<close>
  show ?case
  proof (cases "shadowIndex < endIndex \<and> (shadowIndex = drawIndex
                  \<or> floatSub (fst (zs ! shadowIndex)) lastCasterZ < floatTenth)")
    case True
    then have si: "shadowIndex < length zs" by (simp add: n)
    have e: "elementAt zs shadowIndex = Inr (zs ! shadowIndex)"
      using si by (simp add: elementAt_def)
    have first: "(if shadowIndex < endIndex then
                    andThen (elementAt zs shadowIndex)
                      (\<lambda>caster. Inr (shadowIndex = drawIndex
                                      \<or> floatSub (fst caster) lastCasterZ < floatTenth))
                  else Inr False) = Inr True"
      using True e by (simp add: andThen_def)
    have sched: "shadowInterleavingFloat (map fst zs) shadowIndex drawIndex lastCasterZ
                 = EmitShadow shadowIndex
                     # shadowInterleavingFloat (map fst zs) (Suc shadowIndex) drawIndex
                         (fst (zs ! shadowIndex))"
      using True si by (subst shadowInterleavingFloat.simps) (simp add: n)
    have step: "defer3dLoop ext deferNode zs endIndex (Suc shadowIndex) drawIndex
                  (fst (zs ! shadowIndex)) s
                = runEmissions ext deferNode zs
                    (shadowInterleavingFloat (map fst zs) (Suc shadowIndex) drawIndex
                       (fst (zs ! shadowIndex))) s"
      if "deferShadow ext (snd (zs ! shadowIndex)) fb = Inr s" for s
    proof (rule "1.IH"(1)[OF _ first _ e that])
      show "shadowIndex < endIndex \<or> drawIndex < endIndex" using True by simp
      show True by simp
      show "endIndex = length zs" by (rule n)
      show "drawIndex \<le> Suc shadowIndex" using "1.prems" by simp
      show "Suc shadowIndex \<le> length zs" using si by simp
    qed
    have "defer3dLoop ext deferNode zs endIndex shadowIndex drawIndex lastCasterZ fb
          = andThen (deferShadow ext (snd (zs ! shadowIndex)) fb)
              (defer3dLoop ext deferNode zs endIndex (Suc shadowIndex) drawIndex
                 (fst (zs ! shadowIndex)))"
      using True by (subst defer3dLoop.simps) (simp add: first e andThen_def)
    also have "\<dots> = andThen (deferShadow ext (snd (zs ! shadowIndex)) fb)
              (runEmissions ext deferNode zs
                 (shadowInterleavingFloat (map fst zs) (Suc shadowIndex) drawIndex
                    (fst (zs ! shadowIndex))))"
      by (rule andThen_cong[OF refl]) (rule step)
    finally show ?thesis by (simp add: sched)
  next
    case False
    show ?thesis
    proof (cases "drawIndex < endIndex")
      case d: True
      have e: "elementAt zs drawIndex = Inr (zs ! drawIndex)"
        using d by (simp add: elementAt_def n)
      have first: "(if shadowIndex < endIndex then
                      andThen (elementAt zs shadowIndex)
                        (\<lambda>caster. Inr (shadowIndex = drawIndex
                                        \<or> floatSub (fst caster) lastCasterZ < floatTenth))
                    else Inr False) = Inr False"
        using False by (auto simp: elementAt_def andThen_def n)
      have sched: "shadowInterleavingFloat (map fst zs) shadowIndex drawIndex lastCasterZ
                   = EmitDraw drawIndex
                       # shadowInterleavingFloat (map fst zs) shadowIndex (Suc drawIndex) lastCasterZ"
        using False d by (subst shadowInterleavingFloat.simps) (auto simp: n)
      from False d "1.prems" have lt: "drawIndex < shadowIndex" by auto
      have step: "defer3dLoop ext deferNode zs endIndex shadowIndex (Suc drawIndex) lastCasterZ s
                  = runEmissions ext deferNode zs
                      (shadowInterleavingFloat (map fst zs) shadowIndex (Suc drawIndex)
                         lastCasterZ) s"
        if "deferRenderNodeOpImpl ext deferNode (snd (zs ! drawIndex)) fb = Inr s" for s
      proof (rule "1.IH"(2)[OF _ first _ e that])
        show "shadowIndex < endIndex \<or> drawIndex < endIndex" using d by simp
        show "\<not> False" by simp
        show "endIndex = length zs" by (rule n)
        show "Suc drawIndex \<le> shadowIndex" using lt by simp
        show "shadowIndex \<le> length zs" using "1.prems" by simp
      qed
      have "defer3dLoop ext deferNode zs endIndex shadowIndex drawIndex lastCasterZ fb
            = andThen (deferRenderNodeOpImpl ext deferNode (snd (zs ! drawIndex)) fb)
                (defer3dLoop ext deferNode zs endIndex shadowIndex (Suc drawIndex) lastCasterZ)"
        using d by (subst defer3dLoop.simps) (simp add: first e andThen_def)
      also have "\<dots> = andThen (deferRenderNodeOpImpl ext deferNode (snd (zs ! drawIndex)) fb)
                (runEmissions ext deferNode zs
                   (shadowInterleavingFloat (map fst zs) shadowIndex (Suc drawIndex) lastCasterZ))"
        by (rule andThen_cong[OF refl]) (rule step)
      finally show ?thesis by (simp add: sched)
    next
      case d: False
      from d False "1.prems" have none: "\<not> (shadowIndex < endIndex \<or> drawIndex < endIndex)"
        by (auto simp: n)
      have sched: "shadowInterleavingFloat (map fst zs) shadowIndex drawIndex lastCasterZ = []"
        using none by (subst shadowInterleavingFloat.simps) (auto simp: n)
      show ?thesis
        using none by (subst defer3dLoop.simps) (simp add: sched)
    qed
  qed
qed


lemma defer3dChildren_positive_run:
  "defer3dChildren ext deferNode Positive zs fb =
     (if zs = [] \<or> fst (zs ! (length zs - 1)) < 0 then Inr fb
      else runEmissions ext deferNode zs
             (shadowInterleavingFloat (map fst zs) (findNonNegativeIndex zs)
                (findNonNegativeIndex zs) 0) fb)"
proof -
  have "defer3dLoop ext deferNode zs (length zs) (findNonNegativeIndex zs)
               (findNonNegativeIndex zs) 0 fb
             = runEmissions ext deferNode zs
                 (shadowInterleavingFloat (map fst zs) (findNonNegativeIndex zs)
                    (findNonNegativeIndex zs) 0) fb"
    by (rule defer3dLoop_refines) (simp_all add: findNonNegativeIndex_le)
  then show ?thesis
    by (simp add: defer3dChildren_def Let_def)
qed

lemma bitLength_eq: "2 ^ k \<le> n \<Longrightarrow> n < 2 ^ Suc k \<Longrightarrow> bitLength n = Suc k"
proof (induction k arbitrary: n)
  case 0
  then have "n = 1" by simp
  then show ?case by (simp add: bitLength.simps)
next
  case (Suc k)
  from Suc.prems have "2 ^ k \<le> n div 2" "n div 2 < 2 ^ Suc k" by simp_all
  then have "bitLength (n div 2) = Suc k" by (rule Suc.IH)
  moreover from Suc.prems have "n \<noteq> 0" by auto
  ultimately show ?case by (subst bitLength.simps) simp
qed

lemma roundToFloat_binade:
  assumes "2 ^ k \<le> \<bar>x\<bar> * 2 ^ 149" and "\<bar>x\<bar> * 2 ^ 149 < 2 ^ Suc k"
  shows "roundToFloat x
         = sgn x * (of_int (roundHalfEven (\<bar>x\<bar> * 2 ^ 149 / 2 ^ (Suc k - 24)))
                     * 2 ^ (Suc k - 24) / 2 ^ 149)"
proof -
  let ?m = "\<bar>x\<bar> * 2 ^ 149"
  from assms(1) have "(2::int) ^ k \<le> \<lfloor>?m\<rfloor>" by (simp add: le_floor_iff)
  then have lo: "2 ^ k \<le> nat \<lfloor>?m\<rfloor>"
    by (metis nat_mono nat_2 nat_numeral nat_power_eq zero_le_numeral numeral_2_eq_2 nat_int
              of_nat_numeral of_nat_power)
  from assms(2) have "\<lfloor>?m\<rfloor> < 2 ^ Suc k" by (simp add: floor_less_iff)
  then have hi: "nat \<lfloor>?m\<rfloor> < 2 ^ Suc k"
    by (metis nat_less_iff of_nat_numeral of_nat_power zero_le_floor abs_ge_zero
              mult_nonneg_nonneg zero_le_numeral zero_le_power)
  from bitLength_eq[OF lo hi] show ?thesis by (simp add: roundToFloat_def Let_def)
qed

text \<open>\<^verbatim>\<open>0.1f\<close> is \<open>13421773 / 2\<^sup>2\<^sup>7\<close>, the float \<^verbatim>\<open>0x3DCCCCCD\<close>. The floats
  \<^verbatim>\<open>0x3DD70A3D\<close> and \<^verbatim>\<open>0x3BA3D704\<close> differ by a little less than a tenth, and their
  single-precision difference is \<^verbatim>\<open>0.1f\<close>. \<^verbatim>\<open>2.05f\<close> is \<open>8598323 / 2\<^sup>2\<^sup>2\<close>.\<close>

lemma floatTenth_value: "floatTenth = 13421773 / 134217728"
  unfolding floatTenth_def
  by (subst roundToFloat_binade[where k = 145]) (simp_all add: roundHalfEven_def)

lemma floatSub_rounds_to_tenth:
  "floatSub (14092861 / 134217728) (2684353 / 536870912) = 13421773 / 134217728"
  unfolding floatSub_def
  by (subst roundToFloat_binade[where k = 145]) (simp_all add: roundHalfEven_def)

lemma floatSub_near_twos: "floatSub (8598323 / 4194304) 2 = 209715 / 4194304"
  unfolding floatSub_def
  by (subst roundToFloat_binade[where k = 144]) (simp_all add: roundHalfEven_def)

lemmas shadowRunDefs =
  deferShadow_def mkShadowOp_def deferRenderNodeOpImpl_def save_def getSaveCount_def
  restoreToCount_def deferNodePropsAndOps.simps applyNodeProperties_def deferNodeOps_def
  buildZSortedChildList_def defer3dChildren_def deferOp_def deferRectOp_def tessBatchId_def
  deferStrokeableOp_def elementAt_def deferredBatches_def deferredBounds_def casterAt_def
  nodeWith_def defaultProperties_def

text \<open>Claim C2, with the test as the code computes it. In the positive phase
  \<open>defer3dChildren\<close> makes exactly the calls of the interleaving rule, started with both
  indices at the first child of non-negative z and the last caster's z at 0: at each step
  the shadow of the child at \<open>shadowIndex\<close>, if there is one and that index is the draw
  index or the single-precision difference of its z and the last caster's is less than
  \<^verbatim>\<open>0.1f\<close>, else the draw of the child at \<open>drawIndex\<close>.\<close>

theorem positive_children_shadow_interleaving:
  "defer3dChildren ext deferNode Positive zs fb =
     (if zs = [] \<or> fst (zs ! (length zs - 1)) < 0 then Inr fb
      else runEmissions ext deferNode zs
             (shadowInterleavingFloat (map fst zs) (findNonNegativeIndex zs)
                (findNonNegativeIndex zs) 0) fb)
   \<and> (\<forall>shadowIndex drawIndex lastCasterZ.
        drawIndex \<le> shadowIndex \<and> shadowIndex < length zs \<longrightarrow>
          ((\<exists>rest. shadowInterleavingFloat (map fst zs) shadowIndex drawIndex lastCasterZ
                     = EmitShadow shadowIndex # rest)
           \<longleftrightarrow> (shadowIndex = drawIndex
                \<or> floatSub (fst (zs ! shadowIndex)) lastCasterZ < floatTenth)))"
proof -
  have step: "(\<exists>rest. shadowInterleavingFloat (map fst zs) si di l = EmitShadow si # rest)
              \<longleftrightarrow> (si = di \<or> floatSub (fst (zs ! si)) l < floatTenth)"
    if "di \<le> si" "si < length zs" for si di l
    using that by (subst shadowInterleavingFloat.simps) auto
  from defer3dChildren_positive_run[of ext deferNode zs fb] step show ?thesis
    by simp
qed

text \<open>Two children at z \<^verbatim>\<open>2.0f\<close> and \<^verbatim>\<open>2.05f\<close>: both shadows are deferred before either
  rect.\<close>

theorem positive_children_shadow_interleaving_witness:
  "shadowInterleavingFloat
     (map fst [(2, casterAt 2 0), (8598323 / 4194304, casterAt (8598323 / 4194304) 20)]) 0 0 0
     = [EmitShadow 0, EmitShadow 1, EmitDraw 0, EmitDraw 1]
   \<and> deferredBatches
        (defer3dChildren simpleExt (deferNodePropsAndOps simpleExt) Positive
           [(2, casterAt 2 0), (8598323 / 4194304, casterAt (8598323 / 4194304) 20)] frame0)
       = [[Some (Shadow, False), Some (Shadow, False),
           Some (Vertices, False), Some (Vertices, False)]]
   \<and> deferredBounds
        (defer3dChildren simpleExt (deferNodePropsAndOps simpleExt) Positive
           [(2, casterAt 2 0), (8598323 / 4194304, casterAt (8598323 / 4194304) 20)] frame0)
       = [[mkRect 0 0 10 10, mkRect 20 0 30 10, mkRect 0 0 10 10, mkRect 20 0 30 10]]"
proof -
  let ?zs = "[(2 :: real, casterAt 2 0),
              (8598323 / 4194304, casterAt (8598323 / 4194304) 20)]"
  have sched: "shadowInterleavingFloat (map fst ?zs) 0 0 0
                 = [EmitShadow 0, EmitShadow 1, EmitDraw 0, EmitDraw 1]"
    by (simp add: shadowInterleavingFloat.simps floatSub_near_twos floatTenth_value)
  have nn: "findNonNegativeIndex ?zs = 0"
    by (simp add: findNonNegativeIndex_def)
  from positive_children_shadow_interleaving[of simpleExt "deferNodePropsAndOps simpleExt"
         ?zs frame0]
  have run: "defer3dChildren simpleExt (deferNodePropsAndOps simpleExt) Positive ?zs frame0
             = runEmissions simpleExt (deferNodePropsAndOps simpleExt) ?zs
                 [EmitShadow 0, EmitShadow 1, EmitDraw 0, EmitDraw 1] frame0"
    using sched nn by simp
  have out: "deferredBatches
               (runEmissions simpleExt (deferNodePropsAndOps simpleExt) ?zs
                  [EmitShadow 0, EmitShadow 1, EmitDraw 0, EmitDraw 1] frame0)
             = [[Some (Shadow, False), Some (Shadow, False),
                 Some (Vertices, False), Some (Vertices, False)]]
             \<and> deferredBounds
               (runEmissions simpleExt (deferNodePropsAndOps simpleExt) ?zs
                  [EmitShadow 0, EmitShadow 1, EmitDraw 0, EmitDraw 1] frame0)
             = [[mkRect 0 0 10 10, mkRect 20 0 30 10, mkRect 0 0 10 10, mkRect 20 0 30 10]]"
    by (simp add: shadowRunDefs frame0Defs layerDefs rectDefs Let_def)
  from sched run out show ?thesis by simp
qed

text \<open>Claim C2 as the spec states it reads the test as one on numbers. The z values
  \<^verbatim>\<open>0x3BA3D704\<close> and \<^verbatim>\<open>0x3DD70A3D\<close> differ by less than 0.1, so that the stated rule
  emits both shadows first. The code subtracts in single precision, where the difference
  rounds to \<^verbatim>\<open>0.1f\<close> and is not less than \<^verbatim>\<open>0.1f\<close>: it defers the first shadow, the
  first rect, the second shadow and the second rect.\<close>

theorem shadow_delta_rounding_counterexample:
  "(14092861 / 134217728 :: real) - 2684353 / 536870912 < 0.1
   \<and> shadowInterleaving
       (map fst [(2684353 / 536870912, casterAt (2684353 / 536870912) 0),
                 (14092861 / 134217728, casterAt (14092861 / 134217728) 20)]) 0 0 0
     = [EmitShadow 0, EmitShadow 1, EmitDraw 0, EmitDraw 1]
   \<and> deferredBatches
        (defer3dChildren simpleExt (deferNodePropsAndOps simpleExt) Positive
           [(2684353 / 536870912, casterAt (2684353 / 536870912) 0),
            (14092861 / 134217728, casterAt (14092861 / 134217728) 20)] frame0)
       = [[Some (Shadow, False), Some (Vertices, False),
           Some (Shadow, False), Some (Vertices, False)]]"
proof -
  let ?zs = "[(2684353 / 536870912 :: real, casterAt (2684353 / 536870912) 0),
              (14092861 / 134217728, casterAt (14092861 / 134217728) 20)]"
  have less: "(14092861 / 134217728 :: real) - 2684353 / 536870912 < 0.1"
    by simp
  have spec: "shadowInterleaving (map fst ?zs) 0 0 0
                = [EmitShadow 0, EmitShadow 1, EmitDraw 0, EmitDraw 1]"
    by (simp add: shadowInterleaving.simps)
  have sched: "shadowInterleavingFloat (map fst ?zs) 0 0 0
                 = [EmitShadow 0, EmitDraw 0, EmitShadow 1, EmitDraw 1]"
    by (simp add: shadowInterleavingFloat.simps floatSub_rounds_to_tenth floatTenth_value)
  have nn: "findNonNegativeIndex ?zs = 0"
    by (simp add: findNonNegativeIndex_def)
  from defer3dChildren_positive_run[of simpleExt "deferNodePropsAndOps simpleExt" ?zs frame0]
  have run: "defer3dChildren simpleExt (deferNodePropsAndOps simpleExt) Positive ?zs frame0
             = runEmissions simpleExt (deferNodePropsAndOps simpleExt) ?zs
                 [EmitShadow 0, EmitDraw 0, EmitShadow 1, EmitDraw 1] frame0"
    using sched nn by simp
  have out: "deferredBatches
               (runEmissions simpleExt (deferNodePropsAndOps simpleExt) ?zs
                  [EmitShadow 0, EmitDraw 0, EmitShadow 1, EmitDraw 1] frame0)
             = [[Some (Shadow, False), Some (Vertices, False),
                 Some (Shadow, False), Some (Vertices, False)]]"
    by (simp add: shadowRunDefs frame0Defs layerDefs rectDefs Let_def)
  from less spec run out show ?thesis by simp
qed

subsection \<open>Unclipped save layers (claim C5)\<close>

lemma onCurrentLayer_onCurrent:
  "isOk (currentLayerIndex fb) \<Longrightarrow> onCurrentLayer f fb = Inr (onCurrent f fb)"
  by (auto simp: onCurrentLayer_def onCurrent_def currentLayerIndex_def isOk_def andThen_def
           split: if_splits)

lemma insertDeferred_index [simp]:
  "currentLayerIndex (insertDeferred k ins act h fb) = currentLayerIndex fb"
  by (simp add: insertDeferred_def onCurrent_def currentLayerIndex_def)

lemma insertDeferred_snapshot [simp]:
  "currentSnapshot (insertDeferred k ins act h fb) = currentSnapshot fb"
  by (simp add: insertDeferred_def onCurrent_def currentSnapshot_def)

lemma append_insertDeferred:
  assumes "hasRoom k fb"
  shows "onCurrentLayer (\<lambda>lb. lb\<lparr>deferred := deferred lb @ ds\<rparr>) (insertDeferred k ins act h fb)
         = Inr (insertDeferred k ins act h
                  (onCurrent (\<lambda>lb. lb\<lparr>deferred := deferred lb @ ds\<rparr>) fb))"
proof -
  let ?i = "last (mLayerStack fb)"
  from assms have i: "?i < length (mLayerBuilders fb)" and s: "mLayerStack fb \<noteq> []"
    and k: "k \<le> length (deferred (mLayerBuilders fb ! ?i))"
    by (auto simp: hasRoom_def currentLayerIndex_def currentDeferred_def currentLayer_def
                   isOk_def andThen_def split: if_splits)
  have "isOk (currentLayerIndex (insertDeferred k ins act h fb))"
    using assms by (simp add: hasRoom_def)
  then have "onCurrentLayer (\<lambda>lb. lb\<lparr>deferred := deferred lb @ ds\<rparr>)
               (insertDeferred k ins act h fb)
             = Inr (onCurrent (\<lambda>lb. lb\<lparr>deferred := deferred lb @ ds\<rparr>)
                      (insertDeferred k ins act h fb))"
    by (rule onCurrentLayer_onCurrent)
  moreover have "onCurrent (\<lambda>lb. lb\<lparr>deferred := deferred lb @ ds\<rparr>)
                   (insertDeferred k ins act h fb)
                 = insertDeferred k ins act h
                     (onCurrent (\<lambda>lb. lb\<lparr>deferred := deferred lb @ ds\<rparr>) fb)"
    using i k
    by (intro FrameBuilder.equality)
       (auto simp: onCurrent_def insertDeferred_def intro!: LayerBuilder.equality
             arg_cong2[where f = "\<lambda>x y. (mLayerBuilders fb)[x := y]"])
  ultimately show ?thesis by simp
qed

lemma append_hasRoom:
  assumes "hasRoom k fb"
  shows "hasRoom k (onCurrent (\<lambda>lb. lb\<lparr>deferred := deferred lb @ ds\<rparr>) fb)"
  using assms
  by (auto simp: hasRoom_def onCurrent_def currentLayerIndex_def currentDeferred_def
                 currentLayer_def isOk_def andThen_def split: if_splits)


lemma alike_error [simp]: "alike k ins act h fb (Inl e) (Inl e)"
  by (simp add: alike_def)

lemma alike_unchanged [simp]:
  "hasRoom k fb \<Longrightarrow> alike k ins act h fb (Inr fb) (Inr (insertDeferred k ins act h fb))"
  by (simp add: alike_def)

lemma append_take:
  assumes "hasRoom k fb"
  shows "take k (currentDeferred (onCurrent (\<lambda>lb. lb\<lparr>deferred := deferred lb @ ds\<rparr>) fb))
         = take k (currentDeferred fb)"
  using assms
  by (auto simp: hasRoom_def onCurrent_def currentLayerIndex_def currentDeferred_def
                 currentLayer_def isOk_def andThen_def split: if_splits)

lemma append_index:
  "currentLayerIndex (onCurrent f fb) = currentLayerIndex fb"
  by (simp add: onCurrent_def currentLayerIndex_def)

lemma alike_append:
  assumes "hasRoom k fb"
  shows "alike k ins act h fb
           (onCurrentLayer (\<lambda>lb. lb\<lparr>deferred := deferred lb @ ds\<rparr>) fb)
           (onCurrentLayer (\<lambda>lb. lb\<lparr>deferred := deferred lb @ ds\<rparr>)
              (insertDeferred k ins act h fb))"
proof -
  from assms have "isOk (currentLayerIndex fb)" by (simp add: hasRoom_def)
  from onCurrentLayer_onCurrent[OF this] append_insertDeferred[OF assms]
       append_hasRoom[OF assms] append_take[OF assms]
  show ?thesis by (simp add: alike_def append_index)
qed

lemma alike_unmergeable [simp]:
  "hasRoom k fb \<Longrightarrow>
     alike k ins act h fb (onCurrentLayer (deferUnmergeableOp b i) fb)
       (onCurrentLayer (deferUnmergeableOp b i) (insertDeferred k ins act h fb))"
  by (simp add: deferUnmergeableOp_fun alike_append)

lemma alike_mergeable [simp]:
  "hasRoom k fb \<Longrightarrow>
     alike k ins act h fb (onCurrentLayer (deferMergeableOp b i m) fb)
       (onCurrentLayer (deferMergeableOp b i m) (insertDeferred k ins act h fb))"
  by (simp add: deferMergeableOp_fun alike_append)

lemma alike_strokeable [simp]:
  "hasRoom k fb \<Longrightarrow>
     alike k ins act h fb (deferStrokeableOp ext recordedOp i sb fb)
       (deferStrokeableOp ext recordedOp i sb (insertDeferred k ins act h fb))"
  by (simp add: deferStrokeableOp_def split: option.split)

lemma alike_deferUnmergeable [simp]:
  "hasRoom k fb \<Longrightarrow>
     alike k ins act h fb (deferUnmergeable ext recordedOp i fb)
       (deferUnmergeable ext recordedOp i (insertDeferred k ins act h fb))"
  by (simp add: deferUnmergeable_def tryBakeOpState_def split: option.split)

lemma alike_andThen:
  assumes "\<And>v. p = Inr v \<Longrightarrow> alike k ins act h fb (t v fb) (t v (insertDeferred k ins act h fb))"
  shows "alike k ins act h fb (andThen p (\<lambda>v. t v fb))
           (andThen p (\<lambda>v. t v (insertDeferred k ins act h fb)))"
  using assms by (cases p) (simp_all add: andThen_def)

lemma alike_draw:
  assumes "isDrawOp (opId recordedOp)" and "hasRoom k fb"
  shows "alike k ins act h fb (deferOp ext f dl sk recordedOp fb)
           (deferOp ext f dl' sk' recordedOp (insertDeferred k ins act h fb))"
  using assms
  by (cases "opId recordedOp")
     (simp_all add: deferOp_def deferArcOp_def deferBitmapOp_def deferBitmapMeshOp_def
        deferBitmapRectOp_def deferCirclePropsOp_def deferFunctorOp_def deferLinesOp_def
        deferOvalOp_def deferPatchOp_def deferPathOp_def deferPointsOp_def deferRectOp_def
        deferRoundRectOp_def deferRoundRectPropsOp_def deferSimpleRectsOp_def deferTextOp_def
        deferTextOnPathOp_def deferTextureLayerOp_def tryBakeOpState_def
        andThen_def split: option.split sum.split)


lemma deferChunkOps_in_order:
  assumes "projectionReceiveIndex dl < 0" and "\<forall>i\<in>set is. i < length (getOps dl)"
  shows "deferChunkOps ext f node dl sk is fb
         = deferOpsInOrder ext f dl sk (map ((!) (getOps dl)) is) fb"
  using assms(2)
proof (induction "is" arbitrary: fb)
  case Nil
  show ?case by simp
next
  case (Cons i rest)
  then have "deferChunkOps ext f node dl sk rest = deferOpsInOrder ext f dl sk (map ((!) (getOps dl)) rest)"
    by (intro ext) simp
  with Cons.prems assms(1) show ?case
    by (simp add: elementAt_def andThen_def split: sum.split)
qed

lemma deferOpsInOrder_append:
  "deferOpsInOrder ext f dl sk (xs @ ys) fb
   = andThen (deferOpsInOrder ext f dl sk xs fb) (deferOpsInOrder ext f dl sk ys)"
  by (induction xs arbitrary: fb) (simp_all add: andThen_def split: sum.split)

lemma alike_draws:
  assumes "\<forall>d\<in>set draws. isDrawOp (opId d)" and "hasRoom k fb"
  shows "alike k ins act h fb (deferOpsInOrder ext f dl sk draws fb)
           (deferOpsInOrder ext f dl' sk' draws (insertDeferred k ins act h fb))"
  using assms
proof (induction draws arbitrary: fb)
  case Nil
  then show ?case by simp
next
  case (Cons d draws)
  from Cons.prems have a: "alike k ins act h fb (deferOp ext f dl sk d fb)
                             (deferOp ext f dl' sk' d (insertDeferred k ins act h fb))"
    by (intro alike_draw) simp_all
  show ?case
  proof (cases "deferOp ext f dl sk d fb")
    case (Inl e)
    with a show ?thesis by (simp add: alike_def andThen_def)
  next
    case (Inr fb1)
    with a have r: "hasRoom k fb1"
      and t: "take k (currentDeferred fb1) = take k (currentDeferred fb)"
      and i: "deferOp ext f dl' sk' d (insertDeferred k ins act h fb)
              = Inr (insertDeferred k ins act h fb1)"
      and c: "currentLayerIndex fb1 = currentLayerIndex fb"
      by (simp_all add: alike_def)
    from Cons.IH[OF _ r] Cons.prems(1)
    have "alike k ins act h fb1 (deferOpsInOrder ext f dl sk draws fb1)
            (deferOpsInOrder ext f dl' sk' draws (insertDeferred k ins act h fb1))"
      by simp
    with Inr i t c show ?thesis by (simp add: alike_def andThen_def)
  qed
qed

lemma deferBeginUnclippedLayerOp_result:
  assumes "currentLayer fb = Inr lb"
  shows "deferBeginUnclippedLayerOp ext recordedOp fb =
     Inr (let dstRect = doIntersect
                (mapRect ext (multiply ext (snapshotTransform ext (currentSnapshot fb))
                                (localMatrix recordedOp)) (unmappedBounds recordedOp))
                (getRenderTargetClip ext (currentSnapshot fb))
          in insertDeferred (length (deferred lb))
               [UnmergeableOp
                  (directConstruct ext (viewportClip lb) dstRect
                     (copyLayerOp (CopyToLayerOp (mLayerHandles fb)) recordedOp)) CopyToLayer,
                LayerClear dstRect]
               (activeUnclippedSaveLayers lb
                  @ [directConstruct ext (viewportClip lb) dstRect
                       (copyLayerOp (CopyFromLayerOp (mLayerHandles fb)) recordedOp)])
               (Suc (mLayerHandles fb)) fb)"
proof -
  let ?i = "last (mLayerStack fb)"
  from assms have i: "?i < length (mLayerBuilders fb)" and s: "mLayerStack fb \<noteq> []"
    and lb: "lb = mLayerBuilders fb ! ?i"
    by (auto simp: currentLayer_def currentLayerIndex_def andThen_def split: if_splits)
  show ?thesis
    using i s
    by (simp add: deferBeginUnclippedLayerOp_def Let_def currentLayer_def currentLayerIndex_def
                  onCurrentLayer_def andThen_def currentSnapshot_def lb deferUnmergeableOp_def
                  deferLayerClear_def insertDeferred_def onCurrent_def)
qed

lemma deferEndUnclippedLayerOp_result:
  assumes "currentLayerIndex fb = Inr i"
    and "activeUnclippedSaveLayers (mLayerBuilders fb ! i) \<noteq> []"
  shows "deferEndUnclippedLayerOp ext fb =
           Inr (fb\<lparr>mLayerBuilders := (mLayerBuilders fb)
                  [i := (mLayerBuilders fb ! i)
                     \<lparr>deferred := deferred (mLayerBuilders fb ! i)
                        @ [UnmergeableOp
                             (last (activeUnclippedSaveLayers (mLayerBuilders fb ! i)))
                             CopyFromLayer],
                      activeUnclippedSaveLayers :=
                        butlast (activeUnclippedSaveLayers (mLayerBuilders fb ! i))\<rparr>]\<rparr>)"
proof -
  from assms(1) have i: "i < length (mLayerBuilders fb)"
    by (auto simp: currentLayerIndex_def split: if_splits)
  show ?thesis
    using assms i
    by (simp add: deferEndUnclippedLayerOp_def currentLayer_def onCurrentLayer_def
                  currentLayerIndex_def andThen_def deferUnmergeableOp_def Let_def
             split: if_splits)
qed


lemma currentLayerIndex_update [simp]:
  "currentLayerIndex (fb\<lparr>mLayerBuilders := (mLayerBuilders fb)[j := x]\<rparr>) = currentLayerIndex fb"
  by (simp add: currentLayerIndex_def)

text \<open>Claim C5, as the code has it. Take a begin op and an end op of an unclipped layer
  around draws, dispatched by the loop over a chunk where there is a current layer
  builder, and suppose the draws alone run without error from the same state. Then the
  whole runs without error, in the same current layer builder, and what that builder has
  deferred afterwards is what it had before, then the \<open>CopyToLayerOp\<close> constructed
  directly over \<open>dstRect\<close> in batch \<open>CopyToLayer\<close>, then the clear of \<open>dstRect\<close>, then
  what the draws alone defer, then the \<open>CopyFromLayerOp\<close> over the same \<open>dstRect\<close> in
  batch \<open>CopyFromLayer\<close>. Here \<open>dstRect\<close> is the unmapped bounds of the begin op, mapped by
  the current transform multiplied by the local matrix of the op, and intersected with
  the clip of the current render target.\<close>

theorem unclipped_layer_brackets_draws:
  fixes ext :: "('s, 'm, 'p) Ext"
  defines "dstRectOf \<equiv> \<lambda>ext recordedOp fb.
             doIntersect
               (mapRect ext (multiply ext (snapshotTransform ext (currentSnapshot fb))
                               (localMatrix recordedOp)) (unmappedBounds recordedOp))
               (getRenderTargetClip ext (currentSnapshot fb))"
  assumes "\<forall>d\<in>set draws. isDrawOp (opId d)"
    and "opId beginOp = BeginUnclippedLayerOp"
    and "opId endOp = EndUnclippedLayerOp"
    and "currentLayer fb = Inr lb"
    and "deferChunkOps ext deferNode node (DisplayList chunks draws children (- 1)) skips
           [0 ..< length draws] fb = Inr fbd"
  shows "\<exists>fb'.
           deferChunkOps ext deferNode node
             (DisplayList chunks (beginOp # draws @ [endOp]) children (- 1)) skips
             [0 ..< length draws + 2] fb = Inr fb'
           \<and> currentLayerIndex fb' = currentLayerIndex fb
           \<and> take (length (deferred lb)) (currentDeferred fbd) = deferred lb
           \<and> currentDeferred fb' =
               deferred lb
               @ [UnmergeableOp
                    (directConstruct ext (viewportClip lb) (dstRectOf ext beginOp fb)
                       (copyLayerOp (CopyToLayerOp (mLayerHandles fb)) beginOp)) CopyToLayer,
                  LayerClear (dstRectOf ext beginOp fb)]
               @ drop (length (deferred lb)) (currentDeferred fbd)
               @ [UnmergeableOp
                    (directConstruct ext (viewportClip lb) (dstRectOf ext beginOp fb)
                       (copyLayerOp (CopyFromLayerOp (mLayerHandles fb)) beginOp))
                    CopyFromLayer]"
proof -
  let ?dlA = "DisplayList chunks (beginOp # draws @ [endOp]) children (- 1)"
  let ?dlD = "DisplayList chunks draws children (- 1)"
  let ?k = "length (deferred lb)"
  let ?dst = "dstRectOf ext beginOp fb"
  let ?copyTo = "directConstruct ext (viewportClip lb) ?dst
                   (copyLayerOp (CopyToLayerOp (mLayerHandles fb)) beginOp)"
  let ?copyFrom = "directConstruct ext (viewportClip lb) ?dst
                     (copyLayerOp (CopyFromLayerOp (mLayerHandles fb)) beginOp)"
  let ?ins = "[UnmergeableOp ?copyTo CopyToLayer, LayerClear ?dst]"
  let ?act = "activeUnclippedSaveLayers lb @ [?copyFrom]"
  let ?h = "Suc (mLayerHandles fb)"
  note cur = \<open>currentLayer fb = Inr lb\<close>
  from cur obtain i where i: "currentLayerIndex fb = Inr i" and lb: "lb = mLayerBuilders fb ! i"
    by (auto simp: currentLayer_def andThen_def split: sum.splits)
  have room: "hasRoom ?k fb"
    using cur i by (simp add: hasRoom_def isOk_def currentDeferred_def)
  have logfb: "currentDeferred fb = deferred lb"
    using cur by (simp add: currentDeferred_def)
  have len: "length (beginOp # draws @ [endOp]) = length draws + 2" by simp
  have all: "map ((!) (beginOp # draws @ [endOp])) [0 ..< length draws + 2]
             = beginOp # draws @ [endOp]"
    by (metis map_nth len)
  have "deferChunkOps ext deferNode node ?dlA skips [0 ..< length draws + 2] fb
        = deferOpsInOrder ext deferNode ?dlA skips
            (map ((!) (getOps ?dlA)) [0 ..< length draws + 2]) fb"
    by (rule deferChunkOps_in_order) simp_all
  also have "map ((!) (getOps ?dlA)) [0 ..< length draws + 2] = beginOp # draws @ [endOp]"
    by (simp only: DisplayList.sel all)
  finally have runA: "deferChunkOps ext deferNode node ?dlA skips [0 ..< length draws + 2] fb
              = deferOpsInOrder ext deferNode ?dlA skips (beginOp # draws @ [endOp]) fb" .
  have "deferChunkOps ext deferNode node ?dlD skips [0 ..< length draws] fb
        = deferOpsInOrder ext deferNode ?dlD skips
            (map ((!) (getOps ?dlD)) [0 ..< length draws]) fb"
    by (rule deferChunkOps_in_order) simp_all
  also have "map ((!) (getOps ?dlD)) [0 ..< length draws] = draws"
    by (simp only: DisplayList.sel map_nth)
  finally have "deferChunkOps ext deferNode node ?dlD skips [0 ..< length draws] fb
        = deferOpsInOrder ext deferNode ?dlD skips draws fb" .
  with assms have alone: "deferOpsInOrder ext deferNode ?dlD skips draws fb = Inr fbd"
    by simp
  have beg: "deferOp ext deferNode ?dlA skips beginOp fb
               = Inr (insertDeferred ?k ?ins ?act ?h fb)"
    using deferBeginUnclippedLayerOp_result[OF cur, of ext beginOp] assms(3)
    by (simp add: deferOp_def dstRectOf_def Let_def)
  from alike_draws[OF assms(2) room, of ?ins ?act ?h ext deferNode ?dlD skips ?dlA skips] alone
  have draws: "deferOpsInOrder ext deferNode ?dlA skips draws (insertDeferred ?k ?ins ?act ?h fb)
               = Inr (insertDeferred ?k ?ins ?act ?h fbd)"
    and roomd: "hasRoom ?k fbd"
    and taked: "take ?k (currentDeferred fbd) = deferred lb"
    and id: "currentLayerIndex fbd = Inr i"
    by (simp_all add: alike_def logfb i)
  let ?fbE = "insertDeferred ?k ?ins ?act ?h fbd"
  from id have idx: "currentLayerIndex ?fbE = Inr i" by simp
  from id have il: "i < length (mLayerBuilders fbd)" and ie: "last (mLayerStack fbd) = i"
    by (auto simp: currentLayerIndex_def split: if_splits)
  have actE: "activeUnclippedSaveLayers (mLayerBuilders ?fbE ! i) = ?act"
    using il ie by (simp add: insertDeferred_def onCurrent_def)
  have logE: "deferred (mLayerBuilders ?fbE ! i)
              = take ?k (currentDeferred fbd) @ ?ins @ drop ?k (currentDeferred fbd)"
    using il ie id
    by (simp add: insertDeferred_def onCurrent_def currentDeferred_def currentLayer_def
                  andThen_def)
  from deferEndUnclippedLayerOp_result[OF idx, of ext] actE
  obtain fb' where e: "deferEndUnclippedLayerOp ext ?fbE = Inr fb'"
    and fb': "fb' = ?fbE\<lparr>mLayerBuilders := (mLayerBuilders ?fbE)
                 [i := (mLayerBuilders ?fbE ! i)
                    \<lparr>deferred := deferred (mLayerBuilders ?fbE ! i)
                       @ [UnmergeableOp (last ?act) CopyFromLayer],
                     activeUnclippedSaveLayers := butlast ?act\<rparr>]\<rparr>"
    by simp
  have idx': "currentLayerIndex fb' = Inr i"
    unfolding fb' using idx by (simp only: currentLayerIndex_update)
  have il': "i < length (mLayerBuilders ?fbE)"
    using il by (simp add: insertDeferred_def onCurrent_def)
  have cur': "currentDeferred fb' = deferred (mLayerBuilders fb' ! i)"
    using idx' by (simp add: currentDeferred_def currentLayer_def andThen_def)
  have "deferred (mLayerBuilders fb' ! i)
        = deferred (mLayerBuilders ?fbE ! i) @ [UnmergeableOp (last ?act) CopyFromLayer]"
    using il' by (simp add: fb')
  with cur' have log': "currentDeferred fb' = deferred lb @ ?ins @ drop ?k (currentDeferred fbd)
                @ [UnmergeableOp ?copyFrom CopyFromLayer]"
    by (simp add: logE taked)
  have "deferOpsInOrder ext deferNode ?dlA skips (beginOp # draws @ [endOp]) fb = Inr fb'"
    using beg draws e assms(4)
    by (simp add: deferOpsInOrder_append andThen_def deferOp_def)
  with runA idx' i taked log' show ?thesis by simp
qed


text \<open>Scenario S6 of the spec: an unclipped layer over \<open>(10, 10, 20, 20)\<close> around a rect
  \<open>(12, 12, 18, 18)\<close>, in the primary layer builder.\<close>

theorem unclipped_layer_brackets_draws_witness:
  "isDrawOp (opId (recorded RectOp (mkRect 12 12 18 18)))
   \<and> opId (recorded BeginUnclippedLayerOp (mkRect 10 10 20 20)) = BeginUnclippedLayerOp
   \<and> opId (recorded EndUnclippedLayerOp emptyRect) = EndUnclippedLayerOp
   \<and> isOk (currentLayer frame0)
   \<and> isOk (deferChunkOps simpleExt (deferNodePropsAndOps simpleExt) layerBackedNode
              (DisplayList [] [recorded RectOp (mkRect 12 12 18 18)] [] (- 1)) []
              [0 ..< length [recorded RectOp (mkRect 12 12 18 18)]] frame0)
   \<and> map deferralBatch
         (currentDeferred
            (projr (deferChunkOps simpleExt (deferNodePropsAndOps simpleExt) layerBackedNode
                      (DisplayList []
                         (recorded BeginUnclippedLayerOp (mkRect 10 10 20 20)
                            # [recorded RectOp (mkRect 12 12 18 18)]
                            @ [recorded EndUnclippedLayerOp emptyRect]) [] (- 1)) []
                      [0 ..< length [recorded RectOp (mkRect 12 12 18 18)] + 2] frame0)))
       = [Some (CopyToLayer, False), None, Some (Vertices, False), Some (CopyFromLayer, False)]
   \<and> map deferralBounds
         (currentDeferred
            (projr (deferChunkOps simpleExt (deferNodePropsAndOps simpleExt) layerBackedNode
                      (DisplayList []
                         (recorded BeginUnclippedLayerOp (mkRect 10 10 20 20)
                            # [recorded RectOp (mkRect 12 12 18 18)]
                            @ [recorded EndUnclippedLayerOp emptyRect]) [] (- 1)) []
                      [0 ..< length [recorded RectOp (mkRect 12 12 18 18)] + 2] frame0)))
       = [mkRect 10 10 20 20, mkRect 10 10 20 20, mkRect 12 12 18 18, mkRect 10 10 20 20]"
proof -
  let ?draws = "[recorded RectOp (mkRect 12 12 18 18)]"
  let ?b = "recorded BeginUnclippedLayerOp (mkRect 10 10 20 20)"
  let ?e = "recorded EndUnclippedLayerOp emptyRect"
  let ?lb = "newLayerBuilder simpleExt 100 100 (rectWH 100 100) None None"
  let ?alone = "deferChunkOps simpleExt (deferNodePropsAndOps simpleExt) layerBackedNode
                  (DisplayList [] ?draws [] (- 1)) [] [0 ..< length ?draws] frame0"
  let ?run = "deferChunkOps simpleExt (deferNodePropsAndOps simpleExt) layerBackedNode
                (DisplayList [] (?b # ?draws @ [?e]) [] (- 1)) [] [0 ..< length ?draws + 2] frame0"
  have d: "\<forall>d\<in>set ?draws. isDrawOp (opId d)" by (simp add: recorded_def)
  have b: "opId ?b = BeginUnclippedLayerOp" by (simp add: recorded_def)
  have e: "opId ?e = EndUnclippedLayerOp" by (simp add: recorded_def)
  have c: "currentLayer frame0 = Inr ?lb"
    by (simp add: frame0_def initialFrameBuilder_def currentLayer_def currentLayerIndex_def
                  andThen_def)
  have a: "isOk ?alone"
    by (simp add: isOk_def deferOp_def deferRectOp_def tessBatchId_def deferStrokeableOp_def
                  elementAt_def frame0Defs layerDefs rectDefs Let_def)
  then have alone: "?alone = Inr (projr ?alone)"
    by (cases ?alone) (simp_all add: isOk_def)
  have logd: "currentDeferred (projr ?alone)
              = [UnmergeableOp
                   \<lparr>computedState =
                      \<lparr>transform = (0, 0),
                       clipState = Some \<lparr>mode = Rectangle, rect = rectWH 100 100\<rparr>,
                       clippedBounds = mkRect 12 12 18 18\<rparr>,
                    bakedAlpha = 1, op = recorded RectOp (mkRect 12 12 18 18)\<rparr> Vertices]"
    by (simp add: currentDeferred_def deferOp_def deferRectOp_def tessBatchId_def
                  deferStrokeableOp_def elementAt_def frame0Defs layerDefs rectDefs Let_def)
  from unclipped_layer_brackets_draws[OF d b e c alone]
  obtain fb' where run: "?run = Inr fb'"
    and log: "currentDeferred fb' =
               deferred ?lb
               @ [UnmergeableOp
                    (directConstruct simpleExt (viewportClip ?lb)
                       (doIntersect
                          (mapRect simpleExt
                             (multiply simpleExt
                                (snapshotTransform simpleExt (currentSnapshot frame0))
                                (localMatrix ?b)) (unmappedBounds ?b))
                          (getRenderTargetClip simpleExt (currentSnapshot frame0)))
                       (copyLayerOp (CopyToLayerOp (mLayerHandles frame0)) ?b)) CopyToLayer,
                  LayerClear
                    (doIntersect
                       (mapRect simpleExt
                          (multiply simpleExt
                             (snapshotTransform simpleExt (currentSnapshot frame0))
                             (localMatrix ?b)) (unmappedBounds ?b))
                       (getRenderTargetClip simpleExt (currentSnapshot frame0)))]
               @ drop (length (deferred ?lb)) (currentDeferred (projr ?alone))
               @ [UnmergeableOp
                    (directConstruct simpleExt (viewportClip ?lb)
                       (doIntersect
                          (mapRect simpleExt
                             (multiply simpleExt
                                (snapshotTransform simpleExt (currentSnapshot frame0))
                                (localMatrix ?b)) (unmappedBounds ?b))
                          (getRenderTargetClip simpleExt (currentSnapshot frame0)))
                       (copyLayerOp (CopyFromLayerOp (mLayerHandles frame0)) ?b))
                    CopyFromLayer]"
    by blast
  have "map deferralBatch (currentDeferred fb')
          = [Some (CopyToLayer, False), None, Some (Vertices, False), Some (CopyFromLayer, False)]
        \<and> map deferralBounds (currentDeferred fb')
          = [mkRect 10 10 20 20, mkRect 10 10 20 20, mkRect 12 12 18 18, mkRect 10 10 20 20]"
    unfolding log logd
    by (simp add: directConstruct_def newLayerBuilder_def frame0Defs currentSnapshot_def
                  rectDefs)
  with d b e c a run show ?thesis
    by (simp add: isOk_def recorded_def)
qed

text \<open>Claim C5 as the spec states it gives \<open>dstRect\<close> as the bounds mapped by the current
  transform alone. With the identity as current transform and a begin op recorded under a
  translation by 5, the code copies and clears \<open>(15, 10, 25, 20)\<close>, where the current
  transform alone gives \<open>(10, 10, 20, 20)\<close>.\<close>

theorem unclipped_layer_dst_rect_counterexample:
  "deferredBounds
     (deferBeginUnclippedLayerOp simpleExt
        ((recorded BeginUnclippedLayerOp (mkRect 10 10 20 20))\<lparr>localMatrix := (5, 0)\<rparr>) frame0)
     = [[mkRect 15 10 25 20, mkRect 15 10 25 20]]
   \<and> doIntersect
        (mapRect simpleExt (snapshotTransform simpleExt (currentSnapshot frame0))
           (mkRect 10 10 20 20))
        (getRenderTargetClip simpleExt (currentSnapshot frame0))
     = mkRect 10 10 20 20"
  by (simp add: deferredBounds_def deferBeginUnclippedLayerOp_def directConstruct_def
                copyLayerOp_def frame0Defs layerDefs rectDefs Let_def)

subsection \<open>Invariants of the traversal\<close>

lemma sat_Inl [simp]: "sat R fb (Inl e)"
  by (simp add: sat_def)

lemma sat_Inr [simp]: "sat R fb (Inr fb') = R fb fb'"
  by (simp add: sat_def)

lemma satD: "sat R fb r \<Longrightarrow> r = Inr fb' \<Longrightarrow> R fb fb'"
  by (simp add: sat_def)

lemma sat_pure:
  assumes "\<And>v. p = Inr v \<Longrightarrow> sat R fb (t v)"
  shows "sat R fb (andThen p t)"
  using assms by (cases p) (simp_all add: andThen_def)

lemma andThen_InrE:
  assumes "andThen r t = Inr y"
  obtains x where "r = Inr x" and "t x = Inr y"
  using assms by (cases r) (simp_all add: andThen_def)

lemma layerLocal_refl [simp]: "layerLocal fb fb"
  by (simp add: layerLocal_def)

lemma layerNodes_canvas [simp]: "layerNodes (canvas f fb) = layerNodes fb"
  by (simp add: layerNodes_def canvas_def)

lemma layerNodes_fields [simp]:
  "layerNodes (fb\<lparr>mCanvasState := cs\<rparr>) = layerNodes fb"
  "layerNodes (fb\<lparr>mLayerStack := st\<rparr>) = layerNodes fb"
  "layerNodes (fb\<lparr>mLayerHandles := h\<rparr>) = layerNodes fb"
  by (simp_all add: layerNodes_def)

lemma layerNodes_update:
  "layerIdentity x = layerIdentity (mLayerBuilders fb ! i)
     \<Longrightarrow> layerNodes (fb\<lparr>mLayerBuilders := (mLayerBuilders fb)[i := x]\<rparr>) = layerNodes fb"
proof (cases "i < length (mLayerBuilders fb)")
  case True
  assume "layerIdentity x = layerIdentity (mLayerBuilders fb ! i)"
  with True have "(map layerIdentity (mLayerBuilders fb))[i := layerIdentity x]
                  = map layerIdentity (mLayerBuilders fb)"
    by (simp add: list_update_same_conv)
  then show ?thesis by (simp add: layerNodes_def map_update)
next
  case False
  then have "(mLayerBuilders fb)[i := x] = mLayerBuilders fb"
    by (intro list_update_beyond) simp
  then show ?thesis by (simp add: layerNodes_def)
qed

lemma onCurrentLayer_layerLocal:
  assumes "\<And>lb. layerIdentity (f lb) = layerIdentity lb"
  shows "sat layerLocal fb (onCurrentLayer f fb)"
  by (auto simp: sat_def onCurrentLayer_def andThen_def layerLocal_def layerNodes_update assms
           split: sum.splits)

lemma unmergeable_layerLocal [simp]:
  "sat layerLocal fb (onCurrentLayer (deferUnmergeableOp b i) fb)"
  by (rule onCurrentLayer_layerLocal) (simp add: deferUnmergeableOp_def layerIdentity_def)

lemma mergeable_layerLocal [simp]:
  "sat layerLocal fb (onCurrentLayer (deferMergeableOp b i m) fb)"
  by (rule onCurrentLayer_layerLocal) (simp add: deferMergeableOp_def layerIdentity_def)

lemma strokeable_layerLocal [simp]:
  "sat layerLocal fb (deferStrokeableOp ext recordedOp i sb fb)"
  by (simp add: deferStrokeableOp_def split: option.split)

lemma deferUnmergeable_layerLocal [simp]:
  "sat layerLocal fb (deferUnmergeable ext recordedOp i fb)"
  by (simp add: deferUnmergeable_def split: option.split)

lemma draw_layerLocal:
  assumes "isDrawOp (opId recordedOp)"
  shows "sat layerLocal fb (deferOp ext f dl sk recordedOp fb)"
  using assms
  by (cases "opId recordedOp")
     (simp_all add: deferOp_def deferArcOp_def deferBitmapOp_def deferBitmapMeshOp_def
        deferBitmapRectOp_def deferCirclePropsOp_def deferFunctorOp_def deferLinesOp_def
        deferOvalOp_def deferPatchOp_def deferPathOp_def deferPointsOp_def deferRectOp_def
        deferRoundRectOp_def deferRoundRectPropsOp_def deferSimpleRectsOp_def deferTextOp_def
        deferTextOnPathOp_def deferTextureLayerOp_def
        andThen_def split: option.split sum.split)

lemma shadow_layerLocal [simp]: "sat layerLocal fb (deferShadow ext c fb)"
  by (simp add: deferShadow_def Let_def andThen_def split: option.split sum.split)

lemma beginUnclipped_layerLocal [simp]:
  "sat layerLocal fb (deferBeginUnclippedLayerOp ext recordedOp fb)"
proof (cases "currentLayer fb")
  case (Inl e)
  then show ?thesis by (simp add: deferBeginUnclippedLayerOp_def Let_def currentLayer_def
                                  currentLayerIndex_def andThen_def split: if_splits)
next
  case (Inr lb)
  from deferBeginUnclippedLayerOp_result[OF Inr, of ext recordedOp]
  show ?thesis
    by (simp add: Let_def layerLocal_def insertDeferred_def onCurrent_def layerNodes_update
                  layerIdentity_def)
qed

lemma endUnclipped_layerLocal [simp]:
  "sat layerLocal fb (deferEndUnclippedLayerOp ext fb)"
  by (auto simp: sat_def deferEndUnclippedLayerOp_def currentLayer_def onCurrentLayer_def
                 currentLayerIndex_def andThen_def deferUnmergeableOp_def Let_def layerLocal_def
                 layerNodes_update layerIdentity_def
           split: if_splits sum.splits)


lemma invariant_refl: "traversalInvariant R \<Longrightarrow> R a a"
  by (simp add: traversalInvariant_def)

lemma invariant_trans: "traversalInvariant R \<Longrightarrow> R a b \<Longrightarrow> R b c \<Longrightarrow> R a c"
  unfolding traversalInvariant_def by blast

lemma invariant_local: "traversalInvariant R \<Longrightarrow> layerLocal a b \<Longrightarrow> R a b"
  by (simp add: traversalInvariant_def)

lemma invariant_frame:
  "traversalInvariant R \<Longrightarrow> saved fb s \<Longrightarrow> R s fb1
     \<Longrightarrow> R fb (fb1\<lparr>mCanvasState :=
                   restoreToCount (getSaveCount (mCanvasState fb)) (mCanvasState fb1)\<rparr>)"
  unfolding traversalInvariant_def by blast

lemma saved_canvas [simp]: "saved fb (canvas f s) = saved fb s"
  by (simp add: saved_def canvas_def writeSnapshot_def)

lemma saved_save [simp]: "saved fb (fb\<lparr>mCanvasState := snd (save ext flags (mCanvasState fb))\<rparr>)"
  by (simp add: saved_def save_def)

lemma fst_save [simp]: "fst (save ext flags cs) = getSaveCount cs"
  by (simp add: save_def)

lemma deferRenderNodeOpImpl_invariant:
  assumes inv: "traversalInvariant R" and child: "\<And>s. sat R s (f (renderNode c) s)"
  shows "sat R fb (deferRenderNodeOpImpl ext f c fb)"
proof -
  have "R fb fb'" if run: "deferRenderNodeOpImpl ext f c fb = Inr fb'" for fb'
  proof (cases "nothingToDraw ext (renderNode c)")
    case True
    with run inv show ?thesis by (simp add: deferRenderNodeOpImpl_def invariant_refl)
  next
    case False
    let ?s = "canvas (concatMatrix ext (localMatrix (nodeOp c)))
                (canvas (\<lambda>s. applyClip ext (localClip (nodeOp c)) (snapshotTransform ext s) s)
                   (fb\<lparr>mCanvasState :=
                        snd (save ext {kClip_SaveFlag, kMatrix_SaveFlag} (mCanvasState fb))\<rparr>))"
    from False run obtain fb1 where a: "f (renderNode c) ?s = Inr fb1"
      and b: "fb' = fb1\<lparr>mCanvasState :=
                        restoreToCount (getSaveCount (mCanvasState fb)) (mCanvasState fb1)\<rparr>"
      by (auto simp: deferRenderNodeOpImpl_def Let_def case_prod_unfold elim!: andThen_InrE)
    have "saved fb ?s" by simp
    moreover from satD[OF child a] have "R ?s fb1" .
    ultimately show ?thesis unfolding b by (rule invariant_frame[OF inv])
  qed
  then show ?thesis by (simp add: sat_def)
qed

lemma defer3dLoop_invariant:
  assumes inv: "traversalInvariant R"
    and "\<And>c s. c \<in> snd ` set zs \<Longrightarrow> sat R s (f (renderNode c) s)"
  shows "sat R fb (defer3dLoop ext f zs e si di l fb)"
  using assms(2)
proof (induction ext f zs e si di l fb rule: defer3dLoop.induct)
  case (1 ext f zs e si di l fb)
  let ?first = "if si < e then
                  andThen (elementAt zs si)
                    (\<lambda>caster. Inr (si = di \<or> floatSub (fst caster) l < floatTenth))
                else Inr False"
  have "R fb fb'" if run: "defer3dLoop ext f zs e si di l fb = Inr fb'" for fb'
  proof (cases "si < e \<or> di < e")
    case False
    with run inv show ?thesis by (subst (asm) defer3dLoop.simps) (simp add: invariant_refl)
  next
    case True
    from run True obtain v where v: "?first = Inr v"
      by (subst (asm) defer3dLoop.simps) (auto simp: andThen_def split: sum.splits)
    show ?thesis
    proof (cases v)
      case True
      from run \<open>si < e \<or> di < e\<close> v True obtain caster fb1 where
        c: "elementAt zs si = Inr caster"
        and s: "deferShadow ext (snd caster) fb = Inr fb1"
        and r: "defer3dLoop ext f zs e (Suc si) di (fst caster) fb1 = Inr fb'"
        by (subst (asm) defer3dLoop.simps) (auto simp: andThen_def split: sum.splits)
      from satD[OF shadow_layerLocal s] have "R fb fb1"
        by (rule invariant_local[OF inv])
      moreover from "1.IH"(1)[OF \<open>si < e \<or> di < e\<close> v True c s "1.prems"] r
      have "R fb1 fb'" by (auto dest: satD)
      ultimately show ?thesis by (rule invariant_trans[OF inv])
    next
      case False
      from run \<open>si < e \<or> di < e\<close> v False obtain child fb1 where
        c: "elementAt zs di = Inr child"
        and s: "deferRenderNodeOpImpl ext f (snd child) fb = Inr fb1"
        and r: "defer3dLoop ext f zs e si (Suc di) l fb1 = Inr fb'"
        by (subst (asm) defer3dLoop.simps) (auto simp: andThen_def split: sum.splits)
      have "sat R fb (deferRenderNodeOpImpl ext f (snd child) fb)"
        using c "1.prems" by (intro deferRenderNodeOpImpl_invariant inv) (auto dest: elementAt_mem)
      with s have "R fb fb1" by (auto dest: satD)
      moreover from "1.IH"(2)[OF \<open>si < e \<or> di < e\<close> v False c s "1.prems"] r
      have "R fb1 fb'" by (auto dest: satD)
      ultimately show ?thesis by (rule invariant_trans[OF inv])
    qed
  qed
  then show ?case by (simp add: sat_def)
qed

lemma defer3dChildren_invariant:
  assumes inv: "traversalInvariant R"
    and "\<And>c s. c \<in> snd ` set zs \<Longrightarrow> sat R s (f (renderNode c) s)"
  shows "sat R fb (defer3dChildren ext f m zs fb)"
  using defer3dLoop_invariant[of R zs f _ ext, OF assms] inv
  by (simp add: defer3dChildren_def Let_def invariant_refl split: prod.splits)

lemma deferProjectedNodes_invariant:
  assumes inv: "traversalInvariant R"
    and "\<And>c s. c \<in> set cs \<Longrightarrow> sat R s (f (renderNode c) s)"
  shows "sat R fb (deferProjectedNodes ext f cs fb)"
  using assms(2)
proof (induction cs arbitrary: fb)
  case Nil
  from inv show ?case by (simp add: invariant_refl)
next
  case (Cons c cs)
  have i: "sat R s (deferRenderNodeOpImpl ext f c s)" for s
    by (rule deferRenderNodeOpImpl_invariant[OF inv]) (simp add: Cons.prems)
  have r: "sat R s (deferProjectedNodes ext f cs s)" for s
    by (rule Cons.IH) (simp add: Cons.prems)
  have "R fb fb'" if run: "deferProjectedNodes ext f (c # cs) fb = Inr fb'" for fb'
  proof -
    let ?s = "canvas (concatMatrix ext (transformFromCompositingAncestor c))
                (fb\<lparr>mCanvasState := snd (save ext {kMatrix_SaveFlag} (mCanvasState fb))\<rparr>)"
    from run obtain fb1 where a: "deferRenderNodeOpImpl ext f c ?s = Inr fb1"
      and b: "deferProjectedNodes ext f cs
                (fb1\<lparr>mCanvasState :=
                   restoreToCount (getSaveCount (mCanvasState fb)) (mCanvasState fb1)\<rparr>)
              = Inr fb'"
      by (simp add: Let_def case_prod_unfold) (erule andThen_InrE)
    have "saved fb ?s" by simp
    moreover from satD[OF i a] have "R ?s fb1" .
    ultimately have "R fb (fb1\<lparr>mCanvasState :=
                   restoreToCount (getSaveCount (mCanvasState fb)) (mCanvasState fb1)\<rparr>)"
      by (rule invariant_frame[OF inv])
    moreover from satD[OF r b] have "R (fb1\<lparr>mCanvasState :=
                   restoreToCount (getSaveCount (mCanvasState fb)) (mCanvasState fb1)\<rparr>) fb'" .
    ultimately show ?thesis by (rule invariant_trans[OF inv])
  qed
  then show ?case by (simp add: sat_def)
qed

lemma deferProjectedChildren_invariant:
  assumes inv: "traversalInvariant R"
    and "\<And>c s. c \<in> set (mProjectedNodes node) \<Longrightarrow> sat R s (f (renderNode c) s)"
  shows "sat R fb (deferProjectedChildren ext f node fb)"
proof -
  have n: "sat R s (deferProjectedNodes ext f (mProjectedNodes node) s)" for s
    by (rule deferProjectedNodes_invariant[OF inv]) (rule assms(2))
  have "R fb fb'" if run: "deferProjectedChildren ext f node fb = Inr fb'" for fb'
  proof -
    from run obtain s fb1 where s: "saved fb s"
      and a: "deferProjectedNodes ext f (mProjectedNodes node) s = Inr fb1"
      and b: "fb' = fb1\<lparr>mCanvasState :=
                        restoreToCount (getSaveCount (mCanvasState fb)) (mCanvasState fb1)\<rparr>"
      unfolding deferProjectedChildren_def
      by (simp add: Let_def case_prod_unfold) (elim andThen_InrE, force)
    from satD[OF n a] have "R s fb1" .
    with s show ?thesis unfolding b by (rule invariant_frame[OF inv])
  qed
  then show ?thesis by (simp add: sat_def)
qed

text \<open>Every op but the two that open and close a save layer.\<close>

lemma deferOp_invariant:
  assumes inv: "traversalInvariant R"
    and children: "\<And>c s. c \<in> set (getChildren dl) \<Longrightarrow> sat R s (f (renderNode c) s)"
    and "opId recordedOp \<noteq> BeginLayerOp" and "opId recordedOp \<noteq> EndLayerOp"
  shows "sat R fb (deferOp ext f dl sk recordedOp fb)"
proof (cases "isDrawOp (opId recordedOp)")
  case True
  from draw_layerLocal[OF this, of fb ext f dl sk] show ?thesis
    by (auto simp: sat_def intro: invariant_local[OF inv])
next
  case False
  have l: "sat layerLocal fb r \<Longrightarrow> sat R fb r" for r
    by (auto simp: sat_def intro: invariant_local[OF inv])
  from False assms(3,4) show ?thesis
    by (cases "opId recordedOp")
       (auto simp: deferOp_def deferRenderNodeOp_def l invariant_refl[OF inv]
             intro!: sat_pure deferRenderNodeOpImpl_invariant[OF inv] children
             dest: elementAt_mem)
qed

lemma deferBeginLayerOp_stacks:
  assumes "deferBeginLayerOp ext recordedOp fb = Inr fb'"
  shows "mLayerStack fb' = mLayerStack fb @ [length (mLayerBuilders fb)]"
    and "mPrevious (mCanvasState fb') = mSnapshot (mCanvasState fb) # mPrevious (mCanvasState fb)"
    and "\<exists>lb. layerNodes fb' = layerNodes fb @ [lb] \<and> layerNode lb = None"
  using assms
  by (auto simp: deferBeginLayerOp_def Let_def saveForLayer_def save_def writeSnapshot_def
                 layerNodes_def layerIdentity_def newLayerBuilder_def
           elim!: andThen_InrE)

lemma restoreForLayer_stacks:
  assumes "restoreForLayer fb = Inr fb'"
  shows "mLayerStack fb' = butlast (mLayerStack fb)" and "mLayerStack fb \<noteq> []"
    and "mPrevious (mCanvasState fb') = tl (mPrevious (mCanvasState fb))"
    and "mPrevious (mCanvasState fb) \<noteq> []"
    and "layerNodes fb' = layerNodes fb"
  using assms
  by (auto simp: restoreForLayer_def restore_def layerNodes_def
           split: list.splits if_splits elim!: andThen_InrE)

lemma deferEndLayerOp_InrE:
  assumes "deferEndLayerOp ext fb = Inr fb'"
  obtains fb1 where "restoreForLayer fb = Inr fb1" and "layerLocal fb1 fb'"
proof -
  from assms obtain fb1 where r: "restoreForLayer fb = Inr fb1"
    and d: "(\<exists>b. onCurrentLayer (deferUnmergeableOp b Bitmap) fb1 = Inr fb')
            \<or> (\<exists>i. fb' = fb1\<lparr>mLayerBuilders := (mLayerBuilders fb1)
                               [i := clear (mLayerBuilders fb1 ! i)]\<rparr>)"
    by (auto simp: deferEndLayerOp_def Let_def andThen_def split: sum.splits option.splits)
  from d have "layerLocal fb1 fb'"
  proof
    assume "\<exists>b. onCurrentLayer (deferUnmergeableOp b Bitmap) fb1 = Inr fb'"
    then obtain b where "onCurrentLayer (deferUnmergeableOp b Bitmap) fb1 = Inr fb'" ..
    from satD[OF unmergeable_layerLocal this] show ?thesis .
  next
    assume "\<exists>i. fb' = fb1\<lparr>mLayerBuilders := (mLayerBuilders fb1)
                               [i := clear (mLayerBuilders fb1 ! i)]\<rparr>"
    then show ?thesis
      by (auto simp: layerLocal_def layerNodes_update clear_def layerIdentity_def)
  qed
  with r show ?thesis by (rule that)
qed

lemma deferNodePropsAndOps_InrE:
  assumes "deferNodePropsAndOps ext node fb = Inr fb'"
  obtains (rejected) "fb' = fb"
  | (quick) b where "applyNodeProperties ext (properties node) fb = Inr (b, fb')"
  | (layer) b fb1 baked where "applyNodeProperties ext (properties node) fb = Inr (b, fb1)"
      and "onCurrentLayer (deferUnmergeableOp baked Bitmap) fb1 = Inr fb'"
  | (saveLayer) b fb1 a fb2 fb3 where
      "applyNodeProperties ext (properties node) fb = Inr (b, fb1)"
      and "deferBeginLayerOp ext
             \<lparr>opId = BeginLayerOp, unmappedBounds = b, localMatrix = identity4 ext,
              localClip = None, paint = Some (setAlpha a defaultPaint)\<rparr> fb1 = Inr fb2"
      and "deferNodeOps ext (deferNodePropsAndOps ext) node fb2 = Inr fb3"
      and "deferEndLayerOp ext fb3 = Inr fb'"
  | (plain) b fb1 where "applyNodeProperties ext (properties node) fb = Inr (b, fb1)"
      and "deferNodeOps ext (deferNodePropsAndOps ext) node fb1 = Inr fb'"
  using assms
  by (subst (asm) deferNodePropsAndOps.simps)
     (auto simp: Let_def split: if_splits option.splits elim!: andThen_InrE)

subsection \<open>The layer builders of the layer-update queue (claim C4)\<close>

lemma growsNone_refl [simp]: "growsNone fb fb"
  by (simp add: growsNone_def)



lemma growsNone_canvas [simp]: "growsNone (canvas f fb) fb' = growsNone fb fb'"
  "growsNone fb (canvas f fb') = growsNone fb fb'"
  by (simp_all add: growsNone_def)

lemma growsNone_fields [simp]:
  "growsNone (fb\<lparr>mCanvasState := cs\<rparr>) fb' = growsNone fb fb'"
  "growsNone fb (fb'\<lparr>mCanvasState := cs\<rparr>) = growsNone fb fb'"
  by (simp_all add: growsNone_def)






















subsection \<open>Balanced stacks (claim C6)\<close>

lemma kept_refl [simp]: "kept fb fb"
  by (simp add: kept_def)

lemma kept_trans: "kept a b \<Longrightarrow> kept b c \<Longrightarrow> kept a c"
  by (simp add: kept_def)

lemma layerLocal_kept: "layerLocal a b \<Longrightarrow> kept a b"
  by (simp add: layerLocal_def kept_def)

lemma sameLayers_kept: "sameLayers a b \<Longrightarrow> kept a b"
  by (simp add: sameLayers_def kept_def)

lemma kept_invariant: "traversalInvariant kept"
proof -
  have "kept fb (fb1\<lparr>mCanvasState :=
                      restoreToCount (getSaveCount (mCanvasState fb)) (mCanvasState fb1)\<rparr>)"
    if "saved fb s" and "kept s fb1" for fb s fb1 :: "('a, 'b, 'c) FrameBuilder"
  proof -
    from that have "mPrevious (mCanvasState fb1)
                    = mSnapshot (mCanvasState fb) # mPrevious (mCanvasState fb)"
      and "mLayerStack fb1 = mLayerStack fb"
      by (simp_all add: saved_def kept_def)
    then show ?thesis by (simp add: kept_def restoreToCount_after_save)
  qed
  then show ?thesis
    unfolding traversalInvariant_def
    by (auto intro: kept_trans layerLocal_kept)
qed

lemma opened_zero: "opened 0 a b = kept a b"
  by (simp add: opened_def kept_def)

lemma opened_kept: "opened d a b \<Longrightarrow> kept b c \<Longrightarrow> opened d a c"
  by (simp add: opened_def kept_def)

lemma opened_begin:
  assumes "deferBeginLayerOp ext recordedOp b = Inr c" and "opened d a b"
  shows "opened (Suc d) a c"
proof -
  from assms(2) obtain ls ps where "length ls = d" "length ps = d"
    "mLayerStack b = mLayerStack a @ ls"
    "mPrevious (mCanvasState b) = ps @ mPrevious (mCanvasState a)"
    by (auto simp: opened_def)
  with deferBeginLayerOp_stacks(1,2)[OF assms(1)]
  have "length (ls @ [length (mLayerBuilders b)]) = Suc d
        \<and> length (mSnapshot (mCanvasState b) # ps) = Suc d
        \<and> mLayerStack c = mLayerStack a @ (ls @ [length (mLayerBuilders b)])
        \<and> mPrevious (mCanvasState c)
            = (mSnapshot (mCanvasState b) # ps) @ mPrevious (mCanvasState a)"
    by simp
  then show ?thesis unfolding opened_def by blast
qed

lemma opened_restore:
  assumes "restoreForLayer b = Inr c" and "opened (Suc d) a b"
  shows "opened d a c"
proof -
  from assms(2) obtain ls ps where l: "length ls = Suc d" "length ps = Suc d"
    and s: "mLayerStack b = mLayerStack a @ ls"
    "mPrevious (mCanvasState b) = ps @ mPrevious (mCanvasState a)"
    by (auto simp: opened_def)
  from l have ne: "ls \<noteq> []" "ps \<noteq> []" by auto
  with s restoreForLayer_stacks(1,3)[OF assms(1)]
  have "mLayerStack c = mLayerStack a @ butlast ls"
    and "mPrevious (mCanvasState c) = tl ps @ mPrevious (mCanvasState a)"
    by (simp_all add: butlast_append)
  moreover from l have "length (butlast ls) = d" "length (tl ps) = d" by simp_all
  ultimately show ?thesis unfolding opened_def by blast
qed

lemma opened_end:
  assumes "deferEndLayerOp ext b = Inr c" and "opened (Suc d) a b"
  shows "opened d a c"
  using assms(1)
proof (rule deferEndLayerOp_InrE)
  fix fb1
  assume "restoreForLayer b = Inr fb1" and "layerLocal fb1 c"
  from opened_restore[OF this(1) assms(2)] layerLocal_kept[OF this(2)]
  show ?thesis by (rule opened_kept)
qed

lemma layerDepth_append:
  "layerDepth ops (xs @ ys) d = Some d''
     \<Longrightarrow> \<exists>d'. layerDepth ops xs d = Some d' \<and> layerDepth ops ys d' = Some d''"
  by (induction xs arbitrary: d) (auto split: if_splits nat.splits)

lemma deferChunkOps_opened:
  assumes children: "\<And>c s. c \<in> set (mProjectedNodes node) \<union> set (getChildren dl)
             \<Longrightarrow> sat kept s (f (renderNode c) s)"
  shows "deferChunkOps ext f node dl sk is fb = Inr fb'
           \<Longrightarrow> layerDepth (getOps dl) is d = Some d' \<Longrightarrow> opened d fb0 fb
           \<Longrightarrow> opened d' fb0 fb'"
proof (induction "is" arbitrary: fb d)
  case Nil
  then show ?case by simp
next
  case (Cons i rest)
  have p: "sat kept s (deferProjectedChildren ext f node s)" for s
    by (rule deferProjectedChildren_invariant[OF kept_invariant]) (simp add: children)
  from Cons.prems(1) obtain r fb1 fb2 where e: "elementAt (getOps dl) i = Inr r"
    and o: "deferOp ext f dl sk r fb = Inr fb1"
    and q: "fb2 = fb1 \<or> deferProjectedChildren ext f node fb1 = Inr fb2"
    and run: "deferChunkOps ext f node dl sk rest fb2 = Inr fb'"
    by (simp only: deferChunkOps.simps) (elim andThen_InrE, auto split: if_splits)
  from e have i: "i < length (getOps dl)" and r: "getOps dl ! i = r"
    by (auto simp: elementAt_def split: if_splits)
  from q satD[OF p] have k2: "kept fb1 fb2" by auto
  consider (beg) "opId r = BeginLayerOp" | (en) "opId r = EndLayerOp"
    | (other) "opId r \<noteq> BeginLayerOp" "opId r \<noteq> EndLayerOp" by blast
  then obtain d1 where o1: "opened d1 fb0 fb1"
    and l1: "layerDepth (getOps dl) rest d1 = Some d'"
  proof cases
    case beg
    with o have "deferBeginLayerOp ext r fb = Inr fb1" by (simp add: deferOp_def)
    from opened_begin[OF this Cons.prems(3)] have "opened (Suc d) fb0 fb1" .
    moreover from Cons.prems(2) i r beg have "layerDepth (getOps dl) rest (Suc d) = Some d'"
      by simp
    ultimately show ?thesis by (rule that)
  next
    case en
    with o have e: "deferEndLayerOp ext fb = Inr fb1" by (simp add: deferOp_def)
    from Cons.prems(2) i r en obtain k where k: "d = Suc k"
      and l: "layerDepth (getOps dl) rest k = Some d'"
      by (cases d) auto
    from opened_end[OF e] Cons.prems(3) k have "opened k fb0 fb1" by simp
    then show ?thesis using l by (rule that)
  next
    case other
    have "sat kept fb (deferOp ext f dl sk r fb)"
      by (rule deferOp_invariant[OF kept_invariant]) (simp_all add: children other)
    from opened_kept[OF Cons.prems(3) satD[OF this o]] have "opened d fb0 fb1" .
    moreover from Cons.prems(2) i r other have "layerDepth (getOps dl) rest d = Some d'"
      by simp
    ultimately show ?thesis by (rule that)
  qed
  from opened_kept[OF o1 k2] have "opened d1 fb0 fb2" .
  with run l1 show ?case by (rule Cons.IH)
qed

lemma deferChunks_opened:
  assumes children: "\<And>c s. c \<in> set (mProjectedNodes node) \<union> set (getChildren dl)
             \<Longrightarrow> sat kept s (f (renderNode c) s)"
  shows "deferChunks ext f node dl chunks sk fb = Inr fb'
           \<Longrightarrow> layerDepth (getOps dl) (visitedOpIndices chunks) d = Some d'
           \<Longrightarrow> opened d fb0 fb \<Longrightarrow> opened d' fb0 fb'"
proof (induction chunks arbitrary: sk fb d)
  case Nil
  then show ?case by (simp add: visitedOpIndices_def)
next
  case (Cons chunk rest)
  have z: "sat kept s (defer3dChildren ext f m zs s)"
    if "buildZSortedChildList ext dl chunk sk = Inr (zs, sk')" for m zs sk' s
    using buildZSortedChildList_subset[OF that]
    by (intro defer3dChildren_invariant kept_invariant children) auto
  from Cons.prems(1) obtain zs sk' where
    b: "buildZSortedChildList ext dl chunk sk = Inr (zs, sk')"
    and run1: "andThen (defer3dChildren ext f Negative zs fb) (\<lambda>fb.
               andThen (deferChunkOps ext f node dl sk'
                          [beginOpIndex chunk ..< endOpIndex chunk] fb) (\<lambda>fb.
               andThen (defer3dChildren ext f Positive zs fb) (\<lambda>fb.
                 deferChunks ext f node dl rest sk' fb))) = Inr fb'"
    by (simp only: deferChunks.simps) (erule andThen_InrE, auto)
  from run1 obtain fb1 fb2 fb3 where
    n: "defer3dChildren ext f Negative zs fb = Inr fb1"
    and o: "deferChunkOps ext f node dl sk' [beginOpIndex chunk ..< endOpIndex chunk] fb1
            = Inr fb2"
    and p: "defer3dChildren ext f Positive zs fb2 = Inr fb3"
    and run: "deferChunks ext f node dl rest sk' fb3 = Inr fb'"
    by (elim andThen_InrE) blast
  from Cons.prems(2) obtain d1 where
    l1: "layerDepth (getOps dl) [beginOpIndex chunk ..< endOpIndex chunk] d = Some d1"
    and l2: "layerDepth (getOps dl) (visitedOpIndices rest) d1 = Some d'"
    by (auto simp: visitedOpIndices_def dest: layerDepth_append)
  from opened_kept[OF Cons.prems(3) satD[OF z[OF b] n]] have "opened d fb0 fb1" .
  from deferChunkOps_opened[OF children o l1 this] have "opened d1 fb0 fb2" .
  from opened_kept[OF this satD[OF z[OF b] p]] have "opened d1 fb0 fb3" .
  with run l2 show ?case by (rule Cons.IH)
qed

lemma deferNodeOps_kept:
  assumes "\<And>n s. n \<in> subNodes node \<Longrightarrow> sat kept s (f n s)"
    and "\<And>dl. getDisplayList node = Some dl \<Longrightarrow> balancedOps dl"
  shows "sat kept fb (deferNodeOps ext f node fb)"
proof -
  have "kept fb fb'" if "deferNodeOps ext f node fb = Inr fb'" for fb'
  proof -
    from that obtain dl where dl: "getDisplayList node = Some dl"
      and run: "deferChunks ext f node dl (getChunks dl) (map skipInOrderDraw (getChildren dl))
                  fb = Inr fb'"
      by (auto simp: deferNodeOps_def deref_def split: option.splits elim!: andThen_InrE)
    have c: "sat kept s (f (renderNode c) s)"
      if "c \<in> set (mProjectedNodes node) \<union> set (getChildren dl)" for c s
      using that dl by (intro assms(1)) (auto simp: subNodes_def)
    from assms(2)[OF dl]
    have "layerDepth (getOps dl) (visitedOpIndices (getChunks dl)) 0 = Some 0"
      by (simp add: balancedOps_def)
    from deferChunks_opened[OF c run this, of fb] show ?thesis
      by (simp add: opened_zero)
  qed
  then show ?thesis by (simp add: sat_def)
qed

lemma deferNodePropsAndOps_kept:
  "balancedNode node \<Longrightarrow> sat kept fb (deferNodePropsAndOps ext node fb)"
proof (induction node arbitrary: fb rule: measure_induct_rule[of size])
  case (less node)
  from less.prems have b: "\<And>dl. getDisplayList node = Some dl \<Longrightarrow> balancedOps dl"
    and sub: "\<And>n. n \<in> subNodes node \<Longrightarrow> balancedNode n"
    by (subst (asm) balancedNode.simps, simp)+
  have ops: "sat kept s (deferNodeOps ext (deferNodePropsAndOps ext) node s)" for s
    by (rule deferNodeOps_kept) (auto intro: less.IH subNodes_size sub b)
  have "kept fb fb'" if "deferNodePropsAndOps ext node fb = Inr fb'" for fb'
    using that
  proof (cases rule: deferNodePropsAndOps_InrE)
    case rejected
    then show ?thesis by simp
  next
    case (quick b)
    then show ?thesis by (intro sameLayers_kept applyNodeProperties_sameLayers)
  next
    case (layer b fb1 baked)
    from layer(1) have "kept fb fb1"
      by (intro sameLayers_kept applyNodeProperties_sameLayers)
    moreover from satD[OF unmergeable_layerLocal layer(2)] have "kept fb1 fb'"
      by (rule layerLocal_kept)
    ultimately show ?thesis by (rule kept_trans)
  next
    case (saveLayer b fb1 a fb2 fb3)
    from saveLayer(1) have "opened 0 fb fb1"
      unfolding opened_zero by (intro sameLayers_kept applyNodeProperties_sameLayers)
    from opened_begin[OF saveLayer(2) this] have "opened (Suc 0) fb fb2" .
    from opened_kept[OF this satD[OF ops saveLayer(3)]] have "opened (Suc 0) fb fb3" .
    from opened_end[OF saveLayer(4) this] show ?thesis by (simp add: opened_zero)
  next
    case (plain b fb1)
    from plain(1) have "kept fb fb1"
      by (intro sameLayers_kept applyNodeProperties_sameLayers)
    with satD[OF ops plain(2)] show ?thesis by (blast intro: kept_trans)
  qed
  then show ?case by (simp add: sat_def)
qed

lemma deferLayerUpdate_kept:
  assumes "balancedNode (computeOrdering ext (entryNode entry))"
  shows "sat kept fb (deferLayerUpdate ext entry fb)"
proof -
  let ?n = "computeOrdering ext (entryNode entry)"
  from assms have b: "\<And>dl. getDisplayList ?n = Some dl \<Longrightarrow> balancedOps dl"
    and sub: "\<And>n. n \<in> subNodes ?n \<Longrightarrow> balancedNode n"
    by (subst (asm) balancedNode.simps, simp)+
  have ops: "sat kept s (deferNodeOps ext (deferNodePropsAndOps ext) ?n s)" for s
    by (rule deferNodeOps_kept) (auto intro: deferNodePropsAndOps_kept sub b)
  have "kept fb fb'" if run: "deferLayerUpdate ext entry fb = Inr fb'" for fb'
  proof -
    from run obtain layer where
      "deref (getLayer ?n) = Inr layer"
      and run1: "andThen
            (if getDisplayList ?n \<noteq> None
             then deferNodeOps ext (deferNodePropsAndOps ext) ?n
                    (saveForLayer ext (intToUInt32 (getWidth (properties ?n)))
                       (intToUInt32 (getHeight (properties ?n))) 0 0 (damage entry)
                       (mapPoint3d ext (inverseTransformInWindow layer)
                          (getRelativeLightCenter ext (currentSnapshot fb)))
                       None (Some ?n) fb)
             else Inr (saveForLayer ext (intToUInt32 (getWidth (properties ?n)))
                       (intToUInt32 (getHeight (properties ?n))) 0 0 (damage entry)
                       (mapPoint3d ext (inverseTransformInWindow layer)
                          (getRelativeLightCenter ext (currentSnapshot fb)))
                       None (Some ?n) fb))
            restoreForLayer = Inr fb'"
      by (simp only: deferLayerUpdate_def Let_def) (erule andThen_InrE)
    let ?s = "saveForLayer ext (intToUInt32 (getWidth (properties ?n)))
                (intToUInt32 (getHeight (properties ?n))) 0 0 (damage entry)
                (mapPoint3d ext (inverseTransformInWindow layer)
                   (getRelativeLightCenter ext (currentSnapshot fb)))
                None (Some ?n) fb"
    from run1 obtain fb2 where
      o: "fb2 = ?s \<or> deferNodeOps ext (deferNodePropsAndOps ext) ?n ?s = Inr fb2"
      and r: "restoreForLayer fb2 = Inr fb'"
      by (auto split: if_splits elim!: andThen_InrE)
    have "length [length (mLayerBuilders fb)] = Suc 0
          \<and> length [mSnapshot (mCanvasState fb)] = Suc 0
          \<and> mLayerStack ?s = mLayerStack fb @ [length (mLayerBuilders fb)]
          \<and> mPrevious (mCanvasState ?s)
              = [mSnapshot (mCanvasState fb)] @ mPrevious (mCanvasState fb)"
      by (simp add: saveForLayer_def Let_def save_def writeSnapshot_def)
    then have "opened (Suc 0) fb ?s" unfolding opened_def by blast
    moreover from o satD[OF ops] have "kept ?s fb2" by auto
    ultimately have "opened (Suc 0) fb fb2" by (rule opened_kept)
    from opened_restore[OF r this] show ?thesis by (simp add: opened_zero)
  qed
  then show ?thesis by (simp add: sat_def)
qed

lemma deferLayerUpdates_kept:
  "\<forall>entry\<in>set entries. balancedNode (computeOrdering ext (entryNode entry))
     \<Longrightarrow> sat kept fb (deferLayerUpdates ext entries fb)"
proof (induction entries arbitrary: fb)
  case Nil
  show ?case by simp
next
  case (Cons entry rest)
  have "kept fb fb'" if "deferLayerUpdates ext (entry # rest) fb = Inr fb'" for fb'
  proof -
    from that obtain fb1 where a: "deferLayerUpdate ext entry fb = Inr fb1"
      and b: "deferLayerUpdates ext rest fb1 = Inr fb'"
      by (auto elim!: andThen_InrE)
    from Cons.prems have "sat kept fb (deferLayerUpdate ext entry fb)"
      by (intro deferLayerUpdate_kept) simp
    from satD[OF this a] have "kept fb fb1" .
    moreover from Cons.prems have "sat kept fb1 (deferLayerUpdates ext rest fb1)"
      by (intro Cons.IH) simp
    from satD[OF this b] have "kept fb1 fb'" .
    ultimately show ?thesis by (rule kept_trans)
  qed
  then show ?case by (simp add: sat_def)
qed

lemma deferNodes_kept:
  "\<forall>node\<in>set nodes. balancedNode (computeOrdering ext node)
     \<Longrightarrow> sat kept fb (deferNodes ext nodes fb)"
proof (induction nodes arbitrary: fb)
  case Nil
  show ?case by simp
next
  case (Cons node rest)
  have r: "sat kept s (deferNodes ext rest s)" for s
    using Cons.prems by (intro Cons.IH) simp
  have "kept fb fb'" if run: "deferNodes ext (node # rest) fb = Inr fb'" for fb'
  proof (cases "nothingToDraw ext node")
    case True
    with run r[of fb] show ?thesis by (auto dest: satD)
  next
    case False
    let ?s = "fb\<lparr>mCanvasState :=
                   snd (save ext {kClip_SaveFlag, kMatrix_SaveFlag} (mCanvasState fb))\<rparr>"
    from False run obtain fb1 where
      a: "deferNodePropsAndOps ext (computeOrdering ext node) ?s = Inr fb1"
      and b: "deferNodes ext rest
                (fb1\<lparr>mCanvasState :=
                   restoreToCount (getSaveCount (mCanvasState fb)) (mCanvasState fb1)\<rparr>)
              = Inr fb'"
      by (auto simp: Let_def case_prod_unfold elim!: andThen_InrE)
    from Cons.prems
    have "sat kept ?s (deferNodePropsAndOps ext (computeOrdering ext node) ?s)"
      by (intro deferNodePropsAndOps_kept) simp
    from satD[OF this a] have "kept ?s fb1" .
    with saved_save have "kept fb (fb1\<lparr>mCanvasState :=
                   restoreToCount (getSaveCount (mCanvasState fb)) (mCanvasState fb1)\<rparr>)"
      by (rule invariant_frame[OF kept_invariant])
    moreover from satD[OF r b] have "kept (fb1\<lparr>mCanvasState :=
                   restoreToCount (getSaveCount (mCanvasState fb)) (mCanvasState fb1)\<rparr>) fb'" .
    ultimately show ?thesis by (rule kept_trans)
  qed
  then show ?case by (simp add: sat_def)
qed

text \<open>Claim C6. The nodes that the constructor traverses are those that
  \<open>computeOrdering\<close> gives for the nodes of the layer-update queue and for the root nodes.
  When each of them is balanced (in each display list reached, every \<open>EndLayerOp\<close>
  closes a save layer that a \<open>BeginLayerOp\<close> of the same display list opened, and none
  stays open) and the constructor returns, the layer stack holds the index 0 alone and
  the save count of the canvas state is what it was at the start, which is 1.\<close>

theorem construction_leaves_stacks_balanced:
  assumes "\<forall>entry\<in>set layers. balancedNode (computeOrdering ext (entryNode entry))"
    and "\<forall>node\<in>set nodes. balancedNode (computeOrdering ext node)"
    and "FrameBuilder ext layers clip viewportWidth viewportHeight nodes lightCenter = Inr fb"
  shows "mLayerStack fb = [0]
         \<and> getSaveCount (mCanvasState fb)
           = getSaveCount (mCanvasState
               (initialFrameBuilder ext clip viewportWidth viewportHeight lightCenter))
         \<and> getSaveCount (mCanvasState fb) = 1"
proof -
  let ?i = "initialFrameBuilder ext clip viewportWidth viewportHeight lightCenter"
  from assms(3) obtain fb1 where a: "deferLayerUpdates ext (rev layers) ?i = Inr fb1"
    and b: "deferNodes ext nodes fb1 = Inr fb"
    by (auto simp: FrameBuilder_def elim!: andThen_InrE)
  from assms(1) have "sat kept ?i (deferLayerUpdates ext (rev layers) ?i)"
    by (intro deferLayerUpdates_kept) simp
  from satD[OF this a] have "kept ?i fb1" .
  moreover from satD[OF deferNodes_kept[OF assms(2)] b] have "kept fb1 fb" .
  ultimately have "kept ?i fb" by (rule kept_trans)
  then show ?thesis
    by (simp add: kept_def initialFrameBuilder_def getSaveCount_def)
qed

theorem construction_leaves_stacks_balanced_witness:
  "balancedNode
     (computeOrdering simpleExt
        (entryNode (layerUpdateOf 20 [recorded BeginLayerOp (mkRect 0 0 20 20),
                                      recorded RectOp (mkRect 2 2 8 8),
                                      recorded EndLayerOp emptyRect])))
   \<and> balancedNode
       (computeOrdering simpleExt
          (nodeWith (defaultProperties 50 50)
             [recorded BeginLayerOp (mkRect 0 0 30 30),
              recorded RectOp (mkRect 5 5 15 15),
              recorded EndLayerOp emptyRect] []))
   \<and> isOk (FrameBuilder simpleExt
             [layerUpdateOf 20 [recorded BeginLayerOp (mkRect 0 0 20 20),
                                recorded RectOp (mkRect 2 2 8 8),
                                recorded EndLayerOp emptyRect]]
             (rectWH 100 100) 100 100
             [nodeWith (defaultProperties 50 50)
                [recorded BeginLayerOp (mkRect 0 0 30 30),
                 recorded RectOp (mkRect 5 5 15 15),
                 recorded EndLayerOp emptyRect] []]
             (50, 50, 100))
   \<and> mLayerStack
        (projr (FrameBuilder simpleExt
             [layerUpdateOf 20 [recorded BeginLayerOp (mkRect 0 0 20 20),
                                recorded RectOp (mkRect 2 2 8 8),
                                recorded EndLayerOp emptyRect]]
             (rectWH 100 100) 100 100
             [nodeWith (defaultProperties 50 50)
                [recorded BeginLayerOp (mkRect 0 0 30 30),
                 recorded RectOp (mkRect 5 5 15 15),
                 recorded EndLayerOp emptyRect] []]
             (50, 50, 100))) = [0]
   \<and> getSaveCount
        (mCanvasState
          (projr (FrameBuilder simpleExt
             [layerUpdateOf 20 [recorded BeginLayerOp (mkRect 0 0 20 20),
                                recorded RectOp (mkRect 2 2 8 8),
                                recorded EndLayerOp emptyRect]]
             (rectWH 100 100) 100 100
             [nodeWith (defaultProperties 50 50)
                [recorded BeginLayerOp (mkRect 0 0 30 30),
                 recorded RectOp (mkRect 5 5 15 15),
                 recorded EndLayerOp emptyRect] []]
             (50, 50, 100)))) = 1"
proof -
  let ?e = "layerUpdateOf 20 [recorded BeginLayerOp (mkRect 0 0 20 20),
                              recorded RectOp (mkRect 2 2 8 8),
                              recorded EndLayerOp emptyRect]"
  let ?n = "nodeWith (defaultProperties 50 50)
              [recorded BeginLayerOp (mkRect 0 0 30 30),
               recorded RectOp (mkRect 5 5 15 15),
               recorded EndLayerOp emptyRect] []"
  let ?run = "FrameBuilder simpleExt [?e] (rectWH 100 100) 100 100 [?n] (50, 50, 100)"
  have e: "balancedNode (computeOrdering simpleExt (entryNode ?e))"
    by (subst balancedNode.simps)
       (simp add: subNodes_def balancedOps_def visitedOpIndices_def layerUpdateOf_def
                  simpleExt_def recorded_def)
  have n: "balancedNode (computeOrdering simpleExt ?n)"
    by (subst balancedNode.simps)
       (simp add: subNodes_def balancedOps_def visitedOpIndices_def nodeWith_def
                  simpleExt_def recorded_def)
  have ok: "isOk ?run"
    by (simp add: isOk_def layerUpdateOf_def nodeWith_def constructionDefs clear_def
                  deferNodePropsAndOps.simps applyNodeProperties_def
                  defaultProperties_def frame0Defs layerDefs rectDefs Let_def)
  then have run: "?run = Inr (projr ?run)"
    by (cases ?run) (simp_all add: isOk_def)
  from e have es: "\<forall>entry\<in>set [?e]. balancedNode (computeOrdering simpleExt (entryNode entry))"
    by simp
  from n have ns: "\<forall>node\<in>set [?n]. balancedNode (computeOrdering simpleExt node)"
    by simp
  from construction_leaves_stacks_balanced[OF es ns run] e n ok
  show ?thesis by simp
qed

end
